(* ===== verification/Prelude.thy ===== *)
theory Prelude
  imports Complex_Main
begin

text \<open>
  Shared vocabulary of the development: the collection \<open>model_simps\<close> into which
  every component puts the unfolding rules of its operations, the error monad on
  sums (\<open>sbind\<close>, \<open>Inl\<close> the raised exception, \<open>Inr\<close> the normal
  result) used to thread Python's exceptions through a handler, and generic
  lemmas on lists and sums that several components use.
\<close>

named_theorems model_simps "unfolding rules of the model's operations"

section \<open>Exceptions as the left summand\<close>

definition sbind :: "'e + 'a \<Rightarrow> ('a \<Rightarrow> 'e + 'b) \<Rightarrow> 'e + 'b" where
  "sbind m f = (case m of Inl e \<Rightarrow> Inl e | Inr a \<Rightarrow> f a)"

lemma sbind_Inl [simp]: "sbind (Inl e) f = Inl e"
  by (simp add: sbind_def)

lemma sbind_Inr [simp]: "sbind (Inr a) f = f a"
  by (simp add: sbind_def)

lemma sbind_eq_Inr:
  "sbind m f = Inr b \<longleftrightarrow> (\<exists>a. m = Inr a \<and> f a = Inr b)"
  by (cases m) simp_all

lemma sbind_eq_Inl:
  "sbind m f = Inl e \<longleftrightarrow> m = Inl e \<or> (\<exists>a. m = Inr a \<and> f a = Inl e)"
  by (cases m) simp_all

lemma map_sum_eq_Inl: "map_sum f g x = Inl y \<longleftrightarrow> (\<exists>a. x = Inl a \<and> y = f a)"
  by (cases x) auto

lemma find_Some_in: "find P xs = Some x \<Longrightarrow> x \<in> set xs"
  by (induction xs) (auto split: if_splits)

end
