(* ===== verification/PyBase.thy ===== *)
theory PyBase
  imports Prelude
begin

text \<open>
  The part of the Python runtime the scripts rely on, as HOL values: the
  exceptions they raise or let escape (\<open>py_exc\<close>; \<open>OpenAIError\<close> is any
  exception of the client library, with its message); the JSON values that
  \<open>json.loads\<close> produces and the dictionaries among them (\<open>jval\<close>,
  \<open>pydict\<close>, an association list because a Python dict keeps insertion order);
  \<open>dict.get\<close>, item assignment and \<open>dict.setdefault\<close>; the attribute
  access \<open>x.get\<close> on a value that may not be a dict; iteration (\<open>for x in v\<close>);
  truthiness; \<open>str()\<close> and \<open>repr()\<close> as the f-strings of the scripts use
  them; and the string methods \<open>strip\<close>, \<open>lower\<close>, \<open>upper\<close>,
  \<open>isdigit\<close> and \<open>int()\<close> on digit strings.

  Strings are \<open>string\<close> (byte lists). Case mapping and whitespace are
  Python's on the ASCII range; bytes above 127 are left as they are, where Python
  would act on the decoded code point. JSON numbers are integers only: no value
  the scripts read is a float. The JSON library itself (\<open>json.loads\<close>,
  \<open>json.dumps\<close>) is not part of the repository; it is an interface
  (\<open>json_codec\<close>), a pair of functions the components are parameterised by.
\<close>

section \<open>Exceptions\<close>

datatype py_exc =
    JSONDecodeError
  | AttributeError
  | TypeError
  | ValueError
  | EOFError
  | KeyboardInterrupt
  | KeyError
  | SystemExit int
  | OpenAIError string
  | RequestException string

section \<open>JSON values and dicts\<close>

datatype jval =
    JNull
  | JBool bool
  | JInt int
  | JStr string
  | JArr "jval list"
  | JObj "(string \<times> jval) list"

type_synonym pydict = "(string \<times> jval) list"

text \<open>\<open>d.get(k, default)\<close>\<close>

definition dict_get :: "pydict \<Rightarrow> string \<Rightarrow> jval \<Rightarrow> jval" where
  "dict_get d k dflt = (case map_of d k of Some v \<Rightarrow> v | None \<Rightarrow> dflt)"

text \<open>\<open>d[k] = v\<close>: an existing key keeps its position, a new one goes last.\<close>

fun dict_set :: "pydict \<Rightarrow> string \<Rightarrow> jval \<Rightarrow> pydict" where
  "dict_set [] k v = [(k, v)]"
| "dict_set ((k', v') # d) k v = (if k' = k then (k, v) # d else (k', v') # dict_set d k v)"

text \<open>\<open>d.setdefault(k, v)\<close>, its result unused as in the scripts.\<close>

definition dict_setdefault :: "pydict \<Rightarrow> string \<Rightarrow> jval \<Rightarrow> pydict" where
  "dict_setdefault d k v = (case map_of d k of Some _ \<Rightarrow> d | None \<Rightarrow> d @ [(k, v)])"

text \<open>\<open>x.get(k, default)\<close> on any JSON value: only a dict has the method.\<close>

fun jget :: "jval \<Rightarrow> string \<Rightarrow> jval \<Rightarrow> py_exc + jval" where
  "jget (JObj d) k dflt = Inr (dict_get d k dflt)"
| "jget _ k dflt = Inl AttributeError"

text \<open>\<open>bool(x)\<close>\<close>

fun py_truthy :: "jval \<Rightarrow> bool" where
  "py_truthy JNull = False"
| "py_truthy (JBool b) = b"
| "py_truthy (JInt i) = (i \<noteq> 0)"
| "py_truthy (JStr s) = (s \<noteq> [])"
| "py_truthy (JArr xs) = (xs \<noteq> [])"
| "py_truthy (JObj d) = (d \<noteq> [])"

text \<open>\<open>for x in v\<close>: a list yields its items, a string its characters, a dict its keys.\<close>

fun py_iter :: "jval \<Rightarrow> py_exc + jval list" where
  "py_iter (JArr xs) = Inr xs"
| "py_iter (JStr s) = Inr (map (\<lambda>c. JStr [c]) s)"
| "py_iter (JObj d) = Inr (map (\<lambda>kv. JStr (fst kv)) d)"
| "py_iter _ = Inl TypeError"

section \<open>The console\<close>

text \<open>
  What \<open>input()\<close> returns, in order: a line, or Ctrl-C (\<open>Interrupt\<close>, a
  \<open>KeyboardInterrupt\<close> raised while the script waits). The end of the list is
  the end of input, where \<open>input()\<close> raises \<open>EOFError\<close>.
\<close>

datatype console_in = Line string | Interrupt

fun py_input :: "console_in list \<Rightarrow> py_exc + string \<times> console_in list" where
  "py_input [] = Inl EOFError"
| "py_input (Interrupt # ins) = Inl KeyboardInterrupt"
| "py_input (Line l # ins) = Inr (l, ins)"

text \<open>
  A \<open>char\<close> is a byte, so a line is read as its bytes. On an ASCII line, which
  \<open>py_ascii\<close> recognises, Python's \<open>str\<close> methods (\<open>isdigit\<close>, \<open>strip\<close>,
  \<open>lower\<close>, \<open>int\<close>) agree with the byte-wise definitions below; outside ASCII
  they do not (\<open>"\<^sup>2".isdigit()\<close> is true in Python, and \<open>int()\<close> rejects it),
  so the theorems about digit parsing assume an ASCII console.
\<close>

definition py_ascii :: "string \<Rightarrow> bool" where
  "py_ascii s = list_all (\<lambda>c. of_char c < (128::nat)) s"

fun ascii_in :: "console_in \<Rightarrow> bool" where
  "ascii_in (Line l) = py_ascii l"
| "ascii_in Interrupt = True"

section \<open>The JSON library as an interface\<close>

record json_codec =
  loads :: "string \<Rightarrow> jval option"
  dumps :: "jval \<Rightarrow> string"

section \<open>Strings\<close>

definition py_is_space :: "char \<Rightarrow> bool" where
  "py_is_space c = (let n = (of_char c :: nat) in (9 \<le> n \<and> n \<le> 13) \<or> (28 \<le> n \<and> n \<le> 32))"

definition py_strip :: "string \<Rightarrow> string" where
  "py_strip s = rev (dropWhile py_is_space (rev (dropWhile py_is_space s)))"

definition py_lower_char :: "char \<Rightarrow> char" where
  "py_lower_char c = (let n = (of_char c :: nat) in if 65 \<le> n \<and> n \<le> 90 then char_of (n + 32) else c)"

definition py_upper_char :: "char \<Rightarrow> char" where
  "py_upper_char c = (let n = (of_char c :: nat) in if 97 \<le> n \<and> n \<le> 122 then char_of (n - 32) else c)"

definition py_lower :: "string \<Rightarrow> string" where
  "py_lower s = map py_lower_char s"

abbreviation py_upper :: "string \<Rightarrow> string" where
  "py_upper s \<equiv> map py_upper_char s"

definition py_is_digit_char :: "char \<Rightarrow> bool" where
  "py_is_digit_char c = (let n = (of_char c :: nat) in 48 \<le> n \<and> n \<le> 57)"

text \<open>\<open>s.isdigit()\<close>: false on the empty string.\<close>

definition py_isdigit :: "string \<Rightarrow> bool" where
  "py_isdigit s = (s \<noteq> [] \<and> list_all py_is_digit_char s)"

text \<open>\<open>int(s)\<close> on a string of decimal digits.\<close>

definition digits_value :: "string \<Rightarrow> nat" where
  "digits_value s = foldl (\<lambda>acc c. 10 * acc + (of_char c - 48)) 0 s"

fun nat_str :: "nat \<Rightarrow> string" where
  "nat_str n = (if n < 10 then [''0123456789'' ! n] else nat_str (n div 10) @ [''0123456789'' ! (n mod 10)])"

definition int_str :: "int \<Rightarrow> string" where
  "int_str i = (if i < 0 then CHR ''-'' # nat_str (nat (- i)) else nat_str (nat i))"

text \<open>\<open>needle in haystack\<close> on strings: a contiguous occurrence.\<close>

fun py_in :: "string \<Rightarrow> string \<Rightarrow> bool" where
  "py_in xs [] = (xs = [])"
| "py_in xs (y # ys) = (take (length xs) (y # ys) = xs \<or> py_in xs ys)"

text \<open>
  \<open>int(s)\<close> on a string: surrounding whitespace, an optional sign, then decimal
  digits with single underscores between them; anything else raises
  \<open>ValueError\<close> (\<open>None\<close> here).
\<close>

definition py_int_digits :: "string \<Rightarrow> bool" where
  "py_int_digits ds =
     (ds \<noteq> [] \<and> py_is_digit_char (hd ds) \<and> py_is_digit_char (last ds) \<and>
      list_all (\<lambda>c. py_is_digit_char c \<or> c = CHR ''_'') ds \<and> \<not> py_in ''__'' ds)"

definition py_int :: "string \<Rightarrow> int option" where
  "py_int s0 =
     (let s = py_strip s0;
          (sg, ds) = (case s of
                        c # r \<Rightarrow> if c = CHR ''-'' then (-1, r) else if c = CHR ''+'' then (1, r) else (1, s)
                      | [] \<Rightarrow> (1, []))
      in if py_int_digits ds then Some (sg * int (digits_value (filter py_is_digit_char ds))) else None)"

text \<open>\<open>sep.join(xs)\<close>\<close>

fun py_join :: "string \<Rightarrow> string list \<Rightarrow> string" where
  "py_join sep [] = []"
| "py_join sep [x] = x"
| "py_join sep (x # y # ys) = x @ sep @ py_join sep (y # ys)"

text \<open>
  \<open>repr()\<close> of a string: single quotes unless the string holds a single and no
  double quote; backslash, the quote, tab, newline and carriage return escaped,
  other control bytes as \<open>\x\<close> escapes.
\<close>

definition hex2 :: "nat \<Rightarrow> string" where
  "hex2 n = [''0123456789abcdef'' ! (n div 16), ''0123456789abcdef'' ! (n mod 16)]"

definition repr_char :: "char \<Rightarrow> char \<Rightarrow> string" where
  "repr_char q c =
     (let n = (of_char c :: nat) in
      if c = CHR 0x5C then [CHR 0x5C, CHR 0x5C]
      else if c = q then [CHR 0x5C, q]
      else if c = CHR 0x09 then [CHR 0x5C, CHR ''t'']
      else if c = CHR 0x0A then [CHR 0x5C, CHR ''n'']
      else if c = CHR 0x0D then [CHR 0x5C, CHR ''r'']
      else if n < 32 \<or> n = 127 then [CHR 0x5C, CHR ''x''] @ hex2 n
      else [c])"

definition repr_str :: "string \<Rightarrow> string" where
  "repr_str s =
     (let q = (if CHR 0x27 \<in> set s \<and> CHR 0x22 \<notin> set s then CHR 0x22 else CHR 0x27)
      in q # concat (map (repr_char q) s) @ [q])"

fun py_repr :: "jval \<Rightarrow> string" where
  "py_repr JNull = ''None''"
| "py_repr (JBool b) = (if b then ''True'' else ''False'')"
| "py_repr (JInt i) = int_str i"
| "py_repr (JStr s) = repr_str s"
| "py_repr (JArr xs) = ''['' @ py_join '', '' (map py_repr xs) @ '']''"
| "py_repr (JObj d) =
     ''{'' @ py_join '', '' (map (\<lambda>kv. repr_str (fst kv) @ '': '' @ py_repr (snd kv)) d) @ ''}''"

text \<open>\<open>str()\<close>, which is what an f-string inserts.\<close>

fun py_str :: "jval \<Rightarrow> string" where
  "py_str (JStr s) = s"
| "py_str v = py_repr v"

section \<open>Dict lemmas\<close>

lemma map_of_dict_set [simp]:
  "map_of (dict_set d k v) = (map_of d)(k \<mapsto> v)"
  by (induction d) (auto simp: fun_eq_iff)

lemma dict_get_set [simp]:
  "dict_get (dict_set d k v) k' dflt = (if k' = k then v else dict_get d k' dflt)"
  by (simp add: dict_get_def)

lemma keys_dict_set [simp]:
  "map fst (dict_set d k v) = (if k \<in> set (map fst d) then map fst d else map fst d @ [k])"
  by (induction d) force+

lemma fst_set_dict_set [simp]:
  "fst ` set (dict_set d k v) = insert k (fst ` set d)"
proof -
  have "set (map fst (dict_set d k v)) = insert k (set (map fst d))"
    by (simp only: keys_dict_set) auto
  then show ?thesis by (simp only: list.set_map)
qed

lemma distinct_keys_dict_set:
  "distinct (map fst d) \<Longrightarrow> distinct (map fst (dict_set d k v))"
  by simp

lemma dict_get_setdefault [simp]:
  "dict_get (dict_setdefault d k v) k' dflt =
     (if k' = k \<and> map_of d k = None then v else dict_get d k' dflt)"
  by (auto simp: dict_setdefault_def dict_get_def map_add_def split: option.splits)

lemma map_of_setdefault:
  "map_of (dict_setdefault d k v) = (if map_of d k = None then (map_of d)(k \<mapsto> v) else map_of d)"
  by (auto simp: dict_setdefault_def map_add_def fun_eq_iff split: option.splits)

lemma map_of_setdefault_Some:
  "\<exists>w. map_of (dict_setdefault d k v) k = Some w"
  by (auto simp: dict_setdefault_def map_add_def split: option.splits)

section \<open>String lemmas\<close>

lemma py_upper_char_idem [simp]: "py_upper_char (py_upper_char c) = py_upper_char c"
proof -
  have "(of_char c :: nat) < 256" by (rule nat_of_char_less_256)
  then have "(of_char c - 32) mod 256 = (of_char c - 32 :: nat)" by (intro mod_less) arith
  then show ?thesis by (simp add: py_upper_char_def Let_def) arith
qed

lemma py_lower_Nil [simp]: "py_lower [] = []"
  by (simp add: py_lower_def)

lemma py_upper_idem [simp]: "py_upper (py_upper s) = py_upper s"
  by (induction s) simp_all

text \<open>
  The decimal digits \<open>nat_str\<close> prints read back as the number
  (\<open>digits_value\<close>), and they are digits, so \<open>strip\<close> leaves them alone.
\<close>

lemma digit_char_of [simp]: "k < 10 \<Longrightarrow> of_char (''0123456789'' ! k) = 48 + k"
  by (auto simp: less_Suc_eq numeral_eq_Suc)

lemma digit_char_is_digit [simp]: "k < 10 \<Longrightarrow> py_is_digit_char (''0123456789'' ! k)"
  by (simp add: py_is_digit_char_def)

lemma digits_value_snoc: "digits_value (xs @ [c]) = 10 * digits_value xs + (of_char c - 48)"
  by (simp add: digits_value_def)

lemma nat_str_digits: "list_all py_is_digit_char (nat_str n) \<and> nat_str n \<noteq> [] \<and> digits_value (nat_str n) = n"
proof (induction n rule: nat_str.induct)
  case (1 n)
  show ?case
  proof (cases "n < 10")
    case True
    then show ?thesis by (simp add: digits_value_def)
  next
    case False
    with "1.IH" show ?thesis by (simp add: digits_value_snoc)
  qed
qed

lemma digit_not_space: "py_is_digit_char c \<Longrightarrow> \<not> py_is_space c"
  by (simp add: py_is_digit_char_def py_is_space_def Let_def)

lemma dropWhile_all_not: "\<forall>c\<in>set s. \<not> P c \<Longrightarrow> dropWhile P s = s"
  by (induction s) auto

lemma py_strip_digits: "list_all py_is_digit_char s \<Longrightarrow> py_strip s = s"
proof -
  assume a: "list_all py_is_digit_char s"
  then have "\<forall>c\<in>set s. \<not> py_is_space c" by (auto simp: list_all_iff digit_not_space)
  then show ?thesis by (simp add: py_strip_def dropWhile_all_not)
qed

lemma jget_eq_Inr:
  "jget x k dflt = Inr v \<longleftrightarrow> (\<exists>d. x = JObj d \<and> v = dict_get d k dflt)"
  by (cases x) auto

lemma py_input_Inr:
  "py_input ins = Inr (l, ins') \<longleftrightarrow> ins = Line l # ins'"
  by (cases ins rule: py_input.cases) auto

lemma py_input_Inl:
  "py_input ins = Inl e \<longleftrightarrow>
     (ins = [] \<and> e = EOFError) \<or> (\<exists>r. ins = Interrupt # r \<and> e = KeyboardInterrupt)"
  by (cases ins rule: py_input.cases) auto

section \<open>int() reads back str() of an int\<close>

text \<open>
  \<open>int(str(n)) == n\<close> for every integer: \<open>int_str\<close> prints an optional
  minus and digits, which \<open>py_int\<close> strips of nothing and reads back.
\<close>

lemma py_in_pair_digits:
  "list_all py_is_digit_char ds \<Longrightarrow> \<not> py_in ''__'' ds"
proof (induction ds)
  case (Cons y ys)
  then show ?case by (cases ys) (auto simp: py_is_digit_char_def)
qed simp
lemma py_strip_no_space: "\<forall>c\<in>set s. \<not> py_is_space c \<Longrightarrow> py_strip s = s"
  by (simp add: py_strip_def dropWhile_all_not)

lemma py_int_digits_digits:
  assumes "list_all py_is_digit_char s" "s \<noteq> []"
  shows "py_int_digits s"
proof -
  have "py_is_digit_char (hd s)" "py_is_digit_char (last s)"
    using assms by (simp_all add: list_all_iff)
  then show ?thesis using assms py_in_pair_digits [OF assms(1)]
    unfolding py_int_digits_def by (simp add: list_all_iff)
qed

lemma py_int_digit_string:
  assumes d: "list_all py_is_digit_char s" "s \<noteq> []"
  shows "py_int s = Some (int (digits_value s))" and "py_int (CHR ''-'' # s) = Some (- int (digits_value s))"
proof -
  obtain c cs where s: "s = c # cs" using d(2) by (cases s) auto
  have c: "c \<noteq> CHR ''-''" "c \<noteq> CHR ''+''" using d(1) s by (auto simp: py_is_digit_char_def)
  have sp: "\<forall>x\<in>set s. \<not> py_is_space x" using d(1) by (auto simp: list_all_iff digit_not_space)
  then have sp': "\<forall>x\<in>set (CHR ''-'' # s). \<not> py_is_space x" by (simp add: py_is_space_def)
  have f: "filter py_is_digit_char s = s" using d(1) by (simp add: list_all_iff)
  show "py_int s = Some (int (digits_value s))"
    using py_int_digits_digits [OF d] c f
    unfolding py_int_def py_strip_no_space [OF sp] by (simp add: s)
  show "py_int (CHR ''-'' # s) = Some (- int (digits_value s))"
    using py_int_digits_digits [OF d] f
    unfolding py_int_def py_strip_no_space [OF sp'] by simp
qed

lemma py_int_int_str: "py_int (int_str n) = Some n"
proof -
  define s where "s = nat_str (nat \<bar>n\<bar>)"
  have d: "list_all py_is_digit_char s" "s \<noteq> []" "digits_value s = nat \<bar>n\<bar>"
    using nat_str_digits [of "nat \<bar>n\<bar>"] by (simp_all add: s_def)
  have "int_str n = (if n < 0 then CHR ''-'' # s else s)"
    by (simp add: int_str_def s_def)
  then show ?thesis using py_int_digit_string [OF d(1,2)] d(3) by auto
qed
lemma int_str_strip: "py_strip (int_str n) = int_str n \<and> int_str n \<noteq> []"
proof -
  define s where "s = nat_str (nat \<bar>n\<bar>)"
  have d: "list_all py_is_digit_char s" "s \<noteq> []"
    using nat_str_digits [of "nat \<bar>n\<bar>"] by (simp_all add: s_def)
  have e: "int_str n = (if n < 0 then CHR ''-'' # s else s)"
    by (simp add: int_str_def s_def)
  have "\<forall>x\<in>set s. \<not> py_is_space x" using d(1) by (auto simp: list_all_iff digit_not_space)
  then have "\<forall>x\<in>set (int_str n). \<not> py_is_space x"
    unfolding e by (simp add: py_is_space_def)
  then show ?thesis using py_strip_no_space d(2) e by auto
qed
end
