(* ===== verification/Messages.thy ===== *)
theory Messages
  imports PyBase
begin

text \<open>
  The Message Log: the conversation the scripts build as a Python list of dicts
  and send with every completion request. A message has a role, a content, the
  tool calls of an assistant turn (the \<open>"tool_calls"\<close> key of
  \<open>exercise8_advanced.py\<close>) and, for a tool result, the id of the call it
  answers (\<open>"tool_call_id"\<close>). A message the scripts build without one of
  these keys has the empty list or \<open>None\<close> there; the content is
  \<open>None\<close> only where a script stores the model's \<open>None\<close> content as it is.

  The spec's invariant of the log (every tool message answers a pending request
  of the assistant turn before it, and an assistant turn with tool calls is
  answered, one result per id, before any other turn) is the executable scan
  \<open>log_scan\<close>: it returns the ids still pending after the log, or
  \<open>None\<close> at the first message that breaks the invariant. A log is
  \<open>log_ok\<close> when the scan succeeds and \<open>log_settled\<close> when moreover
  nothing is pending, which is what a request to the model needs.
\<close>

datatype role = System | User | Assistant | Tool

record tool_call =
  tc_id :: string
  tc_name :: string
  tc_args :: string

record message =
  role :: role
  content :: "string option"
  tool_calls :: "tool_call list"
  tool_call_id :: "string option"

text \<open>\<open>{"role": r, "content": c}\<close>\<close>

definition plain_msg :: "role \<Rightarrow> string \<Rightarrow> message" where
  "plain_msg r c = \<lparr>role = r, content = Some c, tool_calls = [], tool_call_id = None\<rparr>"

text \<open>\<open>{"role": "assistant", "content": c, "tool_calls": [...]}\<close>\<close>

definition assistant_calls_msg :: "string \<Rightarrow> tool_call list \<Rightarrow> message" where
  "assistant_calls_msg c tcs = \<lparr>role = Assistant, content = Some c, tool_calls = tcs, tool_call_id = None\<rparr>"

text \<open>\<open>{"role": "tool", "tool_call_id": i, "content": c}\<close>\<close>

definition tool_result_msg :: "string \<Rightarrow> string \<Rightarrow> message" where
  "tool_result_msg i c = \<lparr>role = Tool, content = Some c, tool_calls = [], tool_call_id = Some i\<rparr>"

text \<open>\<open>{"role": "assistant", "content": response.choices[0].message.content}\<close>, whose content may be \<open>None\<close>\<close>

definition assistant_reply_msg :: "string option \<Rightarrow> message" where
  "assistant_reply_msg c = \<lparr>role = Assistant, content = c, tool_calls = [], tool_call_id = None\<rparr>"

section \<open>The log invariant\<close>

fun log_scan :: "string list \<Rightarrow> message list \<Rightarrow> string list option" where
  "log_scan p [] = Some p"
| "log_scan p (m # ms) =
     (if role m = Tool then
        (case tool_call_id m of
           Some i \<Rightarrow> if i \<in> set p then log_scan (remove1 i p) ms else None
         | None \<Rightarrow> None)
      else if p \<noteq> [] then None
      else if role m = Assistant then
        (if distinct (map tc_id (tool_calls m)) then log_scan (map tc_id (tool_calls m)) ms else None)
      else if tool_calls m = [] then log_scan [] ms else None)"

definition log_ok :: "message list \<Rightarrow> bool" where
  "log_ok ms \<longleftrightarrow> log_scan [] ms \<noteq> None"

definition log_settled :: "message list \<Rightarrow> bool" where
  "log_settled ms \<longleftrightarrow> log_scan [] ms = Some []"

lemmas message_defs [model_simps] = plain_msg_def assistant_calls_msg_def tool_result_msg_def assistant_reply_msg_def

lemma log_scan_append:
  "log_scan p (xs @ ys) = (case log_scan p xs of None \<Rightarrow> None | Some q \<Rightarrow> log_scan q ys)"
  by (induction p xs rule: log_scan.induct) (auto split: option.splits)

text \<open>A batch of tool results, one per pending id and in the order of the ids, settles the log.\<close>

lemma log_scan_answers:
  assumes "distinct ids" and "map tool_call_id ms = map Some ids" and "\<forall>m \<in> set ms. role m = Tool"
  shows "log_scan ids ms = Some []"
  using assms
proof (induction ms arbitrary: ids)
  case Nil
  then show ?case by simp
next
  case (Cons m ms)
  then obtain i rest where ids: "ids = i # rest" and "tool_call_id m = Some i" and "map tool_call_id ms = map Some rest"
    by (cases ids) auto
  with Cons show ?case by simp
qed

lemma tool_call_ids_map2 [simp]:
  "length rs = length ids \<Longrightarrow> map tool_call_id (map2 tool_result_msg ids rs) = map Some ids"
  by (induction rs ids rule: list_induct2) (simp_all add: tool_result_msg_def)

lemma log_settled_plain_append:
  "log_settled ms \<Longrightarrow> r \<noteq> Tool \<Longrightarrow> log_settled (ms @ [plain_msg r c])"
  by (cases r) (simp_all add: log_settled_def log_scan_append plain_msg_def)

lemma log_settled_batch:
  assumes "log_settled ms" and "distinct (map tc_id tcs)"
    and "map tool_call_id rs = map (Some \<circ> tc_id) tcs" and "\<forall>m \<in> set rs. role m = Tool"
  shows "log_settled (ms @ assistant_calls_msg c tcs # rs)"
proof -
  have "log_scan (map tc_id tcs) rs = Some []"
    using assms(2-4) by (intro log_scan_answers) simp_all
  with assms(1,2) show ?thesis
    by (simp add: log_settled_def log_scan_append assistant_calls_msg_def)
qed

end
