(* ===== verification/Client.thy ===== *)
theory Client
  imports Messages
begin

text \<open>
  The Triage Client: the shape of one request to the chat-completion service
  (\<open>client.chat.completions.create(...)\<close>) and of its answer, shared by every
  script. A keyword argument a script does not pass is \<open>None\<close> (or the empty
  tool list). The answer is \<open>response.choices[0].message\<close>: its content may be
  \<open>None\<close>, and no tool calls is the empty list (the API's \<open>None\<close> and
  \<open>[]\<close> are both falsy where the scripts test them). A call either answers or
  raises (\<open>ApiError\<close>, any exception of the client library). The service
  itself is not modelled: each component takes it as a function.
\<close>

text \<open>An entry of the \<open>tools\<close> argument: the function's name, description and JSON schema.\<close>

record tool_def =
  td_name :: string
  td_description :: string
  td_parameters :: jval

text \<open>\<open>DEPLOYMENT_NAME\<close> and the temperature and token ceiling a run uses.\<close>

record triage_config =
  deployment :: string
  temperature :: real
  max_tokens :: int

record chat_request =
  rq_model :: string
  rq_messages :: "message list"
  rq_tools :: "tool_def list"
  rq_tool_choice :: "string option"
  rq_response_format :: "string option"
  rq_temperature :: "real option"
  rq_max_tokens :: "int option"

record completion =
  cm_content :: "string option"
  cm_tool_calls :: "tool_call list"

datatype api_result = ApiOk completion | ApiError string

text \<open>A request with only the model and the messages, as the simplest scripts send it.\<close>

definition plain_request :: "string \<Rightarrow> message list \<Rightarrow> chat_request" where
  "plain_request model ms =
     \<lparr>rq_model = model, rq_messages = ms, rq_tools = [], rq_tool_choice = None, rq_response_format = None,
      rq_temperature = None, rq_max_tokens = None\<rparr>"

section \<open>Helpers both triage scripts share\<close>

text \<open>\<open>f"TICKET-{uuid.uuid4().hex[:6].upper()}"\<close>, given the uuid's hex digits.\<close>

definition ticket_id_of :: "string \<Rightarrow> string" where
  "ticket_id_of hex = ''TICKET-'' @ py_upper (take 6 hex)"

text \<open>\<open>for i, action in enumerate(actions, start=1): body_lines.append(f"  {i}. {action}")\<close>\<close>

fun numbered_lines :: "nat \<Rightarrow> jval list \<Rightarrow> string list" where
  "numbered_lines i [] = []"
| "numbered_lines i (a # as) = (''  '' @ nat_str i @ ''. '' @ py_str a) # numbered_lines (Suc i) as"

text \<open>
  The settings prompts of both triage mains: \<open>x = parse(s) if s else DEFAULT\<close>
  inside a \<open>try\<close>, a \<open>ValueError\<close> printing its message and falling back to
  the default; \<open>s\<close> is the stripped input line.
\<close>

definition read_setting :: "(string \<Rightarrow> 'a option) \<Rightarrow> 'a \<Rightarrow> string \<Rightarrow> string \<Rightarrow> 'a \<times> string list" where
  "read_setting parse dflt invalid_msg s =
     (if s = [] then (dflt, [])
      else case parse s of Some v \<Rightarrow> (v, []) | None \<Rightarrow> (dflt, [invalid_msg]))"

section \<open>Lemmas\<close>

text \<open>A setting is its default or what its parser read, with one warning exactly for an unreadable non-blank entry.\<close>

lemma read_setting_cases:
  "read_setting parse dflt msg s = (v, ms) \<Longrightarrow>
     (v = dflt \<or> parse s = Some v) \<and> ms = (if s \<noteq> [] \<and> parse s = None then [msg] else [])"
  by (auto simp: read_setting_def split: if_splits option.splits)

end
