(* ===== verification/ToolCalling.thy ===== *)
theory ToolCalling
  imports Client
begin

text \<open>
  The incident-triage tool-calling loop of \<open>src/workshop1/exercise8_advanced.py\<close>.
  The declared tool (\<open>TOOLS\<close>), its handler (\<open>escalate_crisis\<close>), the
  router (\<open>process_tool_call\<close>), the inner loop over one batch of tool calls
  (\<open>dispatch_calls\<close>, lines 181--198), the outer loop that runs while the model
  answers with tool calls (\<open>tool_loop\<close>, lines 159--212), the entry point
  \<open>call_triage_llm_with_tools\<close> and the report \<open>run_workflow_with_function_calling\<close>
  prints.

  Everything the script does not control is an input (\<open>tool_env\<close>): the
  remote model is a function from the number of calls made so far and the request
  to the API's answer, so any sequence of responses, and any dependence on the
  conversation, is one environment; \<open>uuid.uuid4().hex\<close> is a function of the
  number of uuids drawn; \<open>json\<close> is the codec interface of \<open>PyBase\<close>.
  The loop's state (\<open>loop_state\<close>) is the script's \<open>messages\<close> list and
  \<open>result_data\<close> dict, the two counters, and the escalation alerts the
  handler prints, in order. An exception that escapes is an \<open>Inl\<close>; the
  outer loop has no bound, so it is a \<open>partial_function\<close> in the option
  monad and \<open>None\<close> is a run that never ends.
\<close>

section \<open>The declared tool and the request\<close>

definition TOOLS :: "tool_def list" where
  "TOOLS =
    [\<lparr>td_name = ''escalate_crisis'',
      td_description = ''Escalate a CRISIS-level incident to on-call team. Generates ticket ID automatically.'',
      td_parameters = JObj
        [(''type'', JStr ''object''),
         (''properties'', JObj
            [(''summary'', JObj [(''type'', JStr ''string''), (''description'', JStr ''Incident summary'')]),
             (''severity'', JObj [(''type'', JStr ''string''),
                                 (''enum'', JArr [JStr ''NORMAL'', JStr ''ALERT'', JStr ''CRISIS'']),
                                 (''description'', JStr ''Severity level'')]),
             (''actions'', JObj [(''type'', JStr ''array''), (''items'', JObj [(''type'', JStr ''string'')]),
                                (''description'', JStr ''Required actions'')])]),
         (''required'', JArr [JStr ''summary'', JStr ''severity'', JStr ''actions''])]\<rparr>]"

text \<open>\<open>client.chat.completions.create(model=..., messages=..., tools=TOOLS, tool_choice="auto", ...)\<close>\<close>

definition tools_request :: "triage_config \<Rightarrow> message list \<Rightarrow> chat_request" where
  "tools_request cfg ms =
     \<lparr>rq_model = deployment cfg, rq_messages = ms, rq_tools = TOOLS, rq_tool_choice = Some ''auto'',
      rq_response_format = None, rq_temperature = Some (temperature cfg), rq_max_tokens = Some (max_tokens cfg)\<rparr>"

datatype effect = Escalation string string "string list"

record tool_env =
  llm :: "nat \<Rightarrow> chat_request \<Rightarrow> api_result"
  uuid_hex :: "nat \<Rightarrow> string"
  codec :: json_codec

record loop_state =
  messages :: "message list"
  result_data :: pydict
  n_calls :: nat
  n_uuids :: nat
  effects :: "effect list"

section \<open>The tool handler and the router\<close>

text \<open>The handler's return value \<open>{"success": True, "ticket_id": ..., "severity": ...}\<close>.\<close>

definition escalation_result :: "string \<Rightarrow> jval \<Rightarrow> jval" where
  "escalation_result ticket_id severity =
     JObj [(''success'', JBool True), (''ticket_id'', JStr ticket_id), (''severity'', severity)]"

definition escalate_crisis ::
  "tool_env \<Rightarrow> loop_state \<Rightarrow> jval \<Rightarrow> jval \<Rightarrow> jval \<Rightarrow> py_exc + (jval \<times> loop_state)" where
  "escalate_crisis env s summary severity actions =
     (let ticket_id = ticket_id_of (uuid_hex env (n_uuids s));
          subject = ''['' @ py_str severity @ ''] '' @ ticket_id @ '' - '' @ py_str summary
      in sbind (py_iter actions) (\<lambda>acts.
           let body_lines = [''Incident ID: '' @ ticket_id, ''Severity   : '' @ py_str severity, [],
                             ''Required Actions:''] @ numbered_lines 1 acts
           in Inr (escalation_result ticket_id severity,
                   s\<lparr>n_uuids := Suc (n_uuids s),
                     effects := effects s @ [Escalation ticket_id subject body_lines]\<rparr>)))"

definition process_tool_call ::
  "tool_env \<Rightarrow> loop_state \<Rightarrow> string \<Rightarrow> jval \<Rightarrow> py_exc + (string \<times> loop_state)" where
  "process_tool_call env s tool_name tool_input =
     (if tool_name = ''escalate_crisis'' then
        sbind (jget tool_input ''summary'' (JStr [])) (\<lambda>summary.
        sbind (jget tool_input ''severity'' (JStr [])) (\<lambda>severity.
        sbind (jget tool_input ''actions'' (JArr [])) (\<lambda>actions.
        sbind (escalate_crisis env s summary severity actions) (\<lambda>(result, s').
          Inr (dumps (codec env) result, s')))))
      else Inr (dumps (codec env) (JObj [(''error'', JStr (''Unknown tool: '' @ tool_name))]), s))"

section \<open>The loops\<close>

text \<open>
  Storing one result (lines 189--198): the tool message is appended; for the
  escalation tool the result is parsed back and kept, and the ticket id is read
  from the call's arguments.
\<close>

definition record_result ::
  "tool_env \<Rightarrow> tool_call \<Rightarrow> jval \<Rightarrow> string \<Rightarrow> loop_state \<Rightarrow> py_exc + loop_state" where
  "record_result env tc tool_input tool_result s =
     (let s1 = s\<lparr>messages := messages s @ [tool_result_msg (tc_id tc) tool_result]\<rparr>
      in if tc_name tc = ''escalate_crisis'' then
           (case loads (codec env) tool_result of
              None \<Rightarrow> Inl JSONDecodeError
            | Some escalated \<Rightarrow>
                let s2 = s1\<lparr>result_data := dict_set (result_data s1) ''escalated'' escalated\<rparr>
                in sbind (jget tool_input ''ticket_id'' JNull) (\<lambda>ticket.
                     Inr (s2\<lparr>result_data := dict_set (result_data s2) ''ticket_id'' ticket\<rparr>)))
         else Inr s1)"

text \<open>One iteration of the inner loop (lines 182--198).\<close>

definition call_tool :: "tool_env \<Rightarrow> tool_call \<Rightarrow> loop_state \<Rightarrow> py_exc + loop_state" where
  "call_tool env tc s =
     (case loads (codec env) (tc_args tc) of
        None \<Rightarrow> Inl JSONDecodeError
      | Some tool_input \<Rightarrow>
          sbind (process_tool_call env s (tc_name tc) tool_input) (\<lambda>(tool_result, s1).
            record_result env tc tool_input tool_result s1))"

text \<open>The inner loop: one batch of tool calls, in the order the model emitted them.\<close>

fun dispatch_calls :: "tool_env \<Rightarrow> tool_call list \<Rightarrow> loop_state \<Rightarrow> py_exc + loop_state" where
  "dispatch_calls env [] s = Inr s"
| "dispatch_calls env (tc # tcs) s = sbind (call_tool env tc s) (dispatch_calls env tcs)"

text \<open>\<open>response.choices[0].message.content or ""\<close>\<close>

definition content_or_empty :: "completion \<Rightarrow> string" where
  "content_or_empty r = (case cm_content r of None \<Rightarrow> [] | Some c \<Rightarrow> c)"

text \<open>Appending the assistant turn with its tool calls (lines 164--178).\<close>

definition append_assistant :: "completion \<Rightarrow> loop_state \<Rightarrow> loop_state" where
  "append_assistant resp s =
     s\<lparr>messages := messages s @ [assistant_calls_msg (content_or_empty resp) (cm_tool_calls resp)]\<rparr>"

text \<open>
  The outer loop, entered with the response to the previous call. A failed call
  inside the loop is caught and ends it (\<open>break\<close>), keeping what was gathered.
\<close>

partial_function (option) tool_loop ::
  "tool_env \<Rightarrow> triage_config \<Rightarrow> completion \<Rightarrow> loop_state \<Rightarrow> (py_exc + loop_state) option" where
  "tool_loop env cfg resp s =
     (if cm_tool_calls resp = [] then Some (Inr s)
      else
        (case dispatch_calls env (cm_tool_calls resp) (append_assistant resp s) of
           Inl e \<Rightarrow> Some (Inl e)
         | Inr s2 \<Rightarrow>
             (case llm env (n_calls s2) (tools_request cfg (messages s2)) of
                ApiError _ \<Rightarrow> Some (Inr (s2\<lparr>n_calls := Suc (n_calls s2)\<rparr>))
              | ApiOk r \<Rightarrow> tool_loop env cfg r (s2\<lparr>n_calls := Suc (n_calls s2)\<rparr>))))"

declare tool_loop.simps [code]

definition tools_system_prompt :: string where
  "tools_system_prompt =
     ''You are an incident handler. '' @
     ''Analyze incidents and call the escalate_crisis tool to log and handle them. '' @
     ''Use severity: NORMAL for minor issues, ALERT for significant issues, CRISIS for critical issues. '' @
     ''Always call the tool.''"

definition tools_initial_messages :: "string \<Rightarrow> message list" where
  "tools_initial_messages description =
     [plain_msg System tools_system_prompt,
      plain_msg User (''Incident description:'' @ [CHR 0x0A] @ description @ [CHR 0x0A, CHR 0x0A] @
                      ''Analyze this incident and use the appropriate tools.'')]"

definition initial_state :: "message list \<Rightarrow> loop_state" where
  "initial_state ms = \<lparr>messages = ms, result_data = [], n_calls = 1, n_uuids = 0, effects = []\<rparr>"

text \<open>A failed first call ends the process: \<open>sys.exit(1)\<close>.\<close>

definition call_triage_llm_with_tools ::
  "tool_env \<Rightarrow> triage_config \<Rightarrow> string \<Rightarrow> (py_exc + loop_state) option" where
  "call_triage_llm_with_tools env cfg description =
     (let ms = tools_initial_messages description
      in case llm env 0 (tools_request cfg ms) of
           ApiError _ \<Rightarrow> Some (Inl (SystemExit 1))
         | ApiOk r \<Rightarrow> tool_loop env cfg r (initial_state ms))"

section \<open>The report\<close>

text \<open>
  The lines \<open>run_workflow_with_function_calling\<close> prints from the dict the loop
  returns (each \<open>print\<close> one string; a leading newline is part of it).
\<close>

definition check_mark :: string where
  "check_mark = [CHR 0xE2, CHR 0x9C, CHR 0x93]"

definition workflow_report :: "pydict \<Rightarrow> py_exc + string list" where
  "workflow_report data =
     sbind (py_iter (dict_get data ''actions'' (JArr []))) (\<lambda>acts.
       Inr ([[CHR 0x0A] @ ''=== Workflow Results ==='',
             ''Summary : '' @ py_str (dict_get data ''summary'' (JStr ''(none)'')),
             ''Severity: '' @ py_str (dict_get data ''severity'' (JStr ''(none)'')),
             ''Actions :''] @
            numbered_lines 1 acts @
            [if py_truthy (dict_get data ''escalated'' JNull)
             then [CHR 0x0A] @ check_mark @ '' Crisis escalated - Ticket: '' @ py_str (dict_get data ''ticket_id'' JNull)
             else [CHR 0x0A] @ ''Incident triaged and logged.'',
             [CHR 0x0A] @ ''=== Workflow Complete ===''] ))"

definition run_workflow_with_function_calling ::
  "tool_env \<Rightarrow> triage_config \<Rightarrow> string \<Rightarrow> (py_exc + string list) option" where
  "run_workflow_with_function_calling env cfg description =
     map_option (\<lambda>r. sbind r (\<lambda>s. workflow_report (result_data s)))
       (call_triage_llm_with_tools env cfg description)"

section \<open>The entry point\<close>

definition tools_banner :: "string list" where
  "tools_banner =
     [''=== Incident Triage with Function Calling ==='', ''This demo uses:'',
      ''- LLM function calling (tool_choice)'', ''- Automatic tool invocation'',
      ''- Crisis escalation tool triggered on CRISIS severity'' @ [CHR 0x0A]]"

text \<open>
  \<open>main\<close>, lines 245--273, as \<open>Triage.triage_main\<close> with this script's
  defaults (0.2 and 500) and messages; \<open>None\<close> is a run that does not end.
\<close>

definition tools_main ::
  "tool_env \<Rightarrow> string \<Rightarrow> (string \<Rightarrow> real option) \<Rightarrow> console_in list \<Rightarrow> (py_exc + string list) option" where
  "tools_main env model parse_float ins =
     (case py_input ins of
        Inl e \<Rightarrow> Some (Inl e)
      | Inr (d, ins1) \<Rightarrow>
          let description = py_strip d in
          if description = [] then Some (Inr (tools_banner @ [''No description provided. Exiting.'']))
          else case py_input ins1 of
            Inl e \<Rightarrow> Some (Inl e)
          | Inr (t, ins2) \<Rightarrow>
              let (temp, m1) = read_setting parse_float (2 / 10) ''Invalid temperature, using default 0.2.'' (py_strip t)
              in case py_input ins2 of
                   Inl e \<Rightarrow> Some (Inl e)
                 | Inr (k, _) \<Rightarrow>
                     let (mt, m2) = read_setting py_int 500 ''Invalid max tokens, using default 500.'' (py_strip k)
                     in map_option (\<lambda>r. sbind r (\<lambda>lines. Inr (tools_banner @ m1 @ m2 @ lines)))
                          (run_workflow_with_function_calling env
                             \<lparr>deployment = model, temperature = temp, max_tokens = mt\<rparr> description))"

section \<open>Conditions on the environment and the result\<close>

text \<open>The model never repeats a call id within one batch.\<close>

definition ids_distinct_env :: "tool_env \<Rightarrow> bool" where
  "ids_distinct_env env \<longleftrightarrow>
     (\<forall>k req. case llm env k req of ApiOk c \<Rightarrow> distinct (map tc_id (cm_tool_calls c)) | ApiError _ \<Rightarrow> True)"

text \<open>A response ends the loop: the call failed or requested no tool.\<close>

definition stops :: "api_result \<Rightarrow> bool" where
  "stops a = (case a of ApiError _ \<Rightarrow> True | ApiOk c \<Rightarrow> cm_tool_calls c = [])"

text \<open>A batch of calls to unregistered tools whose arguments parse.\<close>

definition unknown_calls :: "tool_env \<Rightarrow> tool_call list \<Rightarrow> bool" where
  "unknown_calls env tcs \<longleftrightarrow>
     tcs \<noteq> [] \<and> list_all (\<lambda>tc. tc_name tc \<noteq> ''escalate_crisis'' \<and> loads (codec env) (tc_args tc) \<noteq> None) tcs"

definition unknown_tool_msg :: "tool_env \<Rightarrow> tool_call \<Rightarrow> message" where
  "unknown_tool_msg env tc =
     tool_result_msg (tc_id tc) (dumps (codec env) (JObj [(''error'', JStr (''Unknown tool: '' @ tc_name tc))]))"

text \<open>The keys the loop ever writes into \<open>result_data\<close>.\<close>

definition result_keys_ok :: "pydict \<Rightarrow> bool" where
  "result_keys_ok d \<longleftrightarrow> set (map fst d) \<subseteq> {''escalated'', ''ticket_id''}"

text \<open>
  The ticket of an escalation; \<open>alerts_drawn\<close>: the tickets of the escalations
  so far are the ids of the uuid draws so far, in order; \<open>n_assistant\<close>: the
  assistant turns of a message log.
\<close>


fun effect_ticket :: "effect \<Rightarrow> string" where
  "effect_ticket (Escalation t subject body) = t"

definition alerts_drawn :: "tool_env \<Rightarrow> loop_state \<Rightarrow> bool" where
  "alerts_drawn env s = (map effect_ticket (effects s) = map (ticket_id_of \<circ> uuid_hex env) [0..<n_uuids s])"

definition n_assistant :: "message list \<Rightarrow> nat" where
  "n_assistant ms = length (filter (\<lambda>m. role m = Assistant) ms)"

section \<open>Lemmas\<close>


lemma escalate_crisis_Inr:
  "escalate_crisis env s summary severity actions = Inr (res, s1) \<Longrightarrow>
     \<exists>a. s1 = s\<lparr>n_uuids := Suc (n_uuids s), effects := effects s @ [a]\<rparr>"
  by (auto simp: escalate_crisis_def Let_def sbind_eq_Inr)

lemma process_tool_call_frame:
  assumes "process_tool_call env s name input = Inr (res, s1)"
  shows "messages s1 = messages s \<and> result_data s1 = result_data s \<and> n_calls s1 = n_calls s \<and>
         length (effects s1) = length (effects s) + (if name = ''escalate_crisis'' then 1 else 0) \<and>
         n_uuids s1 = n_uuids s + (if name = ''escalate_crisis'' then 1 else 0)"
proof (cases "name = ''escalate_crisis''")
  case True
  with assms obtain summary severity actions r where
    "escalate_crisis env s summary severity actions = Inr (r, s1)"
    by (auto simp: process_tool_call_def sbind_eq_Inr split: prod.splits)
  then obtain a where "s1 = s\<lparr>n_uuids := Suc (n_uuids s), effects := effects s @ [a]\<rparr>"
    by (blast dest: escalate_crisis_Inr)
  with True show ?thesis by simp
next
  case False
  with assms show ?thesis by (simp add: process_tool_call_def)
qed

lemma record_result_frame:
  "record_result env tc input res s = Inr s' \<Longrightarrow>
     messages s' = messages s @ [tool_result_msg (tc_id tc) res] \<and> n_calls s' = n_calls s \<and> effects s' = effects s \<and>
     n_uuids s' = n_uuids s"
  by (auto simp: record_result_def Let_def sbind_eq_Inr split: if_splits option.splits)

lemma call_tool_Inr:
  assumes "call_tool env tc s = Inr s'"
  shows "(\<exists>res. messages s' = messages s @ [tool_result_msg (tc_id tc) res]) \<and> n_calls s' = n_calls s \<and>
     length (effects s') = length (effects s) + (if tc_name tc = ''escalate_crisis'' then 1 else 0) \<and>
     n_uuids s' = n_uuids s + (if tc_name tc = ''escalate_crisis'' then 1 else 0)"
proof -
  from assms obtain input res s1 where
    p: "process_tool_call env s (tc_name tc) input = Inr (res, s1)" and
    r: "record_result env tc input res s1 = Inr s'"
    by (auto simp: call_tool_def sbind_eq_Inr split: option.splits)
  from process_tool_call_frame [OF p] record_result_frame [OF r] show ?thesis
    by auto
qed

lemma dispatch_calls_Inr:
  "dispatch_calls env tcs s = Inr s' \<Longrightarrow>
     (\<exists>rs. length rs = length tcs \<and> messages s' = messages s @ map2 tool_result_msg (map tc_id tcs) rs) \<and>
     n_calls s' = n_calls s \<and>
     length (effects s') = length (effects s) + length (filter (\<lambda>tc. tc_name tc = ''escalate_crisis'') tcs) \<and>
     n_uuids s' = n_uuids s + length (filter (\<lambda>tc. tc_name tc = ''escalate_crisis'') tcs)"
proof (induction tcs arbitrary: s)
  case Nil
  then show ?case by simp
next
  case (Cons tc tcs)
  then obtain s1 where c: "call_tool env tc s = Inr s1" and d: "dispatch_calls env tcs s1 = Inr s'"
    by (auto simp: sbind_eq_Inr)
  from call_tool_Inr [OF c] obtain res where
    m1: "messages s1 = messages s @ [tool_result_msg (tc_id tc) res]" and
    n1: "n_calls s1 = n_calls s" and
    e1: "length (effects s1) = length (effects s) + (if tc_name tc = ''escalate_crisis'' then 1 else 0)" and
    u1: "n_uuids s1 = n_uuids s + (if tc_name tc = ''escalate_crisis'' then 1 else 0)"
    by blast
  from Cons.IH [OF d] obtain rs where
    "length rs = length tcs" "messages s' = messages s1 @ map2 tool_result_msg (map tc_id tcs) rs"
    "n_calls s' = n_calls s1"
    "length (effects s') = length (effects s1) + length (filter (\<lambda>tc. tc_name tc = ''escalate_crisis'') tcs)"
    "n_uuids s' = n_uuids s1 + length (filter (\<lambda>tc. tc_name tc = ''escalate_crisis'') tcs)"
    by blast
  with m1 n1 e1 u1 show ?case
    by (auto intro!: exI [of _ "res # rs"])
qed

lemma tool_loop_stop:
  "cm_tool_calls r = [] \<Longrightarrow> tool_loop env cfg r s = Some (Inr s)"
  by (subst tool_loop.simps) simp

lemma tool_loop_raise:
  "cm_tool_calls r \<noteq> [] \<Longrightarrow> dispatch_calls env (cm_tool_calls r) (append_assistant r s) = Inl e \<Longrightarrow>
     tool_loop env cfg r s = Some (Inl e)"
  by (subst tool_loop.simps) simp

lemma tool_loop_next:
  "cm_tool_calls r \<noteq> [] \<Longrightarrow> dispatch_calls env (cm_tool_calls r) (append_assistant r s) = Inr s2 \<Longrightarrow>
     tool_loop env cfg r s =
       (case llm env (n_calls s2) (tools_request cfg (messages s2)) of
          ApiError _ \<Rightarrow> Some (Inr (s2\<lparr>n_calls := Suc (n_calls s2)\<rparr>))
        | ApiOk r' \<Rightarrow> tool_loop env cfg r' (s2\<lparr>n_calls := Suc (n_calls s2)\<rparr>))"
  by (subst tool_loop.simps) simp

text \<open>
  A Hoare-style rule for the outer loop: an invariant \<open>J\<close> of the pending
  response and the state that each round keeps, and a property \<open>R\<close> of the
  result that holds where the loop stops, raises or breaks, hold of every result
  the loop returns.
\<close>

lemma tool_loop_rule:
  assumes run: "tool_loop env cfg r s = Some y"
    and init: "J r s"
    and stop: "\<And>r s. J r s \<Longrightarrow> cm_tool_calls r = [] \<Longrightarrow> R (Inr s)"
    and raise: "\<And>r s e. J r s \<Longrightarrow> cm_tool_calls r \<noteq> [] \<Longrightarrow>
                dispatch_calls env (cm_tool_calls r) (append_assistant r s) = Inl e \<Longrightarrow> R (Inl e)"
    and brk: "\<And>r s s2 x. J r s \<Longrightarrow> cm_tool_calls r \<noteq> [] \<Longrightarrow>
                dispatch_calls env (cm_tool_calls r) (append_assistant r s) = Inr s2 \<Longrightarrow>
                llm env (n_calls s2) (tools_request cfg (messages s2)) = ApiError x \<Longrightarrow>
                R (Inr (s2\<lparr>n_calls := Suc (n_calls s2)\<rparr>))"
    and step: "\<And>r s s2 r'. J r s \<Longrightarrow> cm_tool_calls r \<noteq> [] \<Longrightarrow>
                dispatch_calls env (cm_tool_calls r) (append_assistant r s) = Inr s2 \<Longrightarrow>
                llm env (n_calls s2) (tools_request cfg (messages s2)) = ApiOk r' \<Longrightarrow>
                J r' (s2\<lparr>n_calls := Suc (n_calls s2)\<rparr>)"
  shows "R y"
proof -
  have "env' = env \<longrightarrow> cfg' = cfg \<longrightarrow> J r0 s0 \<longrightarrow> R y0"
    if "tool_loop env' cfg' r0 s0 = Some y0" for env' cfg' r0 s0 y0
  proof (rule tool_loop.raw_induct [where P = "\<lambda>env' cfg' r s y. env' = env \<longrightarrow> cfg' = cfg \<longrightarrow> J r s \<longrightarrow> R y",
         OF _ that])
    fix f env' cfg' r s y
    assume IH: "\<And>env' cfg' r s y. f env' cfg' r s = Some y \<Longrightarrow> env' = env \<longrightarrow> cfg' = cfg \<longrightarrow> J r s \<longrightarrow> R y"
      and eq: "(if cm_tool_calls r = [] then Some (Inr s)
         else case dispatch_calls env' (cm_tool_calls r) (append_assistant r s) of
              Inl e \<Rightarrow> Some (Inl e)
            | Inr s2 \<Rightarrow>
                (case llm env' (n_calls s2) (tools_request cfg' (messages s2)) of
                   ApiOk r' \<Rightarrow> f env' cfg' r' (s2\<lparr>n_calls := Suc (n_calls s2)\<rparr>)
                 | ApiError x \<Rightarrow> Some (Inr (s2\<lparr>n_calls := Suc (n_calls s2)\<rparr>)))) = Some y"
    show "env' = env \<longrightarrow> cfg' = cfg \<longrightarrow> J r s \<longrightarrow> R y"
    proof (intro impI)
      assume e: "env' = env" and c: "cfg' = cfg" and j: "J r s"
      show "R y"
      proof (cases "cm_tool_calls r = []")
        case True
        with eq stop [OF j] show ?thesis by simp
      next
        case False
        show ?thesis
        proof (cases "dispatch_calls env (cm_tool_calls r) (append_assistant r s)")
          case (Inl err)
          with eq e False raise [OF j False Inl] show ?thesis by simp
        next
          case (Inr s2)
          show ?thesis
          proof (cases "llm env (n_calls s2) (tools_request cfg (messages s2))")
            case (ApiOk r')
            with eq e c False Inr have "f env cfg r' (s2\<lparr>n_calls := Suc (n_calls s2)\<rparr>) = Some y"
              by simp
            moreover have "J r' (s2\<lparr>n_calls := Suc (n_calls s2)\<rparr>)"
              using j False Inr ApiOk by (rule step)
            ultimately show ?thesis
              using IH by blast
          next
            case (ApiError x)
            with eq e c False Inr brk [OF j False Inr ApiError] show ?thesis by simp
          qed
        qed
      qed
    qed
  qed
  with run init show ?thesis by blast
qed

lemma dispatch_calls_settled:
  assumes "dispatch_calls env (cm_tool_calls r) (append_assistant r s) = Inr s2"
    and "log_settled (messages s)" and "distinct (map tc_id (cm_tool_calls r))"
  shows "log_settled (messages s2)"
proof -
  from dispatch_calls_Inr [OF assms(1)] obtain rs where
    "length rs = length (cm_tool_calls r)" and
    m: "messages s2 = messages s @ assistant_calls_msg (content_or_empty r) (cm_tool_calls r) #
                      map2 tool_result_msg (map tc_id (cm_tool_calls r)) rs"
    by (auto simp: append_assistant_def)
  then have "map tool_call_id (map2 tool_result_msg (map tc_id (cm_tool_calls r)) rs) = map Some (map tc_id (cm_tool_calls r))"
    by (intro tool_call_ids_map2) simp
  then have ids: "map tool_call_id (map2 tool_result_msg (map tc_id (cm_tool_calls r)) rs) = map (Some \<circ> tc_id) (cm_tool_calls r)"
    by simp
  show ?thesis
    unfolding m by (rule log_settled_batch [OF assms(2,3) ids]) (auto simp: tool_result_msg_def)
qed

text \<open>
  C1. Every state the outer loop returns normally has a settled log (each
  tool message answers a pending call of the assistant turn before it, and no
  call is left unanswered), provided the model never repeats an id within one
  batch and the log was settled when the loop started. The model is therefore
  only ever sent a well-formed conversation.
\<close>

theorem tool_loop_settled:
  assumes "tool_loop env cfg r s = Some (Inr s')" and "ids_distinct_env env"
    and "distinct (map tc_id (cm_tool_calls r))" and "log_settled (messages s)"
  shows "log_settled (messages s')"
proof -
  have "case (Inr s' :: py_exc + loop_state) of Inl _ \<Rightarrow> True | Inr t \<Rightarrow> log_settled (messages t)"
  proof (rule tool_loop_rule [OF assms(1), where J = "\<lambda>r s. distinct (map tc_id (cm_tool_calls r)) \<and> log_settled (messages s)"
      and R = "\<lambda>y. case y of Inl _ \<Rightarrow> True | Inr t \<Rightarrow> log_settled (messages t)"])
    fix r s s2 r'
    assume j: "distinct (map tc_id (cm_tool_calls r)) \<and> log_settled (messages s)"
      and d: "dispatch_calls env (cm_tool_calls r) (append_assistant r s) = Inr s2"
      and a: "llm env (n_calls s2) (tools_request cfg (messages s2)) = ApiOk r'"
    from assms(2) have "case llm env (n_calls s2) (tools_request cfg (messages s2)) of
        ApiOk c \<Rightarrow> distinct (map tc_id (cm_tool_calls c)) | ApiError _ \<Rightarrow> True"
      unfolding ids_distinct_env_def by blast
    with a have "distinct (map tc_id (cm_tool_calls r'))" by simp
    moreover from d j have "log_settled (messages s2)" by (auto dest: dispatch_calls_settled)
    ultimately show "distinct (map tc_id (cm_tool_calls r')) \<and> log_settled (messages (s2\<lparr>n_calls := Suc (n_calls s2)\<rparr>))"
      by simp
  qed (use assms(3,4) in \<open>auto dest: dispatch_calls_settled\<close>)
  then show ?thesis by simp
qed

lemma dispatch_calls_n_calls:
  "dispatch_calls env tcs s = Inr s' \<Longrightarrow> n_calls s' = n_calls s"
  by (drule dispatch_calls_Inr) simp

lemma tool_loop_bounded:
  assumes st: "\<forall>req. stops (llm env k req)" and le: "n_calls s \<le> k"
  shows "\<exists>res. tool_loop env cfg r s = Some res \<and> (\<forall>s'. res = Inr s' \<longrightarrow> n_calls s' \<le> Suc k)"
  using le
proof (induction "k - n_calls s" arbitrary: r s rule: less_induct)
  case less
  show ?case
  proof (cases "cm_tool_calls r = []")
    case True
    with less.prems show ?thesis by (simp add: tool_loop_stop)
  next
    case False
    show ?thesis
    proof (cases "dispatch_calls env (cm_tool_calls r) (append_assistant r s)")
      case (Inl e)
      with False show ?thesis by (simp add: tool_loop_raise)
    next
      case (Inr s2)
      have n2: "n_calls s2 = n_calls s"
        using dispatch_calls_n_calls [OF Inr] by (simp add: append_assistant_def)
      show ?thesis
      proof (cases "llm env (n_calls s2) (tools_request cfg (messages s2))")
        case (ApiError x)
        with False Inr n2 less.prems show ?thesis by (simp add: tool_loop_next)
      next
        case (ApiOk r')
        show ?thesis
        proof (cases "n_calls s = k")
          case True
          with st ApiOk n2 have "cm_tool_calls r' = []"
            unfolding stops_def by (metis api_result.simps(5))
          with False Inr ApiOk n2 True show ?thesis
            by (simp add: tool_loop_next tool_loop_stop)
        next
          case neq: False
          with less.prems n2 have "k - n_calls (s2\<lparr>n_calls := Suc (n_calls s2)\<rparr>) < k - n_calls s"
            and "n_calls (s2\<lparr>n_calls := Suc (n_calls s2)\<rparr>) \<le> k"
            by simp_all
          from less.hyps [OF this] obtain res where
            "tool_loop env cfg r' (s2\<lparr>n_calls := Suc (n_calls s2)\<rparr>) = Some res \<and>
             (\<forall>s'. res = Inr s' \<longrightarrow> n_calls s' \<le> Suc k)"
            by blast
          with False Inr ApiOk show ?thesis by (simp add: tool_loop_next)
        qed
      qed
    qed
  qed
qed

text \<open>
  C2. If at some call number \<open>k\<close> the model answers without tool calls (or the
  call fails), the whole run returns, and a run that returns normally has made
  at most \<open>k + 1\<close> calls to the model.
\<close>

theorem call_triage_llm_with_tools_returns:
  assumes "\<forall>req. stops (llm env k req)"
  shows "\<exists>res. call_triage_llm_with_tools env cfg d = Some res \<and>
           (\<forall>s'. res = Inr s' \<longrightarrow> n_calls s' \<le> Suc k)"
proof (cases "llm env 0 (tools_request cfg (tools_initial_messages d))")
  case (ApiError x)
  then show ?thesis by (simp add: call_triage_llm_with_tools_def)
next
  case (ApiOk r)
  show ?thesis
  proof (cases k)
    case 0
    with assms ApiOk have "cm_tool_calls r = []"
      unfolding stops_def by (metis api_result.simps(5))
    with ApiOk show ?thesis
      by (simp add: call_triage_llm_with_tools_def tool_loop_stop initial_state_def)
  next
    case (Suc k')
    then have "n_calls (initial_state (tools_initial_messages d)) \<le> k"
      by (simp add: initial_state_def)
    from tool_loop_bounded [OF assms this] ApiOk show ?thesis
      by (simp add: call_triage_llm_with_tools_def)
  qed
qed

lemma process_tool_call_unknown:
  "tool_name \<noteq> ''escalate_crisis'' \<Longrightarrow>
     process_tool_call env s tool_name input =
       Inr (dumps (codec env) (JObj [(''error'', JStr (''Unknown tool: '' @ tool_name))]), s)"
  by (simp add: process_tool_call_def)

lemma call_tool_unknown_eq:
  "tc_name tc \<noteq> ''escalate_crisis'' \<Longrightarrow> loads (codec env) (tc_args tc) = Some input \<Longrightarrow>
     call_tool env tc s =
       Inr (s\<lparr>messages := messages s @ [tool_result_msg (tc_id tc)
              (dumps (codec env) (JObj [(''error'', JStr (''Unknown tool: '' @ tc_name tc))]))]\<rparr>)"
  by (simp add: call_tool_def process_tool_call_unknown record_result_def)

lemma dispatch_calls_unknown_eq:
  "list_all (\<lambda>tc. tc_name tc \<noteq> ''escalate_crisis'' \<and> loads (codec env) (tc_args tc) \<noteq> None) tcs \<Longrightarrow>
     dispatch_calls env tcs s = Inr (s\<lparr>messages := messages s @ map (unknown_tool_msg env) tcs\<rparr>)"
  by (induction tcs arbitrary: s) (auto simp: call_tool_unknown_eq unknown_tool_msg_def)

lemma dispatch_calls_unknown:
  "list_all (\<lambda>tc. tc_name tc \<noteq> ''escalate_crisis'' \<and> loads (codec env) (tc_args tc) \<noteq> None) tcs \<Longrightarrow>
     \<exists>s'. dispatch_calls env tcs s = Inr s'"
  by (simp add: dispatch_calls_unknown_eq)

text \<open>
  C3. The loop has no iteration bound: a model that keeps requesting
  (unregistered) tools makes the loop run forever.
\<close>

theorem tool_loop_diverges:
  assumes "\<forall>k req. \<exists>c. llm env k req = ApiOk c \<and> unknown_calls env (cm_tool_calls c)"
    and "unknown_calls env (cm_tool_calls r)"
  shows "tool_loop env cfg r s = None"
proof (rule ccontr)
  assume "tool_loop env cfg r s \<noteq> None"
  then obtain y where run: "tool_loop env cfg r s = Some y" by blast
  show False
  proof (rule tool_loop_rule [OF run, where J = "\<lambda>r s. unknown_calls env (cm_tool_calls r)" and R = "\<lambda>_. False"])
    show "unknown_calls env (cm_tool_calls r)" by (rule assms(2))
  next
    fix r s s2 r'
    assume "llm env (n_calls s2) (tools_request cfg (messages s2)) = ApiOk r'"
    with assms(1) show "unknown_calls env (cm_tool_calls r')"
      by (metis api_result.inject)
  next
    fix r s s2 x
    assume "llm env (n_calls s2) (tools_request cfg (messages s2)) = ApiError x"
    with assms(1) show False by (metis api_result.distinct(1))
  next
    fix r s e
    assume "unknown_calls env (cm_tool_calls r)"
      and err: "dispatch_calls env (cm_tool_calls r) (append_assistant r s) = Inl e"
    then obtain s' where "dispatch_calls env (cm_tool_calls r) (append_assistant r s) = Inr s'"
      unfolding unknown_calls_def by (blast dest: dispatch_calls_unknown)
    with err show False by simp
  qed (simp add: unknown_calls_def)
qed


text \<open>
  C4. A batch that calls only unregistered tools with parseable arguments never
  raises: each call is answered by an \<open>Unknown tool\<close> error message, in order,
  nothing else changes, and the loop goes on to call the model again.
\<close>

theorem tool_loop_unknown_continues:
  assumes "unknown_calls env (cm_tool_calls r)"
  shows "\<exists>s2. dispatch_calls env (cm_tool_calls r) (append_assistant r s) = Inr s2 \<and>
           messages s2 = messages (append_assistant r s) @ map (unknown_tool_msg env) (cm_tool_calls r) \<and>
           result_data s2 = result_data s \<and> effects s2 = effects s \<and> n_calls s2 = n_calls s \<and>
           tool_loop env cfg r s =
             (case llm env (n_calls s) (tools_request cfg (messages s2)) of
                ApiError _ \<Rightarrow> Some (Inr (s2\<lparr>n_calls := Suc (n_calls s2)\<rparr>))
              | ApiOk r' \<Rightarrow> tool_loop env cfg r' (s2\<lparr>n_calls := Suc (n_calls s2)\<rparr>))"
proof -
  define s2 where "s2 = (append_assistant r s)\<lparr>messages := messages (append_assistant r s) @ map (unknown_tool_msg env) (cm_tool_calls r)\<rparr>"
  from assms have d: "dispatch_calls env (cm_tool_calls r) (append_assistant r s) = Inr s2"
    unfolding unknown_calls_def s2_def by (simp add: dispatch_calls_unknown_eq)
  from assms have "cm_tool_calls r \<noteq> []" by (simp add: unknown_calls_def)
  note next_eq = tool_loop_next [OF this d, of cfg]
  have "n_calls s2 = n_calls s" "result_data s2 = result_data s" "effects s2 = effects s"
    "messages s2 = messages (append_assistant r s) @ map (unknown_tool_msg env) (cm_tool_calls r)"
    by (simp_all add: s2_def append_assistant_def)
  with d next_eq show ?thesis
    by (intro exI [of _ s2]) simp
qed

text \<open>
  C7. Malformed JSON in the arguments of a tool call is not turned into a tool
  result: \<open>json.loads\<close> raises and the exception ends the run.
\<close>

theorem tool_loop_malformed_args:
  "cm_tool_calls r = tc # tcs \<Longrightarrow> loads (codec env) (tc_args tc) = None \<Longrightarrow>
     tool_loop env cfg r s = Some (Inl JSONDecodeError)"
  by (rule tool_loop_raise) (simp_all add: call_tool_def)

text \<open>
  C8. An \<open>escalate_crisis\<close> call stores the handler's result, with the
  generated ticket id, under \<open>"escalated"\<close>, but stores under
  \<open>"ticket_id"\<close> the \<open>ticket_id\<close> argument of the call, which the tool's
  schema does not have: \<open>None\<close>.
\<close>

theorem call_tool_escalate_ticket:
  assumes "tc_name tc = ''escalate_crisis''"
    and "loads (codec env) (tc_args tc) = Some (JObj d)"
    and "map_of d ''ticket_id'' = None"
    and "py_iter (dict_get d ''actions'' (JArr [])) = Inr acts"
    and "loads (codec env) (dumps (codec env) (escalation_result (ticket_id_of (uuid_hex env (n_uuids s)))
            (dict_get d ''severity'' (JStr [])))) =
         Some (escalation_result (ticket_id_of (uuid_hex env (n_uuids s))) (dict_get d ''severity'' (JStr [])))"
  shows "\<exists>s'. call_tool env tc s = Inr s' \<and>
           dict_get (result_data s') ''escalated'' JNull =
             escalation_result (ticket_id_of (uuid_hex env (n_uuids s))) (dict_get d ''severity'' (JStr [])) \<and>
           dict_get (result_data s') ''ticket_id'' JNull = JNull"
  using assms
  by (simp add: call_tool_def process_tool_call_def escalate_crisis_def record_result_def Let_def dict_get_def)

text \<open>
  C9. A failed first call to the model is not retried: the process exits
  with status 1.
\<close>

theorem call_triage_first_call_fails:
  "llm env 0 (tools_request cfg (tools_initial_messages d)) = ApiError m \<Longrightarrow>
     call_triage_llm_with_tools env cfg d = Some (Inl (SystemExit 1))"
  by (simp add: call_triage_llm_with_tools_def)

text \<open>
  C10. If the first answer has no tool calls the run ends after that one call,
  with the conversation as it was sent and an empty result dict; the answer
  itself is not added to the log.
\<close>

theorem call_triage_no_tool_calls:
  "llm env 0 (tools_request cfg (tools_initial_messages d)) = ApiOk r \<Longrightarrow> cm_tool_calls r = [] \<Longrightarrow>
     call_triage_llm_with_tools env cfg d = Some (Inr (initial_state (tools_initial_messages d)))"
  by (simp add: call_triage_llm_with_tools_def tool_loop_stop)


text \<open>
  C5. A batch that completes appends exactly one tool message per tool call,
  in the order the model emitted the calls, each carrying its call's id.
\<close>

theorem dispatch_calls_order:
  "dispatch_calls env tcs s = Inr s' \<Longrightarrow>
     \<exists>rs. length rs = length tcs \<and> messages s' = messages s @ map2 tool_result_msg (map tc_id tcs) rs"
  by (drule dispatch_calls_Inr) blast

text \<open>
  C6. A batch that completes raises exactly one escalation alert, and draws
  exactly one uuid, per \<open>escalate_crisis\<close> call it contains.
\<close>

theorem dispatch_calls_escalations:
  "dispatch_calls env tcs s = Inr s' \<Longrightarrow>
     length (effects s') = length (effects s) + length (filter (\<lambda>tc. tc_name tc = ''escalate_crisis'') tcs) \<and>
     n_uuids s' = n_uuids s + length (filter (\<lambda>tc. tc_name tc = ''escalate_crisis'') tcs)"
  by (drule dispatch_calls_Inr) blast

lemma result_keys_ok_set:
  "result_keys_ok d \<Longrightarrow> k \<noteq> ''escalated'' \<Longrightarrow> k \<noteq> ''ticket_id'' \<Longrightarrow> map_of d k = None"
  by (auto simp: result_keys_ok_def map_of_eq_None_iff)

lemma record_result_keys:
  assumes "record_result env tc input res s = Inr s'" and "result_keys_ok (result_data s)"
  shows "result_keys_ok (result_data s')"
proof -
  from assms(1) have "result_data s' = result_data s \<or>
      (\<exists>e t. result_data s' = dict_set (dict_set (result_data s) ''escalated'' e) ''ticket_id'' t)"
    by (auto simp: record_result_def Let_def sbind_eq_Inr split: if_splits option.splits intro!: exI)
  with assms(2) show ?thesis
    by (elim disjE exE) (simp_all add: result_keys_ok_def)
qed

lemma dispatch_calls_keys:
  "dispatch_calls env tcs s = Inr s' \<Longrightarrow> result_keys_ok (result_data s) \<Longrightarrow> result_keys_ok (result_data s')"
proof (induction tcs arbitrary: s)
  case Nil
  then show ?case by simp
next
  case (Cons tc tcs)
  then obtain s1 where c: "call_tool env tc s = Inr s1" and d: "dispatch_calls env tcs s1 = Inr s'"
    by (auto simp: sbind_eq_Inr)
  from c obtain input res s0 where
    p: "process_tool_call env s (tc_name tc) input = Inr (res, s0)" and
    r: "record_result env tc input res s0 = Inr s1"
    by (auto simp: call_tool_def sbind_eq_Inr split: option.splits)
  from process_tool_call_frame [OF p] Cons.prems(2) have "result_keys_ok (result_data s0)" by simp
  with r have "result_keys_ok (result_data s1)" by (rule record_result_keys)
  with d show ?case by (rule Cons.IH)
qed

lemma tool_loop_keys:
  assumes "tool_loop env cfg r s = Some (Inr s')" and "result_keys_ok (result_data s)"
  shows "result_keys_ok (result_data s')"
proof -
  have "case (Inr s' :: py_exc + loop_state) of Inl _ \<Rightarrow> True | Inr t \<Rightarrow> result_keys_ok (result_data t)"
    by (rule tool_loop_rule [OF assms(1), where J = "\<lambda>r s. result_keys_ok (result_data s)"])
       (use assms(2) in \<open>auto simp: append_assistant_def dest: dispatch_calls_keys\<close>)
  then show ?thesis by simp
qed

text \<open>
  C11. Whatever the model does, a run that returns prints \<open>(none)\<close> as summary
  and severity: the dict the loop returns only ever holds the keys
  \<open>"escalated"\<close> and \<open>"ticket_id"\<close>.
\<close>

theorem run_workflow_reports_none:
  assumes "call_triage_llm_with_tools env cfg d = Some (Inr s)"
  shows "\<exists>lines. run_workflow_with_function_calling env cfg d = Some (Inr lines) \<and>
           lines ! 1 = ''Summary : (none)'' \<and> lines ! 2 = ''Severity: (none)'' \<and> lines ! 4 \<noteq> []"
proof -
  have "result_keys_ok (result_data s)"
  proof (cases "llm env 0 (tools_request cfg (tools_initial_messages d))")
    case (ApiOk r)
    with assms have "tool_loop env cfg r (initial_state (tools_initial_messages d)) = Some (Inr s)"
      by (simp add: call_triage_llm_with_tools_def)
    then show ?thesis
      by (rule tool_loop_keys) (simp add: initial_state_def result_keys_ok_def)
  next
    case (ApiError x)
    with assms show ?thesis by (simp add: call_triage_llm_with_tools_def)
  qed
  then have "map_of (result_data s) ''summary'' = None" "map_of (result_data s) ''severity'' = None"
    "map_of (result_data s) ''actions'' = None"
    by (simp_all add: result_keys_ok_set)
  with assms show ?thesis
    by (simp add: run_workflow_with_function_calling_def workflow_report_def dict_get_def)
qed


lemma process_tool_call_alerts:
  "process_tool_call env s name input = Inr (res, s1) \<Longrightarrow> alerts_drawn env s \<Longrightarrow> alerts_drawn env s1"
  by (auto simp: process_tool_call_def escalate_crisis_def alerts_drawn_def Let_def sbind_eq_Inr
           split: if_splits prod.splits)

lemma dispatch_calls_alerts:
  "dispatch_calls env tcs s = Inr s' \<Longrightarrow> alerts_drawn env s \<Longrightarrow> alerts_drawn env s'"
proof (induction tcs arbitrary: s)
  case (Cons tc tcs)
  then obtain s1 where c: "call_tool env tc s = Inr s1" and d: "dispatch_calls env tcs s1 = Inr s'"
    by (auto simp: sbind_eq_Inr)
  from c obtain input res s0 where
    p: "process_tool_call env s (tc_name tc) input = Inr (res, s0)" and
    r: "record_result env tc input res s0 = Inr s1"
    by (auto simp: call_tool_def sbind_eq_Inr split: option.splits)
  have "alerts_drawn env s0" using process_tool_call_alerts [OF p Cons.prems(2)] .
  then have "alerts_drawn env s1" using record_result_frame [OF r] by (simp add: alerts_drawn_def)
  with d show ?case by (rule Cons.IH)
qed simp

lemma call_triage_llm_with_tools_loop:
  "call_triage_llm_with_tools env cfg d = Some (Inr s) \<Longrightarrow>
     \<exists>r. tool_loop env cfg r (initial_state (tools_initial_messages d)) = Some (Inr s)"
  by (auto simp: call_triage_llm_with_tools_def Let_def split: api_result.splits)

text \<open>
  C12. Every escalation draws its own uuid: when the function-calling triage
  returns, the tickets of its escalation effects, in order, are the ticket ids
  of the uuid draws \<open>0, 1, ..., n-1\<close> of that run, one draw per escalation and
  no draw without an escalation.
\<close>

theorem tool_loop_alert_tickets:
  assumes "call_triage_llm_with_tools env cfg d = Some (Inr s)"
  shows "map effect_ticket (effects s) = map (ticket_id_of \<circ> uuid_hex env) [0..<n_uuids s]"
proof -
  obtain r where loop: "tool_loop env cfg r (initial_state (tools_initial_messages d)) = Some (Inr s)"
    using call_triage_llm_with_tools_loop [OF assms] ..
  have "case (Inr s :: py_exc + loop_state) of Inl _ \<Rightarrow> True | Inr t \<Rightarrow> alerts_drawn env t"
    by (rule tool_loop_rule [OF loop, where J = "\<lambda>r s. alerts_drawn env s"])
       (auto simp: initial_state_def alerts_drawn_def append_assistant_def
             dest!: dispatch_calls_alerts [unfolded alerts_drawn_def])
  then show ?thesis by (simp add: alerts_drawn_def)
qed

lemma dispatch_calls_assistant:
  "dispatch_calls env tcs s = Inr s' \<Longrightarrow>
     (\<exists>rest. messages s' = messages s @ rest \<and> n_assistant rest = 0) \<and> n_calls s' = n_calls s"
  by (drule dispatch_calls_Inr)
     (auto simp: n_assistant_def tool_result_msg_def filter_empty_conv dest: set_zip_leftD set_zip_rightD)

text \<open>
  C13. The conversation only grows: when the function-calling triage returns,
  its message log starts with the system prompt and the user's description, and
  the model was called exactly once more than the log holds assistant turns
  (every call that requested tools appended its assistant turn; the final answer
  is not appended).
\<close>

theorem tool_loop_log_calls:
  assumes "call_triage_llm_with_tools env cfg d = Some (Inr s)"
  shows "(\<exists>rest. messages s = tools_initial_messages d @ rest) \<and>
         n_calls s = Suc (n_assistant (messages s))"
proof -
  obtain r where loop: "tool_loop env cfg r (initial_state (tools_initial_messages d)) = Some (Inr s)"
    using call_triage_llm_with_tools_loop [OF assms] ..
  let ?J = "\<lambda>r s. (\<exists>rest. messages s = tools_initial_messages d @ rest) \<and> n_calls s = Suc (n_assistant (messages s))"
  have "case (Inr s :: py_exc + loop_state) of Inl _ \<Rightarrow> True | Inr t \<Rightarrow> ?J r t"
  proof (rule tool_loop_rule [OF loop, where J = ?J])
    show "?J r (initial_state (tools_initial_messages d))"
      by (simp add: initial_state_def tools_initial_messages_def n_assistant_def message_defs)
  next
    fix r s s2 x
    assume "?J r s" "dispatch_calls env (cm_tool_calls r) (append_assistant r s) = Inr s2"
    then show "case (Inr (s2\<lparr>n_calls := Suc (n_calls s2)\<rparr>) :: py_exc + loop_state) of Inl _ \<Rightarrow> True | Inr t \<Rightarrow> ?J r t"
      by (auto simp: append_assistant_def n_assistant_def message_defs dest!: dispatch_calls_assistant)
  next
    fix r s s2 r'
    assume "?J r s" "dispatch_calls env (cm_tool_calls r) (append_assistant r s) = Inr s2"
    then show "?J r' (s2\<lparr>n_calls := Suc (n_calls s2)\<rparr>)"
      by (auto simp: append_assistant_def n_assistant_def message_defs dest!: dispatch_calls_assistant)
  qed auto
  then show ?thesis by simp
qed

end
