(* ===== verification/Triage.thy ===== *)
theory Triage
  imports Client
begin

text \<open>
  The JSON-mode incident workflow of \<open>src/workshop1/exercise7.py\<close>: a few-shot
  prompt (\<open>build_messages\<close>), one call in JSON mode whose answer is parsed and
  completed with defaults (\<open>call_triage_llm\<close>), then a ticket
  (\<open>create_ticket_incident\<close>), a simulated database write
  (\<open>save_to_db_placeholder\<close>), an e-mail alert for ALERT and CRISIS
  (\<open>maybe_escalate_to_email\<close>, \<open>send_email_alert\<close>; with
  \<open>USE_REAL_EMAIL\<close> on, \<open>send_real_email\<close> parses the receiver and posts,
  and either step may raise) and a dashboard update,
  composed by \<open>run_workflow\<close>.

  The service, \<open>uuid4\<close>, \<open>json\<close> and the \<open>USE_REAL_EMAIL\<close> switch are the
  environment \<open>triage_env\<close>. The workflow's state is the number of uuids drawn
  and the list of steps it reports on the console with the \<open>[WORKFLOW]\<close> and
  \<open>[EMAIL]\<close> tags (\<open>wf_event\<close>); a real e-mail is the event of posting
  it. \<open>sys.exit(1)\<close> is the exception \<open>SystemExit 1\<close>. Posting a real e-mail
  (\<open>_send_real_email\<close>) parses the configured receiver with \<open>json.loads\<close> and
  calls the e-mail API (\<open>t_post_email\<close>: \<open>requests.post\<close> and
  \<open>response.json()\<close>, which answer or raise); nothing catches its exceptions.
\<close>

section \<open>Data\<close>

datatype wf_event =
    TicketCreated string string jval
  | DbSaved string
  | EmailSimulated string "string list"
  | EmailPosted string string
  | NoEscalation
  | DashboardUpdated

record triage_env =
  t_llm :: "chat_request \<Rightarrow> api_result"
  t_uuid_hex :: "nat \<Rightarrow> string"
  t_codec :: json_codec
  use_real_email :: bool
  t_email_receiver :: string
  t_post_email :: "pydict \<Rightarrow> py_exc + jval"

record wf_state =
  wf_uuids :: nat
  wf_events :: "wf_event list"

section \<open>Utility functions\<close>

definition severity_score :: "string \<Rightarrow> int" where
  "severity_score severity =
     (case map_of [(''NORMAL'', 25), (''ALERT'', 65), (''CRISIS'', 95)] (py_upper severity) of
        Some v \<Rightarrow> v
      | None \<Rightarrow> 25)"

definition few_shot_normal :: jval where
  "few_shot_normal =
     JObj [(''summary'', JStr ''Minor slowdown on intranet homepage for some users.''),
           (''severity'', JStr ''NORMAL''),
           (''actions'', JArr [JStr ''Log the incident in the monitoring system.'',
                               JStr ''Check recent performance dashboards.'',
                               JStr ''Monitor for any worsening or new complaints.''])]"

definition few_shot_crisis :: jval where
  "few_shot_crisis =
     JObj [(''summary'', JStr ''Production database outage blocking all applications.''),
           (''severity'', JStr ''CRISIS''),
           (''actions'', JArr [JStr ''Page on-call DB engineer immediately.'',
                               JStr ''Fail over to backup database if available.'',
                               JStr ''Post incident update on status page.'',
                               JStr ''Notify leadership about business impact.''])]"

definition incident_prompt :: "string \<Rightarrow> string" where
  "incident_prompt text = ''Incident description:'' @ [CHR 0x0A] @ text"

definition build_messages :: "json_codec \<Rightarrow> string \<Rightarrow> message list" where
  "build_messages c description =
     [plain_msg System (''You are a concise incident triage assistant. '' @
                        ''Always reply with a single JSON object only.''),
      plain_msg User (incident_prompt ''Some users report a slightly slow page load on the intranet homepage.''),
      plain_msg Assistant (dumps c few_shot_normal),
      plain_msg User (incident_prompt ''Production database is down, no connections possible from any app.''),
      plain_msg Assistant (dumps c few_shot_crisis),
      plain_msg User (incident_prompt description @ [CHR 0x0A, CHR 0x0A] @
                      ''Return ONLY a JSON object with keys: summary, severity, actions. '' @
                      ''severity must be one of: NORMAL, ALERT, CRISIS. '' @
                      ''actions must be a list of 3-5 concrete next steps.'')]"

definition json_request :: "triage_config \<Rightarrow> message list \<Rightarrow> chat_request" where
  "json_request cfg ms =
     \<lparr>rq_model = deployment cfg, rq_messages = ms, rq_tools = [], rq_tool_choice = None,
      rq_response_format = Some ''json_object'', rq_temperature = Some (temperature cfg),
      rq_max_tokens = Some (max_tokens cfg)\<rparr>"

text \<open>
  The defaults of lines 162--167: the three keys are set if missing, and an
  \<open>actions\<close> value that is not a list is replaced by the one-element list of its
  \<open>str()\<close>.
\<close>

definition normalize_triage :: "pydict \<Rightarrow> pydict" where
  "normalize_triage d0 =
     (let d = dict_setdefault (dict_setdefault (dict_setdefault d0 ''summary'' (JStr ''(no summary)''))
                ''severity'' (JStr ''NORMAL'')) ''actions'' (JArr [])
      in case dict_get d ''actions'' JNull of
           JArr _ \<Rightarrow> d
         | a \<Rightarrow> dict_set d ''actions'' (JArr [JStr (py_str a)]))"

text \<open>
  A failed call, a reply that is not JSON and a JSON reply that is not an object
  end the process with status 1. A reply without content reaches
  \<open>json.loads(None)\<close>, whose \<open>TypeError\<close> no handler catches.
\<close>

definition call_triage_llm :: "triage_env \<Rightarrow> triage_config \<Rightarrow> string \<Rightarrow> py_exc + pydict" where
  "call_triage_llm env cfg description =
     (case t_llm env (json_request cfg (build_messages (t_codec env) description)) of
        ApiError _ \<Rightarrow> Inl (SystemExit 1)
      | ApiOk r \<Rightarrow>
          (case cm_content r of
             None \<Rightarrow> Inl TypeError
           | Some reply \<Rightarrow>
               (case loads (t_codec env) reply of
                  None \<Rightarrow> Inl (SystemExit 1)
                | Some (JObj d) \<Rightarrow> Inr (normalize_triage d)
                | Some _ \<Rightarrow> Inl (SystemExit 1))))"

section \<open>Workflow steps\<close>

definition create_ticket_incident :: "triage_env \<Rightarrow> jval \<Rightarrow> string \<Rightarrow> wf_state \<Rightarrow> string \<times> wf_state" where
  "create_ticket_incident env summary severity s =
     (let ticket_id = ticket_id_of (t_uuid_hex env (wf_uuids s))
      in (ticket_id, s\<lparr>wf_uuids := Suc (wf_uuids s),
                       wf_events := wf_events s @ [TicketCreated ticket_id severity summary]\<rparr>))"

definition save_to_db_placeholder :: "string \<Rightarrow> wf_state \<Rightarrow> wf_state" where
  "save_to_db_placeholder ticket_id s = s\<lparr>wf_events := wf_events s @ [DbSaved ticket_id]\<rparr>"

definition email_subject :: "string \<Rightarrow> string \<Rightarrow> jval \<Rightarrow> string" where
  "email_subject ticket_id severity summary =
     ''['' @ severity @ ''] Incident '' @ ticket_id @ '' - '' @ py_str summary"

definition email_body_lines :: "string \<Rightarrow> string \<Rightarrow> jval list \<Rightarrow> string list" where
  "email_body_lines ticket_id severity acts =
     [''Incident ID: '' @ ticket_id, ''Severity   : '' @ severity, [], ''Recommended actions:''] @
     numbered_lines 1 acts"

text \<open>The e-mail \<open>send_email_alert\<close> sends, real (\<open>_send_real_email\<close>) or simulated.\<close>

definition email_event :: "bool \<Rightarrow> string \<Rightarrow> string list \<Rightarrow> wf_event" where
  "email_event real_send subject body_lines =
     (if real_send then EmailPosted subject (py_join [CHR 0x0A] body_lines) else EmailSimulated subject body_lines)"

text \<open>
  \<open>_send_real_email\<close>, lines 189--210: \<open>json.loads(get_email_receiver())\<close>,
  then the post of the payload and \<open>response.json()\<close>; the API address and
  key are part of \<open>t_post_email\<close>. Its value is the response's JSON.
\<close>

definition send_real_email :: "triage_env \<Rightarrow> string \<Rightarrow> string \<Rightarrow> py_exc + jval" where
  "send_real_email env subject body =
     (case loads (t_codec env) (t_email_receiver env) of
        None \<Rightarrow> Inl JSONDecodeError
      | Some email_receiver \<Rightarrow>
          t_post_email env [(''to'', email_receiver), (''subject'', JStr subject), (''body'', JStr body)])"

text \<open>Lines 213--236: the body is built, then the e-mail is posted or simulated.\<close>

definition send_email_alert ::
  "triage_env \<Rightarrow> string \<Rightarrow> string \<Rightarrow> jval \<Rightarrow> jval \<Rightarrow> wf_state \<Rightarrow> py_exc + wf_state" where
  "send_email_alert env ticket_id severity summary actions s =
     (let subject = email_subject ticket_id severity summary
      in sbind (py_iter actions) (\<lambda>acts.
           let body_lines = email_body_lines ticket_id severity acts;
               s' = s\<lparr>wf_events := wf_events s @ [email_event (use_real_email env) subject body_lines]\<rparr>
           in if use_real_email env
              then sbind (send_real_email env subject (py_join [CHR 0x0A] body_lines)) (\<lambda>_. Inr s')
              else Inr s'))"

definition escalation_severities :: "string list" where
  "escalation_severities = [''ALERT'', ''CRISIS'']"

text \<open>\<open>str(data.get("severity", "NORMAL")).upper()\<close>\<close>

definition severity_label :: "pydict \<Rightarrow> string" where
  "severity_label data = py_upper (py_str (dict_get data ''severity'' (JStr ''NORMAL'')))"

definition maybe_escalate_to_email :: "triage_env \<Rightarrow> string \<Rightarrow> pydict \<Rightarrow> wf_state \<Rightarrow> py_exc + wf_state" where
  "maybe_escalate_to_email env ticket_id data s =
     (let severity = severity_label data
      in if severity \<in> set escalation_severities
         then send_email_alert env ticket_id severity (dict_get data ''summary'' (JStr []))
                (dict_get data ''actions'' (JArr [])) s
         else Inr (s\<lparr>wf_events := wf_events s @ [NoEscalation]\<rparr>))"

text \<open>
  The end-to-end workflow. It returns the ticket id, the score it prints and the
  final state; the actions are iterated for printing before the ticket is made.
\<close>

definition run_workflow :: "triage_env \<Rightarrow> triage_config \<Rightarrow> string \<Rightarrow> py_exc + (string \<times> int \<times> wf_state)" where
  "run_workflow env cfg description =
     sbind (call_triage_llm env cfg description) (\<lambda>data.
       let sev = severity_label data; score = severity_score sev
       in sbind (py_iter (dict_get data ''actions'' (JArr []))) (\<lambda>_.
            case create_ticket_incident env (dict_get data ''summary'' (JStr [])) sev
                   \<lparr>wf_uuids = 0, wf_events = []\<rparr> of
              (ticket_id, s1) \<Rightarrow>
                sbind (maybe_escalate_to_email env ticket_id data (save_to_db_placeholder ticket_id s1)) (\<lambda>s3.
                  Inr (ticket_id, score, s3\<lparr>wf_events := wf_events s3 @ [DashboardUpdated]\<rparr>))))"

section \<open>The entry point\<close>

definition triage_banner :: "string list" where
  "triage_banner =
     [''=== Incident Triage Console Demo ==='', ''This demo uses:'', ''- Few-shot prompt engineering'',
      ''- JSON-only output (response_format = json_object)'',
      ''- Simple end-to-end workflow (ticket + DB + email)'' @ [CHR 0x0A]]"

text \<open>
  \<open>main\<close>, lines 278--306: the description, the temperature and the token
  ceiling from the console, each stripped; an empty description ends the script.
  \<open>float()\<close> on the temperature is the parameter \<open>parse_float\<close> (floats are
  configuration values here), \<open>int()\<close> is \<open>py_int\<close>. The result is the lines
  printed before the workflow and the workflow's result, if it ran.
\<close>

definition triage_main ::
  "triage_env \<Rightarrow> string \<Rightarrow> (string \<Rightarrow> real option) \<Rightarrow> console_in list \<Rightarrow>
   py_exc + string list \<times> (string \<times> int \<times> wf_state) option" where
  "triage_main env model parse_float ins =
     sbind (py_input ins) (\<lambda>(d, ins1).
       let description = py_strip d in
       if description = [] then Inr (triage_banner @ [''No description provided. Exiting.''], None)
       else sbind (py_input ins1) (\<lambda>(t, ins2).
         let temp_str = py_strip t;
             (temp, m1) = read_setting parse_float (2 / 10)
               (''Invalid temperature '' @ [CHR 0x27] @ temp_str @ [CHR 0x27] @ '', using default 0.2.'') temp_str
         in sbind (py_input ins2) (\<lambda>(k, _).
              let mt_str = py_strip k;
                  (mt, m2) = read_setting py_int 200
                    (''Invalid max tokens '' @ [CHR 0x27] @ mt_str @ [CHR 0x27] @ '', using default 200.'') mt_str
              in sbind (run_workflow env \<lparr>deployment = model, temperature = temp, max_tokens = mt\<rparr> description)
                   (\<lambda>r. Inr (triage_banner @ m1 @ m2, Some r)))))"

definition is_email :: "wf_event \<Rightarrow> bool" where
  "is_email e = (case e of EmailSimulated _ _ \<Rightarrow> True | EmailPosted _ _ \<Rightarrow> True | _ \<Rightarrow> False)"

text \<open>
  The steps that follow the e-mail decision, for a dict as \<open>call_triage_llm\<close>
  returns it (its actions a list).
\<close>

definition escalation_mail :: "string \<Rightarrow> pydict \<Rightarrow> string \<times> string list" where
  "escalation_mail tid data =
     (email_subject tid (severity_label data) (dict_get data ''summary'' (JStr [])),
      email_body_lines tid (severity_label data)
        (case dict_get data ''actions'' (JArr []) of JArr acts \<Rightarrow> acts | _ \<Rightarrow> []))"

definition escalation_steps :: "triage_env \<Rightarrow> string \<Rightarrow> pydict \<Rightarrow> wf_event list" where
  "escalation_steps env tid data =
     (if severity_label data \<in> set escalation_severities
      then [email_event (use_real_email env) (fst (escalation_mail tid data)) (snd (escalation_mail tid data))]
      else [NoEscalation])"

text \<open>The exception the real e-mail raises, if the workflow posts one.\<close>

definition escalation_failure :: "triage_env \<Rightarrow> string \<Rightarrow> pydict \<Rightarrow> py_exc option" where
  "escalation_failure env tid data =
     (if severity_label data \<in> set escalation_severities \<and> use_real_email env
      then (case send_real_email env (fst (escalation_mail tid data)) (py_join [CHR 0x0A] (snd (escalation_mail tid data))) of
              Inl e \<Rightarrow> Some e | Inr _ \<Rightarrow> None)
      else None)"

section \<open>Lemmas\<close>

lemma map_of_normalize_triage:
  "map_of (normalize_triage d) =
     (map_of d)(''summary'' \<mapsto> (case map_of d ''summary'' of None \<Rightarrow> JStr ''(no summary)'' | Some v \<Rightarrow> v),
                ''severity'' \<mapsto> (case map_of d ''severity'' of None \<Rightarrow> JStr ''NORMAL'' | Some v \<Rightarrow> v),
                ''actions'' \<mapsto> (case map_of d ''actions'' of None \<Rightarrow> JArr []
                                  | Some v \<Rightarrow> (case v of JArr xs \<Rightarrow> JArr xs | a \<Rightarrow> JArr [JStr (py_str a)])))"
proof -
  define d1 where "d1 = dict_setdefault (dict_setdefault (dict_setdefault d ''summary'' (JStr ''(no summary)''))
                ''severity'' (JStr ''NORMAL'')) ''actions'' (JArr [])"
  have m1: "map_of d1 =
     (map_of d)(''summary'' \<mapsto> (case map_of d ''summary'' of None \<Rightarrow> JStr ''(no summary)'' | Some v \<Rightarrow> v),
                ''severity'' \<mapsto> (case map_of d ''severity'' of None \<Rightarrow> JStr ''NORMAL'' | Some v \<Rightarrow> v),
                ''actions'' \<mapsto> (case map_of d ''actions'' of None \<Rightarrow> JArr [] | Some v \<Rightarrow> v))"
    by (auto simp: d1_def map_of_setdefault fun_eq_iff split: option.splits)
  have a1: "dict_get d1 ''actions'' JNull = (case map_of d ''actions'' of None \<Rightarrow> JArr [] | Some v \<Rightarrow> v)"
    by (simp add: dict_get_def m1)
  have "normalize_triage d = (case dict_get d1 ''actions'' JNull of JArr _ \<Rightarrow> d1
                               | a \<Rightarrow> dict_set d1 ''actions'' (JArr [JStr (py_str a)]))"
    by (simp only: normalize_triage_def d1_def Let_def)
  then have "map_of (normalize_triage d) = (case dict_get d1 ''actions'' JNull of JArr _ \<Rightarrow> map_of d1
                               | a \<Rightarrow> (map_of d1)(''actions'' \<mapsto> JArr [JStr (py_str a)]))"
    by (cases "dict_get d1 ''actions'' JNull") simp_all
  then show ?thesis
    unfolding a1 m1 by (auto simp: fun_eq_iff split: option.splits jval.splits)
qed

lemma dict_get_normalize_triage_actions:
  "\<exists>acts. dict_get (normalize_triage d) ''actions'' x = JArr acts"
  by (auto simp: dict_get_def map_of_normalize_triage split: option.splits jval.splits)

lemma call_triage_llm_Inr:
  "call_triage_llm env cfg desc = Inr data \<longleftrightarrow>
     (\<exists>r c d. t_llm env (json_request cfg (build_messages (t_codec env) desc)) = ApiOk r \<and>
              cm_content r = Some c \<and> loads (t_codec env) c = Some (JObj d) \<and> data = normalize_triage d)"
  by (auto simp: call_triage_llm_def split: api_result.splits option.splits jval.splits)

lemma send_email_alert_JArr:
  "send_email_alert env tid sev summary (JArr acts) s =
     (case (if use_real_email env
            then send_real_email env (email_subject tid sev summary) (py_join [CHR 0x0A] (email_body_lines tid sev acts))
            else Inr JNull) of
        Inl e \<Rightarrow> Inl e
      | Inr _ \<Rightarrow> Inr (s\<lparr>wf_events := wf_events s @
                   [email_event (use_real_email env) (email_subject tid sev summary) (email_body_lines tid sev acts)]\<rparr>))"
  by (simp add: send_email_alert_def Let_def split: sum.split)

lemma maybe_escalate_normalized:
  "maybe_escalate_to_email env tid (normalize_triage d) s =
     (case escalation_failure env tid (normalize_triage d) of
        Some e \<Rightarrow> Inl e
      | None \<Rightarrow> Inr (s\<lparr>wf_events := wf_events s @ escalation_steps env tid (normalize_triage d)\<rparr>))"
proof -
  obtain acts where "dict_get (normalize_triage d) ''actions'' (JArr []) = JArr acts"
    using dict_get_normalize_triage_actions by blast
  then show ?thesis
    by (simp add: maybe_escalate_to_email_def escalation_steps_def escalation_failure_def escalation_mail_def
                  send_email_alert_JArr Let_def split: sum.split)
qed

lemma run_workflow_eq:
  "run_workflow env cfg desc =
     (case call_triage_llm env cfg desc of
        Inl e \<Rightarrow> Inl e
      | Inr data \<Rightarrow>
          (case escalation_failure env (ticket_id_of (t_uuid_hex env 0)) data of
             Some e \<Rightarrow> Inl e
           | None \<Rightarrow>
               Inr (ticket_id_of (t_uuid_hex env 0), severity_score (severity_label data),
                    \<lparr>wf_uuids = 1,
                     wf_events = [TicketCreated (ticket_id_of (t_uuid_hex env 0)) (severity_label data)
                                    (dict_get data ''summary'' (JStr [])),
                                  DbSaved (ticket_id_of (t_uuid_hex env 0))] @
                                 escalation_steps env (ticket_id_of (t_uuid_hex env 0)) data @ [DashboardUpdated]\<rparr>)))"
proof (cases "call_triage_llm env cfg desc")
  case (Inl e)
  then show ?thesis by (simp add: run_workflow_def)
next
  case (Inr data)
  then obtain d where d: "data = normalize_triage d"
    by (auto simp: call_triage_llm_Inr)
  obtain acts where acts: "dict_get data ''actions'' (JArr []) = JArr acts"
    using dict_get_normalize_triage_actions d by blast
  show ?thesis
    using Inr acts
    by (simp add: run_workflow_def d maybe_escalate_normalized create_ticket_incident_def
                  save_to_db_placeholder_def Let_def split: option.split)
qed

text \<open>
  C16. Whatever the model answers, a dict that \<open>call_triage_llm\<close> returns has a
  summary, a severity and a list of actions.
\<close>

lemma call_triage_llm_normalized:
  "call_triage_llm env cfg desc = Inr data \<Longrightarrow>
     (\<exists>v. map_of data ''summary'' = Some v) \<and> (\<exists>v. map_of data ''severity'' = Some v) \<and>
     (\<exists>acts. map_of data ''actions'' = Some (JArr acts))"
  by (auto simp: call_triage_llm_Inr map_of_normalize_triage split: option.splits jval.splits)

text \<open>
  C17. On a reply whose content parses to a JSON object, \<open>call_triage_llm\<close>
  returns that object with the keys it lacks set to their defaults and a
  non-list \<open>actions\<close> replaced by the list of its \<open>str()\<close>; every
  other key is kept as the model sent it.
\<close>

lemma call_triage_llm_reply:
  assumes "t_llm env (json_request cfg (build_messages (t_codec env) desc)) = ApiOk r"
    and "cm_content r = Some c" and "loads (t_codec env) c = Some (JObj d)"
  shows "\<exists>data. call_triage_llm env cfg desc = Inr data \<and>
     map_of data =
     (map_of d)(''summary'' \<mapsto> (case map_of d ''summary'' of None \<Rightarrow> JStr ''(no summary)'' | Some v \<Rightarrow> v),
                ''severity'' \<mapsto> (case map_of d ''severity'' of None \<Rightarrow> JStr ''NORMAL'' | Some v \<Rightarrow> v),
                ''actions'' \<mapsto> (case map_of d ''actions'' of None \<Rightarrow> JArr []
                                  | Some v \<Rightarrow> (case v of JArr xs \<Rightarrow> JArr xs | a \<Rightarrow> JArr [JStr (py_str a)])))"
  using assms by (simp add: call_triage_llm_def map_of_normalize_triage)

text \<open>
  C18. \<open>call_triage_llm\<close> fails only by \<open>sys.exit(1)\<close>, or by the
  uncaught \<open>TypeError\<close> of \<open>json.loads(None)\<close> when the reply has no
  content.
\<close>

lemma call_triage_llm_errors:
  "call_triage_llm env cfg desc = Inl e \<Longrightarrow>
     e = SystemExit 1 \<or>
     (e = TypeError \<and> (\<exists>r. t_llm env (json_request cfg (build_messages (t_codec env) desc)) = ApiOk r \<and> cm_content r = None))"
  by (auto simp: call_triage_llm_def split: api_result.splits option.splits jval.splits)

text \<open>
  C19. After the triage call, the only step of \<open>run_workflow\<close> that can raise
  is the posting of a real e-mail: the workflow fails exactly when
  \<open>call_triage_llm\<close> fails, or when the severity calls for an e-mail,
  \<open>USE_REAL_EMAIL\<close> is set and \<open>_send_real_email\<close> raises (the receiver's
  JSON, the post or the response's JSON), with that exception. With the
  simulated e-mail of the script as shipped, nothing after the triage call
  raises.
\<close>

lemma run_workflow_raises:
  "run_workflow env cfg desc = Inl e \<longleftrightarrow>
     call_triage_llm env cfg desc = Inl e \<or>
     (\<exists>data. call_triage_llm env cfg desc = Inr data \<and>
        severity_label data \<in> set escalation_severities \<and> use_real_email env \<and>
        send_real_email env (fst (escalation_mail (ticket_id_of (t_uuid_hex env 0)) data))
          (py_join [CHR 0x0A] (snd (escalation_mail (ticket_id_of (t_uuid_hex env 0)) data))) = Inl e)"
  by (auto simp: run_workflow_eq escalation_failure_def split: sum.splits option.splits if_splits)

text \<open>
  C20. A completed \<open>run_workflow\<close> creates one ticket with the first uuid,
  saves it, then escalates or reports no escalation, then updates the
  dashboards, in this order; the score it prints is that of the severity label.
\<close>

lemma run_workflow_steps:
  "run_workflow env cfg desc = Inr (tid, score, s) \<Longrightarrow>
     \<exists>data. call_triage_llm env cfg desc = Inr data \<and> tid = ticket_id_of (t_uuid_hex env 0) \<and>
        score = severity_score (severity_label data) \<and>
        wf_events s = [TicketCreated tid (severity_label data) (dict_get data ''summary'' (JStr [])), DbSaved tid] @
                      escalation_steps env tid data @ [DashboardUpdated]"
  by (auto simp: run_workflow_eq split: sum.splits option.splits)

text \<open>
  C15. A completed \<open>run_workflow\<close> sends exactly one e-mail when the
  upper-cased severity is ALERT or CRISIS, and none otherwise.
\<close>

lemma run_workflow_email_once:
  "call_triage_llm env cfg desc = Inr data \<Longrightarrow> run_workflow env cfg desc = Inr (tid, score, s) \<Longrightarrow>
     length (filter is_email (wf_events s)) = (if severity_label data \<in> set escalation_severities then 1 else 0)"
  by (auto simp: run_workflow_eq escalation_steps_def is_email_def email_event_def split: option.splits)

lemma severity_label_upper [simp]: "py_upper (severity_label data) = severity_label data"
  by (simp add: severity_label_def)

text \<open>
  \<open>severity_score\<close> only takes the values 25, 65 and 95.
\<close>

lemma severity_score_bounds:
  "severity_score s \<in> {25, 65, 95}"
  by (auto simp: severity_score_def split: option.splits)



text \<open>
  C23. What \<open>main\<close> of \<open>exercise7.py\<close> raises: either the \<open>EOFError\<close> or
  \<open>KeyboardInterrupt\<close> of an \<open>input()\<close>, only when the console does not
  hold three lines, or the exception of \<open>run_workflow\<close> on the stripped
  description with the model's deployment (C19 says which those are).
\<close>

theorem triage_main_raises:
  assumes "triage_main env m pf ins = Inl e"
  shows "((e = EOFError \<or> e = KeyboardInterrupt) \<and> \<not> (\<exists>d t k rest. ins = Line d # Line t # Line k # rest)) \<or>
         (\<exists>cfg d. deployment cfg = m \<and> hd ins = Line d \<and> py_strip d \<noteq> [] \<and> run_workflow env cfg (py_strip d) = Inl e)"
  using assms
  by (auto simp: triage_main_def Let_def sbind_eq_Inl py_input_Inl py_input_Inr case_prod_unfold split: if_splits)

end
