(* ===== verification/ChatLoop.thy ===== *)
theory ChatLoop
  imports Client
begin

text \<open>
  The interactive chat scripts: \<open>run_chat_loop\<close> of
  \<open>src/workshop1/exercise4_enhanced.py\<close> (a conversation kept across turns,
  with the commands exit, reset and show history, and a failed call undone),
  the two-turn conversation of \<open>exercise4.py\<close>, and the stateless question
  loop of \<open>exercise3.py\<close>.

  The console is \<open>PyBase.console_in\<close>: lines and Ctrl-C, its end raising
  \<open>EOFError\<close>. The model is a function of the call number and the request, as
  in \<open>ToolCalling\<close>. The state is the script's \<open>messages\<close>, the number of
  calls made, the requests sent (what the service receives, in order) and the
  lines printed.
\<close>

record chat_env =
  chat_llm :: "nat \<Rightarrow> chat_request \<Rightarrow> api_result"
  chat_deployment :: string

record chat_state =
  ch_messages :: "message list"
  ch_calls :: nat
  ch_requests :: "chat_request list"
  ch_out :: "string list"

section \<open>exercise4_enhanced.py: run_chat_loop\<close>

definition default_system_prompt :: string where
  "default_system_prompt = ''You are an IT support specialist. Ask clarifying questions.''"

text \<open>\<open>m['role']\<close> as the scripts write it\<close>

fun role_name :: "role \<Rightarrow> string" where
  "role_name System = ''system''"
| "role_name User = ''user''"
| "role_name Assistant = ''assistant''"
| "role_name Tool = ''tool''"

text \<open>\<open>f"{x}"\<close> for a content that may be \<open>None\<close>\<close>

fun content_str :: "string option \<Rightarrow> string" where
  "content_str None = ''None''"
| "content_str (Some c) = c"

definition history_line :: "message \<Rightarrow> string" where
  "history_line m = role_name (role m) @ '': '' @ content_str (content m)"

definition chat_exit_words :: "string list" where
  "chat_exit_words = [''exit'', ''quit'', ''q'']"

definition print_line :: "string \<Rightarrow> chat_state \<Rightarrow> chat_state" where
  "print_line l s = s\<lparr>ch_out := ch_out s @ [l]\<rparr>"

text \<open>
  Lines 32--47: the user's line is appended and sent with the whole log; on an
  exception the line is popped again, otherwise the answer is printed and
  appended with its content as it came.
\<close>

definition chat_turn :: "chat_env \<Rightarrow> string \<Rightarrow> chat_state \<Rightarrow> chat_state" where
  "chat_turn env u s =
     (let ms = ch_messages s @ [plain_msg User u];
          rq = plain_request (chat_deployment env) ms;
          s1 = s\<lparr>ch_calls := Suc (ch_calls s), ch_requests := ch_requests s @ [rq]\<rparr>
      in case chat_llm env (ch_calls s) rq of
           ApiError e \<Rightarrow> print_line (''API error: '' @ e) (s1\<lparr>ch_messages := butlast ms\<rparr>)
         | ApiOk r \<Rightarrow>
             print_line (''*******************'' @ [CHR 0x0A] @ ''AI: '' @ content_str (cm_content r))
               (s1\<lparr>ch_messages := ms @ [assistant_reply_msg (cm_content r)]\<rparr>))"

text \<open>The \<open>while True\<close> loop of lines 16--47, inside the \<open>try\<close> of line 15.\<close>

fun chat_loop :: "chat_env \<Rightarrow> string \<Rightarrow> console_in list \<Rightarrow> chat_state \<Rightarrow> py_exc + chat_state" where
  "chat_loop env sp [] s = Inl EOFError"
| "chat_loop env sp (Interrupt # ins) s = Inr (print_line ([CHR 0x0A] @ ''Interrupted. Exiting.'') s)"
| "chat_loop env sp (Line l # ins) s =
     (let u = py_strip l in
      if u = [] then chat_loop env sp ins s
      else if py_lower u \<in> set chat_exit_words then Inr (print_line ''Exiting.'' s)
      else if py_lower u = ''reset'' then
        chat_loop env sp ins (print_line ''Conversation reset.'' (s\<lparr>ch_messages := [plain_msg System sp]\<rparr>))
      else if py_lower u = ''show history'' then
        chat_loop env sp ins (s\<lparr>ch_out := ch_out s @ map history_line (ch_messages s)\<rparr>)
      else chat_loop env sp ins (chat_turn env u s))"

definition chat_banner :: string where
  "chat_banner = ''Interactive chat. Type 'exit' or 'quit' to stop, 'reset' to clear conversation.''"

definition run_chat_loop :: "chat_env \<Rightarrow> string option \<Rightarrow> console_in list \<Rightarrow> py_exc + chat_state" where
  "run_chat_loop env system_prompt ins =
     (let sp = (case system_prompt of None \<Rightarrow> default_system_prompt | Some p \<Rightarrow> p)
      in chat_loop env sp ins
           \<lparr>ch_messages = [plain_msg System sp], ch_calls = 0, ch_requests = [], ch_out = [chat_banner]\<rparr>)"

section \<open>exercise4.py: a two-turn conversation\<close>

text \<open>
  The script sends the log twice, appending the first answer before the second
  question; an exception of the client library ends it.
\<close>

definition raise_api :: "api_result \<Rightarrow> py_exc + completion" where
  "raise_api r = (case r of ApiOk c \<Rightarrow> Inr c | ApiError e \<Rightarrow> Inl (OpenAIError e))"

definition two_turns :: "chat_env \<Rightarrow> py_exc + message list \<times> chat_request list" where
  "two_turns env =
     (let m0 = [plain_msg System ''You are an IT support specialist. Ask clarifying questions.'',
                plain_msg User ''My computer is slow''];
          rq1 = plain_request (chat_deployment env) m0
      in sbind (raise_api (chat_llm env 0 rq1)) (\<lambda>r1.
           let m1 = m0 @ [assistant_reply_msg (cm_content r1), plain_msg User ''It started after Windows update''];
               rq2 = plain_request (chat_deployment env) m1
           in sbind (raise_api (chat_llm env 1 rq2)) (\<lambda>r2.
                Inr (m1 @ [assistant_reply_msg (cm_content r2)], [rq1, rq2]))))"

section \<open>exercise3.py: one question per line, no memory\<close>

definition basic_request :: "string \<Rightarrow> string \<Rightarrow> chat_request" where
  "basic_request model problem =
     (plain_request model [plain_msg User problem])\<lparr>rq_max_tokens := Some 50\<rparr>"

text \<open>
  Lines 26--33. The line is sent as typed (not stripped); the loop stops at an
  empty or blank line or at \<open>quit\<close> in any case, but not at \<open> quit\<close>. The
  result is the requests sent and the lines printed.
\<close>

fun basic_loop :: "chat_env \<Rightarrow> nat \<Rightarrow> console_in list \<Rightarrow> py_exc + chat_request list \<times> string list" where
  "basic_loop env k [] = Inl EOFError"
| "basic_loop env k (Interrupt # ins) = Inl KeyboardInterrupt"
| "basic_loop env k (Line l # ins) =
     (if l \<noteq> [] \<and> py_strip l \<noteq> [] \<and> py_lower l \<noteq> ''quit'' then
        (let rq = basic_request (chat_deployment env) l
         in sbind (raise_api (chat_llm env k rq)) (\<lambda>r.
              sbind (basic_loop env (Suc k) ins) (\<lambda>(rqs, out).
                Inr (rq # rqs, (''AI: '' @ content_str (cm_content r)) # out))))
      else Inr ([], [''AI: bye.'']))"

section \<open>The chat log and the console, as the lemmas state them\<close>

text \<open>
  \<open>chat_log sp ms\<close>: the system prompt, then pairs of a user message and the
  assistant's answer. \<open>chat_request_ok\<close>: a request such a log produces. An
  input stops the loop (\<open>chat_stop_input\<close>) or sends a line to the model
  (\<open>sends\<close>).
\<close>

fun chat_pairs :: "message list \<Rightarrow> bool" where
  "chat_pairs [] = True"
| "chat_pairs [m] = False"
| "chat_pairs (u # a # ms) =
     (u = plain_msg User (content_str (content u)) \<and> content u \<noteq> None \<and>
      a = assistant_reply_msg (content a) \<and> chat_pairs ms)"

definition chat_log :: "string \<Rightarrow> message list \<Rightarrow> bool" where
  "chat_log sp ms = (case ms of [] \<Rightarrow> False | m # rest \<Rightarrow> m = plain_msg System sp \<and> chat_pairs rest)"

definition chat_request_ok :: "string \<Rightarrow> string \<Rightarrow> chat_request \<Rightarrow> bool" where
  "chat_request_ok sp model rq =
     (rq = plain_request model (rq_messages rq) \<and> rq_messages rq \<noteq> [] \<and>
      chat_log sp (butlast (rq_messages rq)) \<and>
      last (rq_messages rq) = plain_msg User (content_str (content (last (rq_messages rq)))) \<and>
      content (last (rq_messages rq)) \<noteq> None)"

definition chat_inv :: "chat_env \<Rightarrow> string \<Rightarrow> chat_state \<Rightarrow> bool" where
  "chat_inv env sp s =
     (chat_log sp (ch_messages s) \<and> list_all (chat_request_ok sp (chat_deployment env)) (ch_requests s) \<and>
      length (ch_requests s) = ch_calls s)"

fun chat_stop_input :: "console_in \<Rightarrow> bool" where
  "chat_stop_input Interrupt = True"
| "chat_stop_input (Line l) = (py_lower (py_strip l) \<in> set chat_exit_words)"

definition is_chat_line :: "string \<Rightarrow> bool" where
  "is_chat_line u =
     (u \<noteq> [] \<and> py_lower u \<notin> set chat_exit_words \<and> py_lower u \<noteq> ''reset'' \<and> py_lower u \<noteq> ''show history'')"

fun sends :: "console_in \<Rightarrow> bool" where
  "sends Interrupt = False"
| "sends (Line l) = is_chat_line (py_strip l)"

text \<open>A line of output that begins with a given prefix.\<close>

definition starts_with :: "string \<Rightarrow> string \<Rightarrow> bool" where
  "starts_with p s = (take (length p) s = p)"

section \<open>Lemmas\<close>

lemma chat_pairs_append:
  "chat_pairs ms \<Longrightarrow> chat_pairs (ms @ [plain_msg User u, assistant_reply_msg a])"
  by (induction ms rule: chat_pairs.induct) (simp_all add: message_defs)

lemma chat_log_append:
  "chat_log sp ms \<Longrightarrow> chat_log sp (ms @ [plain_msg User u, assistant_reply_msg a])"
  by (auto simp: chat_log_def chat_pairs_append split: list.splits)

lemma chat_turn_inv:
  assumes "chat_inv env sp s"
  shows "chat_inv env sp (chat_turn env u s)"
proof -
  have rq: "chat_request_ok sp (chat_deployment env) (plain_request (chat_deployment env) (ch_messages s @ [plain_msg User u]))"
    using assms by (simp add: chat_request_ok_def chat_inv_def plain_request_def message_defs)
  show ?thesis
    using assms rq chat_log_append [of sp "ch_messages s" u]
    by (auto simp: chat_turn_def chat_inv_def print_line_def Let_def split: api_result.splits)
qed

lemma chat_turn_frame:
  "\<exists>rq. ch_requests (chat_turn env u s) = ch_requests s @ [rq] \<and> ch_calls (chat_turn env u s) = Suc (ch_calls s)"
  by (simp add: chat_turn_def print_line_def Let_def split: api_result.split)

lemma nil_not_exit_word [simp]: "[] \<notin> set chat_exit_words"
  by (simp add: chat_exit_words_def)

lemma chat_loop_Line_Inr:
  assumes "chat_loop env sp (Line l # ins) s = Inr s'"
  shows "s' = print_line ''Exiting.'' s \<or>
         (\<exists>s1 \<in> {s, print_line ''Conversation reset.'' (s\<lparr>ch_messages := [plain_msg System sp]\<rparr>),
                   s\<lparr>ch_out := ch_out s @ map history_line (ch_messages s)\<rparr>, chat_turn env (py_strip l) s}.
            chat_loop env sp ins s1 = Inr s')"
  using assms by (simp add: Let_def split: if_split_asm)

lemma chat_loop_inv:
  "chat_loop env sp ins s = Inr s' \<Longrightarrow> chat_inv env sp s \<Longrightarrow> chat_inv env sp s'"
proof (induction ins arbitrary: s)
  case (Cons x ins)
  show ?case
  proof (cases x)
    case (Line l)
    have "chat_inv env sp (print_line ''Conversation reset.'' (s\<lparr>ch_messages := [plain_msg System sp]\<rparr>))"
      using Cons.prems(2) by (simp add: chat_inv_def print_line_def chat_log_def)
    moreover have "chat_inv env sp (s\<lparr>ch_out := ch_out s @ map history_line (ch_messages s)\<rparr>)"
      using Cons.prems(2) by (simp add: chat_inv_def)
    moreover have "chat_inv env sp (print_line ''Exiting.'' s)"
      using Cons.prems(2) by (simp add: chat_inv_def print_line_def)
    ultimately show ?thesis
      using chat_loop_Line_Inr [OF Cons.prems(1) [unfolded Line]] Cons.IH Cons.prems(2)
        chat_turn_inv [OF Cons.prems(2)]
      by blast
  qed (use Cons.prems in \<open>auto simp: print_line_def chat_inv_def\<close>)
qed simp

lemma chat_loop_requests_grow:
  "chat_loop env sp ins s = Inr s' \<Longrightarrow> \<exists>rs. ch_requests s' = ch_requests s @ rs"
proof (induction ins arbitrary: s)
  case (Cons x ins)
  show ?case
  proof (cases x)
    case (Line l)
    obtain rq where "ch_requests (chat_turn env (py_strip l) s) = ch_requests s @ [rq]"
      using chat_turn_frame by blast
    with chat_loop_Line_Inr [OF Cons.prems [unfolded Line]] Cons.IH show ?thesis
      by (fastforce simp: print_line_def)
  qed (use Cons.prems in \<open>auto simp: print_line_def\<close>)
qed simp

lemma chat_loop_eof:
  "\<not> list_ex chat_stop_input ins \<Longrightarrow> chat_loop env sp ins s = Inl EOFError"
proof (induction ins arbitrary: s)
  case (Cons x ins)
  then show ?case by (cases x) (simp_all add: Let_def)
qed simp

lemma chat_loop_returns:
  "list_ex chat_stop_input ins \<Longrightarrow> \<exists>s'. chat_loop env sp ins s = Inr s'"
proof (induction ins arbitrary: s)
  case (Cons x ins)
  then show ?case by (cases x) (auto simp: Let_def)
qed simp

lemma chat_loop_raises:
  "chat_loop env sp ins s = Inl e \<Longrightarrow> e = EOFError"
proof (induction ins arbitrary: s)
  case (Cons x ins)
  then show ?case by (cases x) (auto simp: Let_def split: if_split_asm)
qed simp

lemma chat_loop_calls:
  "chat_loop env sp ins s = Inr s' \<Longrightarrow>
     ch_calls s' = ch_calls s + length (filter sends (takeWhile (Not \<circ> chat_stop_input) ins))"
proof (induction ins arbitrary: s)
  case (Cons x ins)
  show ?case
  proof (cases x)
    case (Line l)
    have "ch_calls (chat_turn env (py_strip l) s) = Suc (ch_calls s)"
      using chat_turn_frame by blast
    with Cons show ?thesis
      by (auto simp: Line Let_def print_line_def is_chat_line_def split: if_split_asm)
  qed (use Cons.prems in \<open>auto simp: print_line_def\<close>)
qed simp

text \<open>
  C25. Every state \<open>run_chat_loop\<close> ends in has a well-formed log: the system
  prompt, then user and assistant messages in alternation; and every request it
  sent carried such a log followed by the user's new message, one request per
  call.
\<close>

lemma run_chat_loop_log:
  "run_chat_loop env p ins = Inr s \<Longrightarrow>
     chat_inv env (case p of None \<Rightarrow> default_system_prompt | Some q \<Rightarrow> q) s"
  unfolding run_chat_loop_def Let_def
  by (erule chat_loop_inv) (simp add: chat_inv_def chat_log_def)

text \<open>
  C26. A failed call leaves the log as it was before the user's line: the line is
  popped, so the next request does not carry it.
\<close>

lemma chat_turn_error_pops:
  "chat_llm env (ch_calls s) (plain_request (chat_deployment env) (ch_messages s @ [plain_msg User u])) = ApiError e \<Longrightarrow>
     ch_messages (chat_turn env u s) = ch_messages s"
  by (simp add: chat_turn_def print_line_def)

text \<open>
  C27. After \<open>reset\<close>, the next line sends only the system prompt and that
  line: the earlier conversation is forgotten.
\<close>

lemma chat_reset_next_request:
  assumes "py_lower (py_strip r) = ''reset''" and "is_chat_line (py_strip l)"
    and "chat_loop env sp (Line r # Line l # ins) s = Inr s'"
  shows "ch_requests s' ! length (ch_requests s) =
           plain_request (chat_deployment env) [plain_msg System sp, plain_msg User (py_strip l)]"
proof -
  let ?s1 = "print_line ''Conversation reset.'' (s\<lparr>ch_messages := [plain_msg System sp]\<rparr>)"
  have r: "py_strip r \<noteq> [] \<and> py_lower (py_strip r) \<notin> set chat_exit_words"
    using assms(1) by (auto simp: chat_exit_words_def)
  have "chat_loop env sp (Line r # Line l # ins) s = chat_loop env sp ins (chat_turn env (py_strip l) ?s1)"
    using assms(1,2) r by (simp add: Let_def is_chat_line_def)
  with assms(3) obtain rs where
    "ch_requests s' = ch_requests (chat_turn env (py_strip l) ?s1) @ rs"
    using chat_loop_requests_grow by metis
  moreover have "ch_requests (chat_turn env (py_strip l) ?s1) =
      ch_requests s @ [plain_request (chat_deployment env) [plain_msg System sp, plain_msg User (py_strip l)]]"
    by (simp add: chat_turn_def print_line_def Let_def split: api_result.split)
  ultimately show ?thesis by (simp add: nth_append)
qed

text \<open>
  C28. \<open>run_chat_loop\<close> returns exactly when the console holds an exit word
  (\<open>exit\<close>, \<open>quit\<close> or \<open>q\<close>, in any case, around any whitespace) or a
  Ctrl-C; a console that ends without one makes \<open>input()\<close> raise.
\<close>

lemma run_chat_loop_returns:
  "(\<exists>s. run_chat_loop env p ins = Inr s) \<longleftrightarrow> list_ex chat_stop_input ins"
  using chat_loop_returns chat_loop_eof by (fastforce simp: run_chat_loop_def Let_def)

text \<open>
  C29. The only exception that escapes \<open>run_chat_loop\<close> is the
  \<open>EOFError\<close> of an exhausted console: failed calls are caught.
\<close>

lemma run_chat_loop_raises:
  "run_chat_loop env p ins = Inl e \<longleftrightarrow> e = EOFError \<and> \<not> list_ex chat_stop_input ins"
proof
  assume r: "run_chat_loop env p ins = Inl e"
  then have "e = EOFError"
    unfolding run_chat_loop_def Let_def by (rule chat_loop_raises)
  moreover have "\<not> list_ex chat_stop_input ins"
  proof
    assume "list_ex chat_stop_input ins"
    then obtain s where "run_chat_loop env p ins = Inr s"
      unfolding run_chat_loop_def Let_def using chat_loop_returns by blast
    with r show False by simp
  qed
  ultimately show "e = EOFError \<and> \<not> list_ex chat_stop_input ins" ..
next
  assume "e = EOFError \<and> \<not> list_ex chat_stop_input ins"
  then show "run_chat_loop env p ins = Inl e"
    unfolding run_chat_loop_def Let_def using chat_loop_eof by blast
qed

text \<open>
  C30. A run that returns has called the model once for each line before the
  first exit input that is neither blank nor a command, failed calls included.
\<close>

lemma run_chat_loop_calls:
  "run_chat_loop env p ins = Inr s \<Longrightarrow>
     ch_calls s = length (filter sends (takeWhile (Not \<circ> chat_stop_input) ins))"
  unfolding run_chat_loop_def Let_def by (drule chat_loop_calls) simp

text \<open>
  C31. \<open>exercise4.py\<close> keeps the conversation: the second request carries the
  first question, the first answer and the second question, and the final log is
  settled.
\<close>

lemma two_turns_memory:
  "two_turns env = Inr (ms, rqs) \<Longrightarrow>
     \<exists>a b. rqs = [plain_request (chat_deployment env) (take 2 ms), plain_request (chat_deployment env) (take 4 ms)] \<and>
       drop 2 ms = [assistant_reply_msg a, plain_msg User ''It started after Windows update'', assistant_reply_msg b] \<and>
       log_settled ms"
  by (auto simp: two_turns_def raise_api_def log_settled_def Let_def sbind_eq_Inr message_defs
           split: api_result.splits)

text \<open>
  C32. \<open>exercise3.py\<close> keeps no memory: every request it sends carries the typed
  line alone, with the 50-token ceiling.
\<close>

lemma basic_loop_stateless:
  "basic_loop env k ins = Inr (rqs, out) \<Longrightarrow> \<forall>rq \<in> set rqs. \<exists>l. rq = basic_request (chat_deployment env) l"
proof (induction env k ins arbitrary: rqs out rule: basic_loop.induct)
  case (3 env k l ins)
  then show ?case
    by (auto simp: Let_def raise_api_def sbind_eq_Inr split: if_splits api_result.splits)
qed auto


lemma chat_pairs_roles:
  "chat_pairs ms \<Longrightarrow> even (length ms) \<and> (\<forall>i < length ms. role (ms ! i) = (if even i then User else Assistant))"
proof (induction ms rule: chat_pairs.induct)
  case (3 u a ms)
  then have u: "u = plain_msg User (content_str (content u))" and a: "a = assistant_reply_msg (content a)"
    by simp_all
  have "role u = User" by (subst u) (simp add: message_defs)
  moreover have "role a = Assistant" by (subst a) (simp add: message_defs)
  moreover have "even (length ms)" "\<forall>i < length ms. role (ms ! i) = (if even i then User else Assistant)"
    using 3 by auto
  ultimately show ?case
    by (auto simp: nth_Cons' less_Suc_eq_0_disj)
qed simp_all

text \<open>
  C33. \<open>show history\<close> (in any case, surrounded by blanks) prints the whole
  conversation and changes nothing else: on a consistent chat state, the lines
  printed are the system prompt first, then alternately a \<open>user:\<close> line and an
  \<open>assistant:\<close> line, an odd number of lines in all, and the loop then goes on
  with the next input.
\<close>

theorem chat_history_lines:
  assumes "chat_inv env sp s" and "py_lower (py_strip l) = ''show history''"
  shows "\<exists>hl. chat_loop env sp (Line l # ins) s = chat_loop env sp ins (s\<lparr>ch_out := ch_out s @ hl\<rparr>) \<and>
             hd hl = ''system: '' @ sp \<and> odd (length hl) \<and>
             (\<forall>i. 0 < i \<and> i < length hl \<longrightarrow> starts_with (if odd i then ''user: '' else ''assistant: '') (hl ! i))"
proof -
  obtain rest where ms: "ch_messages s = plain_msg System sp # rest" and p: "chat_pairs rest"
    using assms(1) by (auto simp: chat_inv_def chat_log_def split: list.splits)
  have u: "py_strip l \<noteq> []" "py_lower (py_strip l) \<notin> set chat_exit_words" "py_lower (py_strip l) \<noteq> ''reset''"
    using assms(2) by (auto simp: chat_exit_words_def)
  have e: "chat_loop env sp (Line l # ins) s =
           chat_loop env sp ins (s\<lparr>ch_out := ch_out s @ map history_line (ch_messages s)\<rparr>)"
    using u assms(2) by (simp add: Let_def)
  from chat_pairs_roles [OF p] have r: "even (length rest)"
    "\<forall>i < length rest. role (rest ! i) = (if even i then User else Assistant)" by auto
  have "\<forall>i. 0 < i \<and> i < Suc (length rest) \<longrightarrow>
          starts_with (if odd i then ''user: '' else ''assistant: '') (history_line (rest ! (i - 1)))"
  proof (intro allI impI)
    fix i assume i: "0 < i \<and> i < Suc (length rest)"
    then have "role (rest ! (i - 1)) = (if odd i then User else Assistant)"
      using r(2) by (cases i) auto
    then show "starts_with (if odd i then ''user: '' else ''assistant: '') (history_line (rest ! (i - 1)))"
      by (simp add: starts_with_def history_line_def)
  qed
  then show ?thesis
    using e r(1)
    by (intro exI [of _ "map history_line (ch_messages s)"])
       (auto simp: ms history_line_def message_defs nth_Cons')
qed

lemma basic_loop_out_nonempty:
  "basic_loop env k ins = Inr (rqs, out) \<Longrightarrow> out \<noteq> []"
  by (induction env k ins arbitrary: rqs out rule: basic_loop.induct)
     (auto simp: Let_def sbind_eq_Inr split: if_splits prod.splits)

text \<open>
  C34. The stateless loop of exercise3.py stops at the first line that is empty,
  blank or \<open>quit\<close> (in any case, but not padded with blanks): when it returns,
  the console is a run of other lines, that stop line, and input never read; one
  request went out per earlier line, carrying that line alone, and the last line
  printed is \<open>AI: bye.\<close>.
\<close>

theorem basic_loop_stop_line:
  "basic_loop env k ins = Inr (rqs, out) \<Longrightarrow>
     \<exists>pre l rest. ins = map Line pre @ Line l # rest \<and> (l = [] \<or> py_strip l = [] \<or> py_lower l = ''quit'') \<and>
       (\<forall>p \<in> set pre. p \<noteq> [] \<and> py_strip p \<noteq> [] \<and> py_lower p \<noteq> ''quit'') \<and>
       rqs = map (basic_request (chat_deployment env)) pre \<and> last out = ''AI: bye.''"
proof (induction env k ins arbitrary: rqs out rule: basic_loop.induct)
  case (3 env k l ins)
  show ?case
  proof (cases "l \<noteq> [] \<and> py_strip l \<noteq> [] \<and> py_lower l \<noteq> ''quit''")
    case True
    with "3.prems" obtain rqs' out' where
      b: "basic_loop env (Suc k) ins = Inr (rqs', out')" and
      o: "rqs = basic_request (chat_deployment env) l # rqs'" "\<exists>h. out = h # out'"
      by (auto simp: Let_def raise_api_def sbind_eq_Inr split: api_result.splits)
    from "3.IH" [OF True refl b] obtain pre l' rest where
      "ins = map Line pre @ Line l' # rest" "l' = [] \<or> py_strip l' = [] \<or> py_lower l' = ''quit''"
      "\<forall>p \<in> set pre. p \<noteq> [] \<and> py_strip p \<noteq> [] \<and> py_lower p \<noteq> ''quit''"
      "rqs' = map (basic_request (chat_deployment env)) pre" "last out' = ''AI: bye.''"
      by blast
    moreover have "out' \<noteq> []" using b by (rule basic_loop_out_nonempty)
    ultimately show ?thesis using True o
      by (intro exI [of _ "l # pre"] exI [of _ l'] exI [of _ rest]) auto
  next
    case False
    with "3.prems" have "rqs = []" "out = [''AI: bye.'']" by auto
    with False show ?thesis
      by (rule_tac x = "[]" in exI) auto
  qed
qed auto

end
