(* ===== verification/SinglePrompt.thy ===== *)
theory SinglePrompt
  imports ChatLoop
begin

text \<open>
  The single-prompt exercises: one request, one answer. \<open>exercise1.py\<close> sends
  the bare question; \<open>exercise2.py\<close> and \<open>exercise6.py\<close> add a system
  role, a low temperature and a token ceiling (\<open>improved_it_support\<close>);
  \<open>exercise6.py\<close> wraps the question in an extraction prompt;
  \<open>exercise6_enhanced.py\<close> asks for JSON mode and parses the answer
  (\<open>improved_it_support_json\<close>). None of them catches an exception: a failed
  call is \<open>OpenAIError\<close>, as in \<open>ChatLoop.raise_api\<close>. Each script's result is
  the lines it prints.
\<close>

section \<open>exercise1.py\<close>

definition exercise1 :: "chat_env \<Rightarrow> py_exc + string list" where
  "exercise1 env =
     (let user_problem = ''My computer won't turn on''
      in sbind (raise_api (chat_llm env 0 (plain_request (chat_deployment env) [plain_msg User user_problem])))
           (\<lambda>r. Inr [''User: '' @ user_problem, ''AI: '' @ content_str (cm_content r)]))"

section \<open>exercise2.py and exercise6.py: improved_it_support\<close>

definition support_system_prompt :: string where
  "support_system_prompt =
     ''You are an experienced IT support specialist. '' @
     ''Provide clear, step-by-step solutions. '' @
     ''Be patient and thorough.''"

text \<open>The two scripts differ only in the token ceiling, 100 and 500.\<close>

definition support_request :: "string \<Rightarrow> int \<Rightarrow> string \<Rightarrow> chat_request" where
  "support_request model token_limit problem =
     (plain_request model [plain_msg System support_system_prompt, plain_msg User problem])
       \<lparr>rq_temperature := Some (1 / 10), rq_max_tokens := Some token_limit\<rparr>"

definition improved_it_support :: "chat_env \<Rightarrow> int \<Rightarrow> string \<Rightarrow> py_exc + string option" where
  "improved_it_support env token_limit problem =
     sbind (raise_api (chat_llm env 0 (support_request (chat_deployment env) token_limit problem)))
       (\<lambda>r. Inr (cm_content r))"

definition exercise2 :: "chat_env \<Rightarrow> py_exc + string list" where
  "exercise2 env =
     (let user_problem = ''My computer won't turn on''
      in sbind (improved_it_support env 100 user_problem)
           (\<lambda>result. Inr [''User: '' @ user_problem, ''AI: '' @ content_str result]))"

definition nl :: string where
  "nl = [CHR 0x0A]"

definition repair_problem :: string where
  "repair_problem =
     ''Customer's iPhone 12 has cracked screen. Happened yesterday (2025-11-20) when dropped. '' @
     ''Touch still works but display shows lines. Customer needs it by Friday.''"

text \<open>
  The f-string of \<open>exercise6.py\<close>, lines 45--74, with its doubled braces
  printed as single ones; \<open>schema_intro\<close> is the line that announces the schema
  (\<open>Schema:\<close> there, \<open>Return this JSON structure:\<close> in the enhanced script)
  and \<open>numbers_quoted\<close> whether the two estimates are written as strings.
\<close>

definition extraction_prompt :: "string \<Rightarrow> bool \<Rightarrow> string \<Rightarrow> string" where
  \<open>extraction_prompt schema_intro numbers_quoted problem =
     (let num = (if numbers_quoted then [CHR 0x22] @ ''number'' @ [CHR 0x22] else ''number'') in
      nl @ ''Extract repair information and format as JSON:'' @ nl @ nl @
      ''Description: '' @ [CHR 0x22] @ problem @ [CHR 0x22] @ nl @ nl @
      schema_intro @ nl @
      ''{'' @ nl @
      ''    "device": {'' @ nl @
      ''        "brand": "string",'' @ nl @
      ''        "model": "string",'' @ nl @
      ''        "type": "phone|laptop|tablet|desktop"'' @ nl @
      ''    },'' @ nl @
      ''    "damage": {'' @ nl @
      ''        "primary_issue": "string",'' @ nl @
      ''        "symptoms": ["list of symptoms"],'' @ nl @
      ''        "cause": "string",'' @ nl @
      ''        "date_occurred": "YYYY-MM-DD"'' @ nl @
      ''    },'' @ nl @
      ''    "repair": {'' @ nl @
      ''        "complexity": "simple|moderate|complex",'' @ nl @
      ''        "parts_needed": ["list"],'' @ nl @
      ''        "estimated_cost": '' @ num @ '','' @ nl @
      ''        "estimated_hours": '' @ num @ nl @
      ''    },'' @ nl @
      ''    "urgency": {'' @ nl @
      ''        "priority": "low|medium|high|urgent",'' @ nl @
      ''        "deadline": "YYYY-MM-DD or null"'' @ nl @
      ''    }'' @ nl @
      ''}'' @ nl)\<close>

definition exercise6 :: "chat_env \<Rightarrow> py_exc + string list" where
  "exercise6 env =
     sbind (improved_it_support env 500 (extraction_prompt ''Schema:'' False repair_problem))
       (\<lambda>result. Inr [''User: '' @ repair_problem, ''AI: '' @ content_str result])"

section \<open>exercise6_enhanced.py: improved_it_support_json\<close>

definition json_support_prompt :: string where
  "json_support_prompt =
     ''You are an experienced IT support specialist. '' @
     ''Extract repair information and return valid JSON only. '' @
     ''Do not include any text outside the JSON object.''"

definition json_support_request :: "string \<Rightarrow> string \<Rightarrow> chat_request" where
  "json_support_request model problem =
     (plain_request model [plain_msg System json_support_prompt, plain_msg User problem])
       \<lparr>rq_response_format := Some ''json_object'', rq_temperature := Some (1 / 10),
        rq_max_tokens := Some 1000\<rparr>"

text \<open>
  \<open>json.loads(result_text)\<close>: a reply that is not JSON raises
  \<open>JSONDecodeError\<close>, a reply without content \<open>TypeError\<close>.
\<close>

definition improved_it_support_json :: "chat_env \<Rightarrow> json_codec \<Rightarrow> string \<Rightarrow> py_exc + jval" where
  "improved_it_support_json env c problem =
     sbind (raise_api (chat_llm env 0 (json_support_request (chat_deployment env) problem))) (\<lambda>r.
       case cm_content r of
         None \<Rightarrow> Inl TypeError
       | Some t \<Rightarrow> (case loads c t of None \<Rightarrow> Inl JSONDecodeError | Some v \<Rightarrow> Inr v))"

definition exercise6_enhanced :: "chat_env \<Rightarrow> json_codec \<Rightarrow> (jval \<Rightarrow> string) \<Rightarrow> py_exc + string list" where
  "exercise6_enhanced env c dumps_indent =
     sbind (improved_it_support_json env c (extraction_prompt ''Return this JSON structure:'' True repair_problem))
       (\<lambda>result. Inr [''User: '' @ repair_problem @ nl, ''AI Response (as JSON):'', dumps_indent result])"

section \<open>Lemmas\<close>

text \<open>
  C35. \<open>improved_it_support_json\<close> returns a value exactly when the call
  answers with content that parses, and the value is what the content parses to.
\<close>

lemma improved_it_support_json_result:
  "improved_it_support_json env c p = Inr v \<longleftrightarrow>
     (\<exists>r t. chat_llm env 0 (json_support_request (chat_deployment env) p) = ApiOk r \<and>
            cm_content r = Some t \<and> loads c t = Some v)"
  by (auto simp: improved_it_support_json_def raise_api_def sbind_eq_Inr
           split: api_result.splits option.splits)

text \<open>
  It fails by the client's exception when the call fails, by
  \<open>TypeError\<close> on a reply without content and by \<open>JSONDecodeError\<close> on one
  that does not parse: JSON mode is trusted, not checked.
\<close>

lemma improved_it_support_json_errors:
  "improved_it_support_json env c p = Inl e \<Longrightarrow>
     (\<exists>m. chat_llm env 0 (json_support_request (chat_deployment env) p) = ApiError m \<and> e = OpenAIError m) \<or>
     e = TypeError \<or> e = JSONDecodeError"
  by (auto simp: improved_it_support_json_def raise_api_def sbind_eq_Inl
           split: api_result.splits option.splits)

end
