(* ===== verification/PyFloat.thy ===== *)
theory PyFloat
  imports PyBase
begin

text \<open>
  Python's \<open>float\<close>: an IEEE 754 binary64 value, represented by the rational
  number it denotes. Every arithmetic operation computes the exact result and
  rounds it to the nearest binary64 value, ties to even (\<open>to_double\<close>); a
  float literal is the decimal rounded the same way. \<open>round(x, 2)\<close> rounds the
  exact value of \<open>x\<close> to two decimals, ties to even, and converts the decimal
  back (\<open>py_round2\<close>); \<open>format(x, ".2f")\<close> prints that decimal
  (\<open>fmt2\<close>). Only normal numbers are modelled: magnitudes below \<open>2^-1022\<close>
  (other than 0) and overflow to infinity do not arise in the scripts.
\<close>

text \<open>The number of binary digits of a positive integer.\<close>

function blen :: "int \<Rightarrow> int" where
  "blen n = (if n \<le> 0 then 0 else blen (n div 2) + 1)"
  by auto
termination
  by (relation "measure (\<lambda>n. nat n)") auto

declare blen.simps [simp del]

definition pow2 :: "int \<Rightarrow> rat" where
  "pow2 e = (if 0 \<le> e then of_int (2 ^ nat e) else 1 / of_int (2 ^ nat (- e)))"

text \<open>\<open>\<lfloor>log\<^sub>2 q\<rfloor>\<close> for a positive rational\<close>

definition flog2 :: "rat \<Rightarrow> int" where
  "flog2 q =
     (let (a, b) = quotient_of q; e = blen a - blen b
      in if pow2 e \<le> q then e else e - 1)"

definition round_half_even :: "rat \<Rightarrow> int" where
  "round_half_even q =
     (let f = \<lfloor>q\<rfloor>; d = q - of_int f
      in if d < 1 / 2 then f else if 1 / 2 < d then f + 1 else if even f then f else f + 1)"

text \<open>The binary64 value nearest to \<open>q\<close>: 53 significant bits.\<close>

definition to_double :: "rat \<Rightarrow> rat" where
  "to_double q =
     (if q = 0 then 0
      else let a = \<bar>q\<bar>; e = flog2 a - 52
           in sgn q * of_int (round_half_even (a / pow2 e)) * pow2 e)"

definition fadd :: "rat \<Rightarrow> rat \<Rightarrow> rat" where
  "fadd x y = to_double (x + y)"

definition fsub :: "rat \<Rightarrow> rat \<Rightarrow> rat" where
  "fsub x y = to_double (x - y)"

definition fmul :: "rat \<Rightarrow> rat \<Rightarrow> rat" where
  "fmul x y = to_double (x * y)"

text \<open>\<open>float(n)\<close>, and the conversion of an \<open>int\<close> operand in mixed arithmetic\<close>

definition float_of_int :: "int \<Rightarrow> rat" where
  "float_of_int n = to_double (of_int n)"

text \<open>\<open>sum(xs)\<close>: left to right from the integer 0.\<close>

definition py_fsum :: "rat list \<Rightarrow> rat" where
  "py_fsum xs = foldl fadd 0 xs"

definition py_round2 :: "rat \<Rightarrow> rat" where
  "py_round2 x = to_double (of_int (round_half_even (x * 100)) / 100)"

text \<open>\<open>f"{x:.2f}"\<close>\<close>

text \<open>The decimal digits of a non-negative integer.\<close>

function dec_str :: "int \<Rightarrow> string" where
  "dec_str n = (if n < 10 then [''0123456789'' ! nat n] else dec_str (n div 10) @ [''0123456789'' ! nat (n mod 10)])"
  by auto
termination
  by (relation "measure (\<lambda>n. nat n)") auto

declare dec_str.simps [simp del]

definition fmt2 :: "rat \<Rightarrow> string" where
  "fmt2 x =
     (let n = round_half_even (\<bar>x\<bar> * 100)
      in (if x < 0 then ''-'' else []) @ dec_str (n div 100) @ ''.'' @ drop 1 (dec_str (100 + n mod 100)))"

section \<open>repr of a float\<close>

text \<open>
  \<open>repr(x)\<close> (and \<open>str(x)\<close>, and a float inside a printed dict): the
  shortest decimal that reads back as \<open>x\<close>, the nearest one among those of
  that length (David Gay's mode 0, which CPython uses). With \<open>decpt\<close> the
  position of the decimal point relative to the digits, the digits are
  printed in positional notation when \<open>-4 < decpt \<le> 16\<close>, with \<open>.0\<close>
  added to an integer, and in exponent notation otherwise.
\<close>

text \<open>The number of decimal digits of a positive integer.\<close>

function dlen :: "int \<Rightarrow> int" where
  "dlen n = (if n \<le> 0 then 0 else dlen (n div 10) + 1)"
  by auto
termination
  by (relation "measure (\<lambda>n. nat n)") auto

declare dlen.simps [simp del]

definition pow10 :: "int \<Rightarrow> rat" where
  "pow10 e = (if 0 \<le> e then of_int (10 ^ nat e) else 1 / of_int (10 ^ nat (- e)))"

text \<open>\<open>\<lfloor>log\<^sub>1\<^sub>0 q\<rfloor>\<close> for a positive rational\<close>

definition flog10 :: "rat \<Rightarrow> int" where
  "flog10 q =
     (let (a, b) = quotient_of q; e = dlen a - dlen b
      in if pow10 e \<le> q then e else e - 1)"

text \<open>
  The \<open>n\<close>-digit decimals \<open>m \<cdot> 10^k\<close> nearest to a positive \<open>x\<close> on
  either side, the nearer one first, and the first of them that reads back as
  \<open>x\<close>.
\<close>

definition repr_candidate :: "rat \<Rightarrow> nat \<Rightarrow> (int \<times> int) option" where
  "repr_candidate x n =
     (let k = flog10 x + 1 - int n; y = x / pow10 k; m0 = round_half_even y;
          m1 = (if m0 = \<lfloor>y\<rfloor> then \<lceil>y\<rceil> else \<lfloor>y\<rfloor>)
      in if to_double (of_int m0 * pow10 k) = x then Some (m0, k)
         else if to_double (of_int m1 * pow10 k) = x then Some (m1, k) else None)"

fun first_candidate :: "rat \<Rightarrow> nat list \<Rightarrow> (int \<times> int) option" where
  "first_candidate x [] = None"
| "first_candidate x (n # ns) =
     (case repr_candidate x n of Some c \<Rightarrow> Some c | None \<Rightarrow> first_candidate x ns)"

text \<open>Seventeen significant digits always suffice for a binary64 value.\<close>

definition shortest_digits :: "rat \<Rightarrow> int \<times> int" where
  "shortest_digits x =
     (case first_candidate x [1..<17] of
        Some c \<Rightarrow> c
      | None \<Rightarrow> let k = flog10 x - 16 in (round_half_even (x / pow10 k), k))"

definition strip_zeros :: "string \<Rightarrow> string" where
  "strip_zeros s = rev (dropWhile (\<lambda>c. c = CHR ''0'') (rev s))"

definition py_float_repr :: "rat \<Rightarrow> string" where
  "py_float_repr x =
     (if x = 0 then ''0.0''
      else let (m, k) = shortest_digits \<bar>x\<bar>; full = dec_str m; ds = strip_zeros full;
               l = int (length ds); decpt = k + int (length full);
               body =
                 (if -4 < decpt \<and> decpt \<le> 16 then
                    (if decpt \<le> 0 then ''0.'' @ replicate (nat (- decpt)) (CHR ''0'') @ ds
                     else if decpt < l then take (nat decpt) ds @ ''.'' @ drop (nat decpt) ds
                     else ds @ replicate (nat (decpt - l)) (CHR ''0'') @ ''.0'')
                  else let ex = decpt - 1 in
                    [hd ds] @ (if 1 < l then ''.'' @ tl ds else []) @ ''e'' @
                    (if ex < 0 then ''-'' else ''+'') @ (if \<bar>ex\<bar> < 10 then ''0'' else []) @ dec_str \<bar>ex\<bar>)
           in (if x < 0 then ''-'' else []) @ body)"

section \<open>Exact values\<close>

text \<open>
  \<open>pow2\<close> is \<open>2 powi e\<close>; \<open>blen\<close> and \<open>flog2\<close> bracket their
  argument between powers of two; a rational \<open>m \<cdot> 2^k\<close> with \<open>|m| < 2^53\<close>
  is a binary64 value, so \<open>to_double\<close> leaves it alone
  (\<open>to_double_exact\<close>). For amounts in quarters, which all menu prices are,
  the products and two-decimal roundings of the store are therefore exact.
\<close>

lemma pow2_power_int: "pow2 e = 2 powi e"
  by (simp add: pow2_def power_int_def inverse_eq_divide power_one_over)

lemma pow2_add: "pow2 (x + y) = pow2 x * pow2 y"
  by (simp add: pow2_power_int power_int_add)

lemma pow2_pos [simp]: "0 < pow2 e"
  by (simp add: pow2_power_int)

lemma pow2_le_iff [simp]: "pow2 x \<le> pow2 y \<longleftrightarrow> x \<le> y"
  by (metis linorder_not_le order.order_iff_strict pow2_power_int power_int_increasing
        power_int_strict_increasing one_less_numeral_iff one_le_numeral semiring_norm(76))

lemma pow2_less_iff [simp]: "pow2 x < pow2 y \<longleftrightarrow> x < y"
  by (meson linorder_not_le pow2_le_iff)

lemma pow2_nat: "0 \<le> e \<Longrightarrow> pow2 e = of_int (2 ^ nat e)"
  by (simp add: pow2_def)

lemma blen_nonneg: "0 \<le> blen a"
  by (induction a rule: blen.induct) (simp add: blen.simps)

lemma blen_bounds_int:
  "0 < a \<Longrightarrow> 0 < blen a \<and> 2 ^ nat (blen a - 1) \<le> a \<and> a < 2 ^ nat (blen a)"
proof (induction a rule: blen.induct)
  case (1 n)
  show ?case
  proof (cases "n = 1")
    case True
    then show ?thesis by (simp add: blen.simps)
  next
    case False
    with "1.prems" have h: "0 < n div 2" by simp
    with "1.IH" "1.prems" obtain k where k: "blen (n div 2) = k" "0 < k"
      "2 ^ nat (k - 1) \<le> n div 2" "n div 2 < 2 ^ nat k"
      by auto
    have b: "blen n = k + 1" using "1.prems" k(1) by (simp add: blen.simps)
    have e1: "nat (k + 1 - 1) = Suc (nat (k - 1))" and e2: "nat (k + 1) = Suc (nat k)"
      using k(2) by simp_all
    show ?thesis
      using k(3,4) b e1 e2 by auto
  qed
qed

lemma blen_bounds:
  assumes "0 < a"
  shows "pow2 (blen a - 1) \<le> of_int a \<and> of_int a < pow2 (blen a)"
proof -
  from blen_bounds_int [OF assms] have b: "0 < blen a" "2 ^ nat (blen a - 1) \<le> a" "a < 2 ^ nat (blen a)"
    by auto
  then have "(of_int (2 ^ nat (blen a - 1)) :: rat) \<le> of_int a" "(of_int a :: rat) < of_int (2 ^ nat (blen a))"
    by (simp_all only: of_int_le_iff of_int_less_iff)
  with b show ?thesis by (simp add: pow2_nat)
qed

lemma flog2_bounds:
  assumes "0 < q"
  shows "pow2 (flog2 q) \<le> q \<and> q < pow2 (flog2 q + 1)"
proof -
  obtain a b where qa: "quotient_of q = (a, b)" by (cases "quotient_of q")
  then have qab: "q = of_int a / of_int b" and b: "0 < b"
    by (simp_all add: quotient_of_div quotient_of_denom_pos [OF qa])
  with assms have a: "0 < a" by (simp add: zero_less_divide_iff)
  define e where "e = blen a - blen b"
  from blen_bounds [OF a] blen_bounds [OF b] have
    a1: "pow2 (blen a - 1) \<le> of_int a" and a2: "of_int a < pow2 (blen a)" and
    b1: "pow2 (blen b - 1) \<le> of_int b" and b2: "of_int b < pow2 (blen b)"
    by auto
  have bpos: "(0::rat) < of_int b" using b by simp
  have lo: "pow2 (e - 1) < q"
  proof -
    have "pow2 (e - 1) * of_int b < pow2 (e - 1) * pow2 (blen b)"
      using b2 by simp
    also have "\<dots> = pow2 (blen a - 1)"
      by (simp add: e_def flip: pow2_add)
    also have "\<dots> \<le> of_int a" by (rule a1)
    finally show ?thesis using bpos by (simp add: qab pos_less_divide_eq)
  qed
  have hi: "q < pow2 (e + 1)"
  proof -
    have "of_int a < pow2 (blen a)" by (rule a2)
    also have "\<dots> = pow2 (e + 1) * pow2 (blen b - 1)"
      by (simp add: e_def flip: pow2_add)
    also have "\<dots> \<le> pow2 (e + 1) * of_int b"
      using b1 by simp
    finally show ?thesis using bpos by (simp add: qab divide_less_eq)
  qed
  have f: "flog2 q = (if pow2 e \<le> q then e else e - 1)"
    by (simp add: flog2_def qa e_def)
  show ?thesis
  proof (cases "pow2 e \<le> q")
    case True
    with f hi show ?thesis by simp
  next
    case False
    with f lo show ?thesis by simp
  qed
qed

lemma pow2_nonzero [simp]: "pow2 e \<noteq> 0"
  using pow2_pos [of e] by linarith

lemma abs_pow2 [simp]: "\<bar>pow2 e\<bar> = pow2 e"
  using pow2_pos [of e] by linarith

lemma round_half_even_int [simp]: "round_half_even (of_int z) = z"
  by (simp add: round_half_even_def)

lemma to_double_exact:
  assumes m: "\<bar>m\<bar> < 2 ^ 53"
  shows "to_double (of_int m * pow2 k) = of_int m * pow2 k"
proof (cases "m = 0")
  case True
  then show ?thesis by (simp add: to_double_def)
next
  case False
  define q where "q = of_int m * pow2 k"
  have aq: "\<bar>q\<bar> = of_int \<bar>m\<bar> * pow2 k"
    by (simp add: q_def abs_mult)
  have apos: "0 < \<bar>q\<bar>" using False by (simp add: aq)
  define f where "f = flog2 \<bar>q\<bar>"
  from flog2_bounds [OF apos] have fl: "pow2 f \<le> \<bar>q\<bar>" by (simp add: f_def)
  have "\<bar>q\<bar> < pow2 (53 + k)"
  proof -
    have "(of_int \<bar>m\<bar> :: rat) < of_int (2 ^ 53)" using m by (simp only: of_int_less_iff)
    then have "(of_int \<bar>m\<bar> :: rat) < pow2 53" by (simp add: pow2_def)
    then show ?thesis by (simp add: aq pow2_add)
  qed
  with fl have "f < 53 + k" by (meson le_less_trans pow2_less_iff)
  then have d: "0 \<le> k - (f - 52)" by simp
  have div: "\<bar>q\<bar> / pow2 (f - 52) = of_int (\<bar>m\<bar> * 2 ^ nat (k - (f - 52)))"
  proof -
    have "pow2 k = pow2 (k - (f - 52)) * pow2 (f - 52)" by (simp flip: pow2_add)
    then show ?thesis using d by (simp add: aq pow2_nat)
  qed
  have qnz: "q \<noteq> 0" using apos by auto
  have "to_double q = sgn q * of_int (round_half_even (\<bar>q\<bar> / pow2 (f - 52))) * pow2 (f - 52)"
    by (simp only: to_double_def Let_def f_def if_not_P [OF qnz])
  also have "\<dots> = sgn q * (\<bar>q\<bar> / pow2 (f - 52)) * pow2 (f - 52)"
    by (simp only: div round_half_even_int)
  also have "\<dots> = q" by (simp add: sgn_mult_abs)
  finally show ?thesis by (simp add: q_def)
qed

lemma pow2_minus2: "pow2 (-2) = 1 / 4"
  by (simp add: pow2_def)

lemma to_double_quarter:
  "\<bar>n\<bar> < 2 ^ 53 \<Longrightarrow> to_double (of_int n / 4) = of_int n / 4"
  using to_double_exact [of n "-2"] by (simp add: pow2_minus2)

lemma float_of_int_exact:
  "\<bar>n\<bar> < 2 ^ 53 \<Longrightarrow> float_of_int n = of_int n"
  using to_double_exact [of n 0] by (simp add: float_of_int_def pow2_def)

lemma py_round2_quarter:
  assumes "\<bar>n\<bar> < 2 ^ 53"
  shows "py_round2 (of_int n / 4) = of_int n / 4"
proof -
  have "of_int n / 4 * 100 = (of_int (25 * n) :: rat)" by simp
  then have "round_half_even (of_int n / 4 * 100) = 25 * n" by (simp only: round_half_even_int)
  then have "py_round2 (of_int n / 4) = to_double (of_int n / 4)" by (simp add: py_round2_def)
  with to_double_quarter [OF assms] show ?thesis by simp
qed

lemma line_total_exact:
  assumes "p = of_int k / 4" and "\<bar>q\<bar> < 2 ^ 53" and "\<bar>k * q\<bar> < 2 ^ 53"
  shows "py_round2 (fmul p (float_of_int q)) = of_int q * p"
proof -
  have e: "p * of_int q = of_int (k * q) / 4" using assms(1) by simp
  have "fmul p (float_of_int q) = of_int (k * q) / 4"
    by (simp only: fmul_def float_of_int_exact [OF assms(2)] e to_double_quarter [OF assms(3)])
  then have "py_round2 (fmul p (float_of_int q)) = of_int (k * q) / 4"
    by (simp only: py_round2_quarter [OF assms(3)])
  also have "\<dots> = of_int q * p" using assms(1) by simp
  finally show ?thesis .
qed

lemma fmul_quarter_exact:
  assumes "p = of_int k / 4" and "\<bar>q\<bar> < 2 ^ 53" and "\<bar>k * q\<bar> < 2 ^ 53"
  shows "fmul p (float_of_int q) = of_int q * p"
proof -
  have "p * of_int q = of_int (k * q) / 4" using assms(1) by simp
  then have "fmul p (float_of_int q) = to_double (of_int (k * q) / 4)"
    using assms(2) by (simp only: fmul_def float_of_int_exact)
  also have "\<dots> = of_int (k * q) / 4" using assms(3) by (rule to_double_quarter)
  also have "\<dots> = of_int q * p" using assms(1) by simp
  finally show ?thesis .
qed

lemma fmul_commute: "fmul x y = fmul y x"
  by (simp add: fmul_def mult.commute)

end
