(* ===== verification/Coffee.thy ===== *)
theory Coffee
  imports PyFloat
begin

text \<open>
  The function-based coffee store of \<open>src/setup/coffee_store_advanced.py\<close>: the
  menu (\<open>build_menu\<close>, \<open>display_menu\<close>), the reading of a choice
  (\<open>parse_choice\<close>) and of a quantity (\<open>get_quantity\<close>), the order as a list
  of lines (\<open>add_to_order\<close>), the totals with discount and tax
  (\<open>calculate_totals\<close>), the receipt (\<open>print_receipt\<close>) and the ordering
  loop of \<open>main\<close>.

  Money is Python \<open>float\<close> arithmetic, modelled exactly by \<open>PyFloat\<close>. The
  console is \<open>PyBase.console_in\<close>, as in \<open>ChatLoop\<close>. The order is a list of line
  records, mutated in place by the script and returned updated here. Each
  operation returns the lines it prints.
\<close>

section \<open>The menu\<close>

record menu_info =
  price :: rat
  category :: string

type_synonym menu = "(string \<times> menu_info) list"

definition build_menu :: menu where
  "build_menu =
     [(''Espresso'', \<lparr>price = to_double (5 / 2), category = ''Coffee''\<rparr>),
      (''Americano'', \<lparr>price = to_double 3, category = ''Coffee''\<rparr>),
      (''Latte'', \<lparr>price = to_double (7 / 2), category = ''Coffee''\<rparr>),
      (''Cappuccino'', \<lparr>price = to_double (15 / 4), category = ''Coffee''\<rparr>),
      (''Tea'', \<lparr>price = to_double 2, category = ''Hot Drink''\<rparr>)]"

definition display_welcome :: "string list" where
  "display_welcome = [''Welcome to the Advanced Coffee Store (function-based)!'']"

text \<open>\<open>input(...).strip() or "Guest"\<close>\<close>

definition get_customer_name :: "string \<Rightarrow> string" where
  "get_customer_name line = (let name = py_strip line in if name = [] then ''Guest'' else name)"

fun menu_lines :: "int \<Rightarrow> menu \<Rightarrow> string list" where
  "menu_lines i [] = []"
| "menu_lines i ((name, info) # rest) =
     (int_str i @ ''. '' @ name @ '' - $'' @ fmt2 (price info) @ '' ('' @ category info @ '')'') #
     menu_lines (i + 1) rest"

definition display_menu :: "menu \<Rightarrow> string list" where
  "display_menu m = ([CHR 0x0A] @ ''Today's menu:'') # menu_lines 1 m"

section \<open>Reading a choice and a quantity\<close>

text \<open>
  Lines 35--62: a number picks the item at that position, otherwise the first
  name equal to the choice ignoring case, otherwise the first name containing it.
\<close>

definition parse_choice :: "string \<Rightarrow> menu \<Rightarrow> string option" where
  "parse_choice choice0 m =
     (let choice = py_strip choice0; keys = map fst m in
      if choice = [] then None
      else if py_isdigit choice then
        (let idx = int (digits_value choice) - 1
         in if 0 \<le> idx \<and> idx < int (length keys) then Some (keys ! nat idx) else None)
      else (case find (\<lambda>name. py_lower choice = py_lower name) keys of
              Some name \<Rightarrow> Some name
            | None \<Rightarrow> find (\<lambda>name. py_in (py_lower choice) (py_lower name)) keys))"

text \<open>Lines 65--81: the quantity, or \<open>None\<close> with the message printed.\<close>

definition get_quantity :: "string \<Rightarrow> int option \<times> string list" where
  "get_quantity line =
     (let raw = py_strip line in
      if raw = [] then (None, [])
      else case py_int raw of
             None \<Rightarrow> (None, [''Invalid number. Please enter a whole number (e.g., 1, 2).''])
           | Some qty \<Rightarrow>
               if qty \<le> 0 then (None, [''Please enter a whole number greater than 0.''])
               else (Some qty, []))"

section \<open>The order\<close>

record order_line =
  ol_name :: string
  ol_price :: rat
  ol_qty :: int
  ol_total :: rat

text \<open>
  Lines 88--94: the first line with the same name, ignoring case, gets the
  quantity added and its total recomputed; otherwise a line is appended.
\<close>

fun add_line :: "order_line list \<Rightarrow> string \<Rightarrow> rat \<Rightarrow> int \<Rightarrow> order_line list" where
  "add_line [] name p qty =
     [\<lparr>ol_name = name, ol_price = p, ol_qty = qty, ol_total = py_round2 (fmul p (float_of_int qty))\<rparr>]"
| "add_line (l # ls) name p qty =
     (if py_lower (ol_name l) = py_lower name
      then let q = ol_qty l + qty in l\<lparr>ol_qty := q, ol_total := py_round2 (fmul (float_of_int q) (ol_price l))\<rparr> # ls
      else l # add_line ls name p qty)"

text \<open>\<open>menu[name]["price"]\<close> raises \<open>KeyError\<close> for a name not on the menu.\<close>

definition add_to_order :: "order_line list \<Rightarrow> menu \<Rightarrow> string \<Rightarrow> int \<Rightarrow> py_exc + order_line list" where
  "add_to_order order m name qty =
     (case map_of m name of
        None \<Rightarrow> Inl KeyError
      | Some info \<Rightarrow> Inr (add_line order name (price info) qty))"

definition order_subtotal :: "order_line list \<Rightarrow> rat" where
  "order_subtotal order = py_round2 (py_fsum (map ol_total order))"

record totals =
  t_subtotal :: rat
  t_discount :: rat
  t_after_discount :: rat
  t_tax :: rat
  t_total :: rat

definition calculate_totals :: "order_line list \<Rightarrow> rat \<Rightarrow> rat \<Rightarrow> rat \<Rightarrow> totals" where
  "calculate_totals order tax_rate discount_threshold discount_rate =
     (let subtotal = order_subtotal order;
          discount = (if 0 < discount_threshold \<and> discount_threshold < subtotal
                      then py_round2 (fmul subtotal discount_rate) else 0);
          after_discount = py_round2 (fsub subtotal discount);
          tax = py_round2 (fmul after_discount tax_rate);
          total = py_round2 (fadd after_discount tax)
      in \<lparr>t_subtotal = subtotal, t_discount = discount, t_after_discount = after_discount,
          t_tax = tax, t_total = total\<rparr>)"

definition receipt_line :: "order_line \<Rightarrow> string" where
  "receipt_line l =
     ol_name l @ '' x'' @ int_str (ol_qty l) @ '' @ $'' @ fmt2 (ol_price l) @ '' = $'' @ fmt2 (ol_total l)"

definition print_receipt :: "string \<Rightarrow> order_line list \<Rightarrow> totals \<Rightarrow> string list" where
  "print_receipt customer order t =
     [[CHR 0x0A] @ ''--- Receipt ---'', ''Customer: '' @ customer] @ map receipt_line order @
     [''Subtotal: $'' @ fmt2 (t_subtotal t)] @
     (if 0 < t_discount t then [''Discount: -$'' @ fmt2 (t_discount t)] else []) @
     [''Tax: $'' @ fmt2 (t_tax t), ''Total due: $'' @ fmt2 (t_total t), ''-----------------'']"

section \<open>The ordering loop and main\<close>

definition interrupted_msg :: string where
  "interrupted_msg = [CHR 0x0A] @ ''Order interrupted by user. Proceeding to checkout...''"

text \<open>
  Lines 136--157. An item line is followed by its quantity line
  (\<open>order_item\<close>, lines 146--153); Ctrl-C at either prompt leaves the loop
  for the checkout, the end of the console raises.
\<close>

fun order_loop :: "menu \<Rightarrow> console_in list \<Rightarrow> order_line list \<Rightarrow> py_exc + order_line list \<times> string list"
and order_item :: "menu \<Rightarrow> string \<Rightarrow> console_in list \<Rightarrow> order_line list \<Rightarrow> py_exc + order_line list \<times> string list"
where
  "order_loop m [] order = Inl EOFError"
| "order_loop m (Interrupt # ins) order = Inr (order, [interrupted_msg])"
| "order_loop m (Line raw # ins) order =
     (if py_lower (py_strip raw) = ''quit'' then Inr (order, [])
      else if parse_choice raw m = None
      then map_sum id (\<lambda>(o', out). (o', ''Item not found. Try again.'' # out)) (order_loop m ins order)
      else order_item m (the (parse_choice raw m)) ins order)"
| "order_item m item [] order = Inl EOFError"
| "order_item m item (Interrupt # ins) order = Inr (order, [interrupted_msg])"
| "order_item m item (Line q # ins) order =
     (if fst (get_quantity q) = None
      then map_sum id (\<lambda>(o', out). (o', snd (get_quantity q) @ out)) (order_loop m ins order)
      else sbind (add_to_order order m item (the (fst (get_quantity q)))) (\<lambda>order'.
             map_sum id (\<lambda>(o', out).
                 (o', (''Added '' @ int_str (the (fst (get_quantity q))) @ '' x '' @ item @
                       ''. Current subtotal: $'' @ fmt2 (order_subtotal order')) # out))
               (order_loop m ins order')))"

definition types_line :: string where
  "types_line =
     [CHR 0x0A] @ ''(Types demonstration) customer: <class 'str'> , order: <class 'list'> , totals: <class 'dict'>''"

text \<open>
  Lines 127--168. The name prompt is outside the \<open>try\<close>: Ctrl-C there escapes
  as \<open>KeyboardInterrupt\<close>. The checkout uses a 13\<percent> tax and a 10\<percent> discount above
  15.
\<close>

definition coffee_main :: "console_in list \<Rightarrow> py_exc + string list" where
  "coffee_main ins =
     (case ins of
        [] \<Rightarrow> Inl EOFError
      | Interrupt # _ \<Rightarrow> Inl KeyboardInterrupt
      | Line name_line # rest \<Rightarrow>
          (let customer = get_customer_name name_line; m = build_menu
           in sbind (order_loop m rest []) (\<lambda>(order, out).
                let head = display_welcome @ display_menu m @ out in
                if order = [] then Inr (head @ [[CHR 0x0A] @ ''No items ordered. Goodbye!''])
                else let t = calculate_totals order (to_double (13 / 100)) (to_double 15) (to_double (1 / 10))
                     in Inr (head @ print_receipt customer order t @ [types_line]))))"

section \<open>The order as the lemmas see it\<close>

text \<open>
  \<open>order_qty\<close> abstracts an order to the quantity ordered per item, the item
  named case-insensitively as the script compares names; \<open>exact_totals\<close> says
  every line's price is a menu price and its total is exactly quantity times
  price.
\<close>

definition order_qty :: "order_line list \<Rightarrow> string \<Rightarrow> int" where
  "order_qty order k = sum_list (map ol_qty (filter (\<lambda>l. py_lower (ol_name l) = k) order))"

definition exact_totals :: "order_line list \<Rightarrow> bool" where
  "exact_totals order =
     (\<forall>l \<in> set order. ol_price l \<in> set (map (price \<circ> snd) build_menu) \<and>
                        ol_total l = of_int (ol_qty l) * ol_price l)"

section \<open>Evaluation\<close>

text \<open>
  An equivalent form of \<open>order_item\<close> for evaluation: the order after
  \<open>add_to_order\<close> is projected out rather than bound, so the simplifier
  computes it before it continues the loop.
\<close>

lemma order_item_code [code]:
  "order_item m item [] order = Inl EOFError"
  "order_item m item (Interrupt # ins) order = Inr (order, [interrupted_msg])"
  "order_item m item (Line q # ins) order =
     (if fst (get_quantity q) = None
      then map_sum id (\<lambda>(o', out). (o', snd (get_quantity q) @ out)) (order_loop m ins order)
      else if isl (add_to_order order m item (the (fst (get_quantity q))))
      then Inl (projl (add_to_order order m item (the (fst (get_quantity q)))))
      else map_sum id (\<lambda>(o', out).
                 (o', (''Added '' @ int_str (the (fst (get_quantity q))) @ '' x '' @ item @
                       ''. Current subtotal: $'' @
                       fmt2 (order_subtotal (projr (add_to_order order m item (the (fst (get_quantity q)))))))
                      # out))
               (order_loop m ins (projr (add_to_order order m item (the (fst (get_quantity q)))))))"
    apply simp_all
  by (cases "add_to_order order m item (the (fst (get_quantity q)))") auto

section \<open>Lemmas\<close>

lemma order_qty_add_line_at:
  "order_qty (add_line order name p q) k = (if k = py_lower name then order_qty order k + q else order_qty order k)"
  by (induction order) (auto simp: order_qty_def Let_def)

lemma order_qty_add_line:
  "order_qty (add_line order name p q) = (order_qty order)(py_lower name := order_qty order (py_lower name) + q)"
  by (simp add: fun_eq_iff order_qty_add_line_at)

text \<open>
  C37. \<open>add_to_order\<close> refines adding to a map from item to quantity: the
  quantity of the item added grows by the amount, every other stays.
\<close>

lemma add_to_order_refines:
  "add_to_order order m name q = Inr order' \<Longrightarrow>
     order_qty order' = (order_qty order)(py_lower name := order_qty order (py_lower name) + q)"
  by (auto simp: add_to_order_def order_qty_add_line split: option.splits)

text \<open>
  C38. The numbers \<open>display_menu\<close> prints next to the items read back: typing
  the number of the \<open>i\<close>-th item selects that item.
\<close>

lemma parse_choice_number:
  "0 < i \<Longrightarrow> i \<le> length m \<Longrightarrow> parse_choice (nat_str i) m = Some (fst (m ! (i - 1)))"
  using nat_str_digits [of i]
  by (simp add: parse_choice_def py_strip_digits py_isdigit_def Let_def nat_diff_distrib)

lemma build_menu_prices: "map (price \<circ> snd) build_menu = [of_int 10 / 4, of_int 12 / 4, of_int 14 / 4, of_int 15 / 4, of_int 8 / 4]"
proof -
  have q: "\<And>k::int. \<bar>k\<bar> < 2 ^ 53 \<Longrightarrow> to_double (of_int k / 4) = of_int k / 4"
    by (rule to_double_quarter)
  have "to_double (5 / 2) = of_int 10 / 4" "to_double 3 = of_int 12 / 4" "to_double (7 / 2) = of_int 14 / 4"
       "to_double (15 / 4) = of_int 15 / 4" "to_double 2 = of_int 8 / 4"
    using q [of 10] q [of 12] q [of 14] q [of 15] q [of 8] by simp_all
  then show ?thesis by (simp add: build_menu_def)
qed

lemma menu_price_quarter:
  assumes "p \<in> set (map (price \<circ> snd) build_menu)"
  shows "\<exists>k. p = of_int k / 4 \<and> 0 \<le> k \<and> k \<le> 15"
proof -
  from assms have "p \<in> set [of_int 10 / 4, of_int 12 / 4, of_int 14 / 4, of_int 15 / 4, of_int 8 / 4]"
    by (simp only: build_menu_prices)
  then obtain k :: int where "k \<in> {10, 12, 14, 15, 8}" "p = of_int k / 4"
    by (simp only: list.set insert_iff empty_iff) blast
  then show ?thesis by auto
qed

lemma menu_line_total_exact:
  assumes "p \<in> set (map (price \<circ> snd) build_menu)" and "\<bar>q\<bar> < 2 ^ 48"
  shows "py_round2 (fmul p (float_of_int q)) = of_int q * p"
proof -
  obtain k where k: "p = of_int k / 4" "0 \<le> k" "k \<le> 15" using menu_price_quarter [OF assms(1)] by blast
  have "\<bar>k * q\<bar> \<le> 15 * \<bar>q\<bar>" using k(2,3) by (simp add: abs_mult mult_right_mono)
  also have "\<dots> < 2 ^ 53" using assms(2) by simp
  finally show ?thesis using assms(2) by (intro line_total_exact [OF k(1)]) simp_all
qed

lemma add_line_exact:
  "(\<forall>l \<in> set order. ol_price l \<in> set (map (price \<circ> snd) build_menu) \<and> ol_total l = of_int (ol_qty l) * ol_price l) \<Longrightarrow>
   p \<in> set (map (price \<circ> snd) build_menu) \<Longrightarrow>
   list_all (\<lambda>l. \<bar>ol_qty l\<bar> < 2 ^ 48) (add_line order name p q) \<Longrightarrow>
   \<forall>l \<in> set (add_line order name p q). ol_price l \<in> set (map (price \<circ> snd) build_menu) \<and>
                                       ol_total l = of_int (ol_qty l) * ol_price l"
proof (induction order)
  case Nil
  then show ?case by (simp add: menu_line_total_exact)
next
  case (Cons l ls)
  then show ?case
    by (auto simp: Let_def menu_line_total_exact fmul_commute split: if_splits)
qed

text \<open>
  C39. The float arithmetic of the order is exact: adding an item to an order
  whose line totals equal quantity times price keeps them so, as long as the
  quantities stay below \<open>2^48\<close>; no rounding occurs before discount and tax.
\<close>

lemma add_to_order_exact:
  assumes "exact_totals order" and "add_to_order order build_menu name q = Inr order'"
    and "list_all (\<lambda>l. \<bar>ol_qty l\<bar> < 2 ^ 48) order'"
  shows "exact_totals order'"
proof -
  from assms(2) obtain info where i: "map_of build_menu name = Some info"
    and o: "order' = add_line order name (price info) q"
    by (auto simp: add_to_order_def split: option.splits)
  from map_of_SomeD [OF i] have p: "price info \<in> set (map (price \<circ> snd) build_menu)"
    by force
  show ?thesis
    unfolding exact_totals_def o
    by (rule add_line_exact [OF assms(1) [unfolded exact_totals_def] p assms(3) [unfolded o]])
qed


lemma parse_choice_key:
  "parse_choice raw m = Some item \<Longrightarrow> item \<in> fst ` set m"
  by (auto simp: parse_choice_def Let_def split: if_splits option.splits dest!: find_Some_in)

lemma add_to_order_key:
  "item \<in> fst ` set m \<Longrightarrow> \<exists>order'. add_to_order order m item q = Inr order'"
  by (auto simp: add_to_order_def split: option.splits dest: weak_map_of_SomeI)

lemma order_loop_raises:
  "order_loop m ins order = Inl e \<Longrightarrow> e = EOFError"
  "item \<in> fst ` set m \<Longrightarrow> order_item m item ins order = Inl e \<Longrightarrow> e = EOFError"
proof (induction m ins order and m item ins order rule: order_loop_order_item.induct)
  case (3 m raw ins order)
  show ?case
  proof (cases "py_lower (py_strip raw) = ''quit'' \<or> parse_choice raw m = None")
    case True
    with "3.prems" "3.IH"(1) show ?thesis by (auto simp: map_sum_eq_Inl split: if_splits)
  next
    case False
    then obtain item where p: "parse_choice raw m = Some item" by auto
    with False "3.prems" "3.IH"(2) parse_choice_key [OF p] show ?thesis by simp
  qed
next
  case (6 m item q ins order)
  then show ?case
    using add_to_order_key [OF 6(3), of order "the (fst (get_quantity q))"]
    by (auto simp: sbind_eq_Inl map_sum_eq_Inl split: if_splits)
qed simp_all


end
