(* ===== verification/CoffeeBasic.thy ===== *)
theory CoffeeBasic
  imports Coffee
begin

text \<open>
  The beginner coffee store, \<open>src/setup/test/coffee_store_basic.py\<close>: a
  top-level script with no function and no \<open>try\<close>. The menu is a dict from
  name to price; the ordering loop (lines 35--95) reads an item, by number or
  by name ignoring case, then a quantity checked with \<open>isdigit\<close>, adds it to
  the order with the same update as the function-based store
  (\<open>Coffee.add_line\<close>) and keeps a running \<open>total\<close> of the unrounded line
  amounts. The receipt prints the rounded running total, then a dump of the
  data's types and of the first order line as a dict (\<open>py_float_repr\<close>).

  Every \<open>input()\<close> may raise \<open>EOFError\<close> or \<open>KeyboardInterrupt\<close>, and
  nothing catches them: the script's result is the lines it printed and the
  exception it ended with, if any (\<open>raise SystemExit\<close> with no argument exits
  with status 0).
\<close>

section \<open>The menu\<close>

type_synonym price_menu = "(string \<times> rat) list"

definition basic_menu :: price_menu where
  "basic_menu =
     [(''Espresso'', to_double (5 / 2)), (''Americano'', to_double 3), (''Latte'', to_double (7 / 2)),
      (''Cappuccino'', to_double (15 / 4)), (''Tea'', to_double 2)]"

definition basic_show_menu :: "price_menu \<Rightarrow> string list" where
  "basic_show_menu m =
     ([CHR 0x0A] @ ''Today's menu:'') #
     map (\<lambda>(i, name, p). int_str i @ ''. '' @ name @ '' - $'' @ fmt2 p) (zip [1..int (length m)] m)"

section \<open>One round of the ordering loop\<close>

datatype selection = Picked string | NoSuchNumber | NoSuchName

text \<open>
  Lines 40--58, on the stripped choice: digits select by position, anything
  else the first name equal to it ignoring case.
\<close>

definition select_item :: "string \<Rightarrow> price_menu \<Rightarrow> selection" where
  "select_item choice m =
     (if py_isdigit choice then
        (let idx = int (digits_value choice)
         in if 1 \<le> idx \<and> idx \<le> int (length m) then Picked (fst (m ! nat (idx - 1))) else NoSuchNumber)
      else case find (\<lambda>name. py_lower choice = py_lower name) (map fst m) of
             Some name \<Rightarrow> Picked name
           | None \<Rightarrow> NoSuchName)"

definition emit :: "string \<Rightarrow> string list \<times> 'a \<Rightarrow> string list \<times> 'a" where
  "emit l r = (l # fst r, snd r)"

text \<open>
  Lines 35--95: the item prompt (\<open>basic_order_loop\<close>) and the quantity prompt
  (\<open>basic_order_qty\<close>); \<open>continue\<close> is the recursive call after the message,
  \<open>break\<close> returns the order and the running total.
\<close>

fun basic_order_loop ::
  "price_menu \<Rightarrow> console_in list \<Rightarrow> order_line list \<Rightarrow> rat \<Rightarrow>
   string list \<times> (py_exc + order_line list \<times> rat)"
and basic_order_qty ::
  "price_menu \<Rightarrow> string \<Rightarrow> console_in list \<Rightarrow> order_line list \<Rightarrow> rat \<Rightarrow>
   string list \<times> (py_exc + order_line list \<times> rat)"
where
  "basic_order_loop m [] order run_total = ([], Inl EOFError)"
| "basic_order_loop m (Interrupt # ins) order run_total = ([], Inl KeyboardInterrupt)"
| "basic_order_loop m (Line raw # ins) order run_total =
     (let choice = py_strip raw in
      if py_lower choice = ''quit'' then ([], Inr (order, run_total))
      else case select_item choice m of
             NoSuchNumber \<Rightarrow> emit ''That item number is not on the menu. Try again.'' (basic_order_loop m ins order run_total)
           | NoSuchName \<Rightarrow> emit ''Couldn't find that item name. Try again.'' (basic_order_loop m ins order run_total)
           | Picked item \<Rightarrow> basic_order_qty m item ins order run_total)"
| "basic_order_qty m item [] order run_total = ([], Inl EOFError)"
| "basic_order_qty m item (Interrupt # ins) order run_total = ([], Inl KeyboardInterrupt)"
| "basic_order_qty m item (Line q # ins) order run_total =
     (let qty_input = py_strip q in
      if \<not> py_isdigit qty_input
      then emit ''Please enter a whole number for quantity. Try again.'' (basic_order_loop m ins order run_total)
      else let qty = int (digits_value qty_input) in
           if qty \<le> 0 then emit ''Quantity must be at least 1. Try again.'' (basic_order_loop m ins order run_total)
           else case map_of m item of
                  None \<Rightarrow> ([], Inl KeyError)
                | Some unit_price \<Rightarrow>
                    let line_total = fmul unit_price (float_of_int qty);
                        run_total' = fadd run_total line_total
                    in emit (''Added '' @ int_str qty @ '' x '' @ item @ ''. Current subtotal: $'' @ fmt2 run_total')
                         (basic_order_loop m ins (add_line order item unit_price qty) run_total'))"

section \<open>The script\<close>

text \<open>\<open>print(order[0])\<close>: the line as the dict the script builds.\<close>

definition basic_line_repr :: "order_line \<Rightarrow> string" where
  "basic_line_repr l =
     ''{'' @ repr_str ''name'' @ '': '' @ repr_str (ol_name l) @ '', '' @
     repr_str ''price'' @ '': '' @ py_float_repr (ol_price l) @ '', '' @
     repr_str ''qty'' @ '': '' @ int_str (ol_qty l) @ '', '' @
     repr_str ''line_total'' @ '': '' @ py_float_repr (ol_total l) @ ''}''"

definition basic_receipt :: "price_menu \<Rightarrow> string \<Rightarrow> order_line list \<Rightarrow> rat \<Rightarrow> string list" where
  "basic_receipt m customer_name order run_total =
     (let final_total = py_round2 run_total in
      [[CHR 0x0A] @ ''--- Receipt ---'', ''Customer: '' @ customer_name] @ map receipt_line order @
      [''Total due: $'' @ fmt2 final_total, ''-----------------'',
       [CHR 0x0A] @ ''(For learning) Data types and collections:'',
       ''Type of customer_name: <class 'str'>'', ''Type of final_total: <class 'float'>'',
       ''Menu keys (item names): ['' @ py_join '', '' (map (repr_str \<circ> fst) m) @ '']'',
       ''Order is a list with '' @ int_str (int (length order)) @ '' distinct items.'',
       ''First order line (example): '' @ basic_line_repr (hd order),
       [CHR 0x0A] @ ''Thank you! Goodbye!''])"

definition coffee_basic :: "console_in list \<Rightarrow> string list \<times> py_exc option" where
  "coffee_basic ins =
     (let m = basic_menu; welcome = [''Welcome to the Simple Coffee Store!''] in
      case py_input ins of
        Inl e \<Rightarrow> (welcome, Some e)
      | Inr (l, rest) \<Rightarrow>
          let customer_name = py_strip l;
              head = welcome @ [''Hello, '' @ customer_name] @ basic_show_menu m;
              (out, r) = basic_order_loop m rest [] 0
          in case r of
               Inl e \<Rightarrow> (head @ out, Some e)
             | Inr (order, run_total) \<Rightarrow>
                 if order = [] then (head @ out @ [[CHR 0x0A] @ ''No items ordered. Thank you!''], Some (SystemExit 0))
                 else (head @ out @ basic_receipt m customer_name order run_total, None))"

section \<open>The order as the lemmas see it\<close>

text \<open>
  A line is consistent when its name is a menu item at its price, its
  quantity positive and its total exactly quantity times price; the running
  total is consistent when it is exactly the sum of the line totals.
\<close>

definition basic_line_ok :: "order_line \<Rightarrow> bool" where
  "basic_line_ok l =
     (map_of basic_menu (ol_name l) = Some (ol_price l) \<and> 0 < ol_qty l \<and>
      ol_total l = of_int (ol_qty l) * ol_price l)"

definition basic_inv :: "order_line list \<Rightarrow> rat \<Rightarrow> bool" where
  "basic_inv order t = (list_all basic_line_ok order \<and> t = sum_list (map ol_total order))"

text \<open>The lines' names as the script compares them, ignoring case.\<close>

definition line_keys :: "order_line list \<Rightarrow> string list" where
  "line_keys order = map (\<lambda>l. py_lower (ol_name l)) order"

section \<open>Evaluation\<close>

text \<open>
  The script with its cases as conditionals, so that evaluation by
  \<open>code_simp\<close> computes each result before the branches that use it.
\<close>

lemma coffee_basic_code [code]:
  "coffee_basic ins =
     (let m = basic_menu; welcome = [''Welcome to the Simple Coffee Store!'']; inp = py_input ins in
      if isl inp then (welcome, Some (projl inp))
      else let customer_name = py_strip (fst (projr inp));
               head = welcome @ [''Hello, '' @ customer_name] @ basic_show_menu m;
               res = basic_order_loop m (snd (projr inp)) [] 0
           in if isl (snd res) then (head @ fst res, Some (projl (snd res)))
              else if fst (projr (snd res)) = []
              then (head @ fst res @ [[CHR 0x0A] @ ''No items ordered. Thank you!''], Some (SystemExit 0))
              else (head @ fst res @ basic_receipt m customer_name (fst (projr (snd res))) (snd (projr (snd res))),
                    None))"
  by (simp add: coffee_basic_def Let_def split: sum.split prod.split)

section \<open>Lemmas\<close>

lemma select_item_picked:
  "select_item choice m = Picked item \<Longrightarrow> item \<in> fst ` set m"
  by (auto simp: select_item_def Let_def find_Some_iff split: if_splits option.splits)

lemma basic_raises_mutual:
  "snd (basic_order_loop m ins order t) = Inl e \<Longrightarrow> e = EOFError \<or> e = KeyboardInterrupt"
  "item \<in> fst ` set m \<Longrightarrow> snd (basic_order_qty m item ins order t) = Inl e \<Longrightarrow> e = EOFError \<or> e = KeyboardInterrupt"
proof (induction m ins order t and m item ins order t rule: basic_order_loop_basic_order_qty.induct)
  case (3 m raw ins order t)
  then show ?case
    by (auto simp: Let_def emit_def select_item_picked split: if_splits selection.splits)
next
  case (6 m item q ins order t)
  then show ?case
    by (auto simp: Let_def emit_def map_of_eq_None_iff split: if_splits option.splits)
qed simp_all

lemma basic_menu_prices: "map snd basic_menu = map (price \<circ> snd) build_menu"
  by (simp add: basic_menu_def build_menu_def)

lemma basic_menu_quarter:
  "map_of basic_menu n = Some p \<Longrightarrow> \<exists>k. p = of_int k / 4 \<and> 0 \<le> k \<and> k \<le> 15"
  using map_of_SomeD [of basic_menu n p] menu_price_quarter [of p] basic_menu_prices
  by (metis image_eqI list.set_map snd_conv)

lemma basic_menu_names:
  "map_of basic_menu a = Some pa \<Longrightarrow> map_of basic_menu b = Some pb \<Longrightarrow> py_lower a = py_lower b \<Longrightarrow> a = b"
  by (auto simp: basic_menu_def py_lower_def split: if_splits)


lemma basic_price_in_menu:
  "map_of basic_menu n = Some p \<Longrightarrow> p \<in> set (map (price \<circ> snd) build_menu)"
  using map_of_SomeD [of basic_menu n p] basic_menu_prices
  by (metis image_eqI list.set_map snd_conv)

lemma add_line_qty_sum:
  "sum_list (map ol_qty (add_line order n p q)) = sum_list (map ol_qty order) + q"
  by (induction order) (auto simp: Let_def)

lemma ok_pos: "list_all basic_line_ok order \<Longrightarrow> list_all (\<lambda>l. 0 < ol_qty l) order"
  by (simp add: basic_line_ok_def list_all_iff)

lemma add_line_pos:
  "list_all (\<lambda>l. 0 < ol_qty l) order \<Longrightarrow> 0 < q \<Longrightarrow> list_all (\<lambda>l. 0 < ol_qty l) (add_line order n p q)"
  by (induction order) (auto simp: Let_def)

lemma qty_sum_nonneg:
  "list_all (\<lambda>l. 0 < ol_qty l) order \<Longrightarrow> 0 \<le> sum_list (map ol_qty order)"
  by (induction order) auto

lemma qty_le_sum:
  "list_all (\<lambda>l. 0 < ol_qty l) order \<Longrightarrow> l \<in> set order \<Longrightarrow> ol_qty l \<le> sum_list (map ol_qty order)"
  by (induction order) (auto simp: qty_sum_nonneg)

lemma basic_total_quarters:
  "list_all basic_line_ok order \<Longrightarrow>
   \<exists>K. sum_list (map ol_total order) = of_int K / 4 \<and> 0 \<le> K \<and> K \<le> 15 * sum_list (map ol_qty order)"
proof (induction order)
  case Nil
  then show ?case by (intro exI [of _ 0]) simp
next
  case (Cons l ls)
  then obtain K where K: "sum_list (map ol_total ls) = of_int K / 4" "0 \<le> K" "K \<le> 15 * sum_list (map ol_qty ls)"
    by auto
  from Cons.prems have l: "map_of basic_menu (ol_name l) = Some (ol_price l)" "0 < ol_qty l"
    "ol_total l = of_int (ol_qty l) * ol_price l" by (simp_all add: basic_line_ok_def)
  obtain k where k: "ol_price l = of_int k / 4" "0 \<le> k" "k \<le> 15" using basic_menu_quarter [OF l(1)] by blast
  have "k * ol_qty l \<le> 15 * ol_qty l" using k(3) l(2) by simp
  moreover have "0 \<le> k * ol_qty l" using k(2) l(2) by simp
  ultimately show ?case using K l(3) k(1)
    by (intro exI [of _ "k * ol_qty l + K"]) (simp add: algebra_simps add_divide_distrib)
qed

lemma add_line_ok:
  assumes "list_all basic_line_ok order" and p: "map_of basic_menu item = Some p" and q: "0 < q"
    and b: "list_all (\<lambda>l. \<bar>ol_qty l\<bar> < 2 ^ 48) (add_line order item p q)"
  shows "list_all basic_line_ok (add_line order item p q) \<and>
         sum_list (map ol_total (add_line order item p q)) = sum_list (map ol_total order) + of_int q * p"
  using assms(1) b
proof (induction order)
  case Nil
  then show ?case
    using menu_line_total_exact [OF basic_price_in_menu [OF p]] p q by (simp add: basic_line_ok_def)
next
  case (Cons l ls)
  show ?case
  proof (cases "py_lower (ol_name l) = py_lower item")
    case True
    from Cons.prems(1) have l: "map_of basic_menu (ol_name l) = Some (ol_price l)" "0 < ol_qty l"
      "ol_total l = of_int (ol_qty l) * ol_price l" by (simp_all add: basic_line_ok_def)
    have "ol_name l = item" using basic_menu_names [OF l(1) p True] .
    then have pl: "ol_price l = p" using l(1) p by simp
    have "\<bar>ol_qty l + q\<bar> < 2 ^ 48" using Cons.prems(2) True by (simp add: Let_def)
    then have "py_round2 (fmul (float_of_int (ol_qty l + q)) (ol_price l)) = of_int (ol_qty l + q) * ol_price l"
      using menu_line_total_exact [OF basic_price_in_menu [OF l(1)]] by (simp add: fmul_commute)
    then show ?thesis using True Cons.prems(1) l q pl by (simp add: basic_line_ok_def Let_def algebra_simps)
  next
    case False
    then show ?thesis using Cons by (simp add: basic_line_ok_def)
  qed
qed

lemma basic_inv_add:
  assumes inv: "basic_inv order t" and p: "map_of basic_menu item = Some p" and q: "0 < q"
    and b: "sum_list (map ol_qty order) + q < 2 ^ 48"
  shows "basic_inv (add_line order item p q) (fadd t (fmul p (float_of_int q)))"
proof -
  have ok: "list_all basic_line_ok order" and t: "t = sum_list (map ol_total order)"
    using inv by (simp_all add: basic_inv_def)
  obtain k where k: "p = of_int k / 4" "0 \<le> k" "k \<le> 15" using basic_menu_quarter [OF p] by blast
  obtain K where K: "t = of_int K / 4" "0 \<le> K" "K \<le> 15 * sum_list (map ol_qty order)"
    using basic_total_quarters [OF ok] t by auto
  have s0: "0 \<le> sum_list (map ol_qty order)" using qty_sum_nonneg [OF ok_pos [OF ok]] .
  have kq: "0 \<le> k * q" "k * q \<le> 15 * q" using k q by simp_all
  have q48: "q < 2 ^ 48" using b s0 by simp
  have "k * q < 2 ^ 53" using kq(2) q48 by simp
  then have lt: "fmul p (float_of_int q) = of_int q * p"
    using q48 kq(1) q by (intro fmul_quarter_exact [OF k(1)]) simp_all
  have pos: "list_all (\<lambda>l. 0 < ol_qty l) (add_line order item p q)"
    using add_line_pos [OF ok_pos [OF ok] q] .
  have "list_all (\<lambda>l. \<bar>ol_qty l\<bar> < 2 ^ 48) (add_line order item p q)"
    unfolding list_all_iff
  proof
    fix l assume "l \<in> set (add_line order item p q)"
    with pos have "0 < ol_qty l" "ol_qty l \<le> sum_list (map ol_qty order) + q"
      using qty_le_sum [OF pos] by (auto simp: list_all_iff add_line_qty_sum)
    with b show "\<bar>ol_qty l\<bar> < 2 ^ 48" by simp
  qed
  then have new: "list_all basic_line_ok (add_line order item p q)"
    "sum_list (map ol_total (add_line order item p q)) = t + of_int q * p"
    using add_line_ok [OF ok p q] t by simp_all
  have e: "t + of_int q * p = of_int (K + k * q) / 4" unfolding K(1) k(1) by (simp add: add_divide_distrib)
  have "\<bar>K + k * q\<bar> < 2 ^ 53" using K(2,3) kq b s0 by simp
  then have "to_double (t + of_int q * p) = t + of_int q * p"
    unfolding e by (rule to_double_quarter)
  then have "fadd t (fmul p (float_of_int q)) = t + of_int q * p"
    using lt by (simp add: fadd_def)
  then show ?thesis using new by (simp add: basic_inv_def)
qed

lemma basic_order_qty_mono:
  "snd (basic_order_loop m ins order t) = Inr (order', t') \<Longrightarrow> sum_list (map ol_qty order) \<le> sum_list (map ol_qty order')"
  "snd (basic_order_qty m item ins order t) = Inr (order', t') \<Longrightarrow> sum_list (map ol_qty order) \<le> sum_list (map ol_qty order')"
proof (induction m ins order t and m item ins order t rule: basic_order_loop_basic_order_qty.induct)
  case (3 m raw ins order t)
  then show ?case by (auto simp: Let_def emit_def split: if_splits selection.splits)
next
  case (6 m item q ins order t)
  then show ?case
    by (fastforce simp: Let_def emit_def add_line_qty_sum split: if_splits option.splits)
qed simp_all

lemma basic_order_inv_mutual:
  "m = basic_menu \<Longrightarrow> snd (basic_order_loop m ins order t) = Inr (order', t') \<Longrightarrow> basic_inv order t \<Longrightarrow>
   sum_list (map ol_qty order') < 2 ^ 48 \<Longrightarrow> basic_inv order' t'"
  "m = basic_menu \<Longrightarrow> snd (basic_order_qty m item ins order t) = Inr (order', t') \<Longrightarrow> basic_inv order t \<Longrightarrow>
   sum_list (map ol_qty order') < 2 ^ 48 \<Longrightarrow> basic_inv order' t'"
proof (induction m ins order t and m item ins order t rule: basic_order_loop_basic_order_qty.induct)
  case (3 m raw ins order t)
  then show ?case by (auto simp: Let_def emit_def split: if_splits selection.splits)
next
  case (6 m item q ins order t)
  show ?case
  proof (cases "py_isdigit (py_strip q) \<and> 0 < int (digits_value (py_strip q))")
    case False
    then show ?thesis using 6 by (auto simp: Let_def emit_def split: if_splits)
  next
    case True
    define qty where "qty = int (digits_value (py_strip q))"
    from True 6(4,5) obtain p where p: "map_of basic_menu item = Some p"
      by (auto simp: Let_def split: option.splits)
    define t1 where "t1 = fadd t (fmul p (float_of_int qty))"
    have r: "snd (basic_order_loop basic_menu ins (add_line order item p qty) t1) = Inr (order', t')"
      using 6(4,5) True p by (simp add: Let_def emit_def qty_def t1_def)
    have "sum_list (map ol_qty (add_line order item p qty)) \<le> sum_list (map ol_qty order')"
      using r by (rule basic_order_qty_mono(1))
    then have "sum_list (map ol_qty order) + qty < 2 ^ 48"
      using 6(7) by (simp add: add_line_qty_sum)
    then have "basic_inv (add_line order item p qty) t1"
      unfolding t1_def using True by (intro basic_inv_add [OF 6(6) p]) (simp_all add: qty_def)
    then show ?thesis
      using 6(3) [of "py_strip q" qty p "fmul p (float_of_int qty)" t1] r 6(4,7) True p
      by (simp add: qty_def t1_def)
  qed
qed simp_all

text \<open>
  C14. The receipt of the beginner store adds up: when the ordering loop ends
  by \<open>quit\<close> with fewer than \<open>2^48\<close> items in all, every line total is exactly
  quantity times the item's menu price and the rounded running total printed
  as "Total due" is exactly the sum of the line totals printed above it.
\<close>

theorem basic_total_exact:
  assumes "snd (basic_order_loop basic_menu ins [] 0) = Inr (order, t)" and "sum_list (map ol_qty order) < 2 ^ 48"
  shows "py_round2 t = sum_list (map ol_total order) \<and>
         list_all (\<lambda>l. map_of basic_menu (ol_name l) = Some (ol_price l) \<and> ol_total l = of_int (ol_qty l) * ol_price l) order"
proof -
  have inv: "basic_inv order t"
    using basic_order_inv_mutual(1) [OF refl assms(1) _ assms(2)] by (simp add: basic_inv_def)
  then have ok: "list_all basic_line_ok order" and t: "t = sum_list (map ol_total order)"
    by (simp_all add: basic_inv_def)
  obtain K where K: "t = of_int K / 4" "0 \<le> K" "K \<le> 15 * sum_list (map ol_qty order)"
    using basic_total_quarters [OF ok] t by auto
  have "\<bar>K\<bar> < 2 ^ 53" using K(2,3) assms(2) by simp
  then have "py_round2 t = t" unfolding K(1) by (rule py_round2_quarter)
  moreover have "list_all (\<lambda>l. map_of basic_menu (ol_name l) = Some (ol_price l) \<and> ol_total l = of_int (ol_qty l) * ol_price l) order"
    using ok by (simp add: basic_line_ok_def list_all_iff)
  ultimately show ?thesis using t by simp
qed


lemma add_line_keys:
  "set (line_keys (add_line order n p q)) = insert (py_lower n) (set (line_keys order))"
  by (induction order) (auto simp: line_keys_def Let_def)

lemma add_line_distinct:
  "distinct (line_keys order) \<Longrightarrow> distinct (line_keys (add_line order n p q))"
proof (induction order)
  case (Cons l ls)
  then show ?case
    using add_line_keys [of ls n p q] by (auto simp: line_keys_def Let_def)
qed (simp add: line_keys_def)

lemma basic_order_keys_mutual:
  "snd (basic_order_loop m ins order t) = Inr (order', t') \<Longrightarrow> distinct (line_keys order) \<Longrightarrow>
   set (line_keys order) \<subseteq> py_lower ` fst ` set m \<Longrightarrow>
   distinct (line_keys order') \<and> set (line_keys order') \<subseteq> py_lower ` fst ` set m"
  "item \<in> fst ` set m \<Longrightarrow> snd (basic_order_qty m item ins order t) = Inr (order', t') \<Longrightarrow>
   distinct (line_keys order) \<Longrightarrow> set (line_keys order) \<subseteq> py_lower ` fst ` set m \<Longrightarrow>
   distinct (line_keys order') \<and> set (line_keys order') \<subseteq> py_lower ` fst ` set m"
proof (induction m ins order t and m item ins order t rule: basic_order_loop_basic_order_qty.induct)
  case (3 m raw ins order t)
  then show ?case by (auto simp: Let_def emit_def select_item_picked split: if_splits selection.splits)
next
  case (6 m item q ins order t)
  then show ?case
    by (auto simp: Let_def emit_def add_line_distinct add_line_keys split: if_splits option.splits)
qed simp_all

text \<open>
  C22. The order the beginner store builds never has more lines than the menu
  has items, whatever the menu: a repeated item, in any case, is merged into its
  line, so the lines' names are distinct ignoring case and each names a menu
  item.
\<close>

theorem basic_order_bounded:
  assumes "snd (basic_order_loop m ins [] 0) = Inr (order, t)"
  shows "length order \<le> length m \<and> distinct (map (\<lambda>l. py_lower (ol_name l)) order)"
proof -
  have k: "distinct (line_keys order)" "set (line_keys order) \<subseteq> py_lower ` fst ` set m"
    using basic_order_keys_mutual(1) [OF assms] by (simp_all add: line_keys_def)
  have "length order = card (set (line_keys order))"
    using distinct_card [OF k(1)] by (simp add: line_keys_def)
  also have "\<dots> \<le> card (py_lower ` fst ` set m)" using k(2) by (intro card_mono) simp_all
  also have "\<dots> \<le> card (fst ` set m)" by (rule card_image_le) simp
  also have "\<dots> \<le> card (set m)" by (rule card_image_le) simp
  also have "\<dots> \<le> length m" by (rule card_length)
  finally show ?thesis using k(1) by (simp add: line_keys_def)
qed

end
