(* ===== verification/Spec2Isabelle.thy ===== *)
theory Spec2Isabelle
  imports ToolCalling Triage ChatLoop SinglePrompt Coffee CoffeeBasic
begin

text \<open>
  \<^bold>\<open>A verification library for the workshop scripts of GenAI-101-Beyond-Chatbot.\<close>

  \<^emph>\<open>The program.\<close> The repository is a set of Python scripts. The one with real
  control structure is \<open>src/workshop1/exercise8_advanced.py\<close>: an incident
  description is sent to a chat-completion model together with one declared tool,
  \<open>escalate_crisis\<close>; while the model answers with tool calls, the script appends
  the assistant turn, runs each call through \<open>process_tool_call\<close>, appends one
  tool message per call, records escalations in \<open>result_data\<close>, and calls the
  model again; \<open>run_workflow_with_function_calling\<close> prints a report from
  \<open>result_data\<close>. \<open>src/workshop1/exercise7.py\<close> is the JSON-mode variant
  (triage, ticket, simulated database write, e-mail escalation);
  \<open>exercise4_enhanced.py\<close> is an interactive chat loop with reset; the other
  exercises send single prompts; \<open>src/setup\<close> holds two coffee-shop scripts.

  \<^emph>\<open>The theories.\<close>
  \<^item> \<open>Prelude\<close>: the collection \<open>model_simps\<close> and the exception monad
    \<open>sbind\<close> on \<open>py_exc + 'a\<close>.
  \<^item> \<open>PyBase\<close>: the Python runtime the scripts use: exceptions, JSON values and
    dicts (\<open>dict_get\<close>, \<open>dict_set\<close>, \<open>dict_setdefault\<close>, \<open>jget\<close>),
    iteration, truthiness, \<open>str\<close>/\<open>repr\<close>, the string methods; \<open>json\<close>
    is the interface \<open>json_codec\<close>.
  \<^item> \<open>Messages\<close>: the Message Log (roles, messages, the three message shapes the
    scripts build) and the spec's invariant of the log as the executable scan
    \<open>log_scan\<close> (\<open>log_ok\<close>, \<open>log_settled\<close>).
  \<^item> \<open>ToolCalling\<close>: \<open>exercise8_advanced.py\<close>, lines 39--273. \<open>TOOLS\<close>,
    \<open>escalate_crisis\<close> (handler, lines 73--100), \<open>process_tool_call\<close>
    (router, 103--114), \<open>call_tool\<close>/\<open>record_result\<close> (one iteration of the
    inner loop, 181--198) and \<open>dispatch_calls\<close> (the inner loop),
    \<open>tool_loop\<close> (the outer \<open>while\<close>, 159--212),
    \<open>call_triage_llm_with_tools\<close> (121--214) and \<open>workflow_report\<close>/
    \<open>run_workflow_with_function_calling\<close> (221--238), and \<open>main\<close>
    (\<open>tools_main\<close>, 245--273): the description, temperature and token
    ceiling read from the console with their fallbacks (\<open>Client.read_setting\<close>;
    \<open>float()\<close> is a parameter, \<open>int()\<close> is \<open>py_int\<close>). The state
    (\<open>loop_state\<close>) is the script's \<open>messages\<close> and \<open>result_data\<close>, the
    number of model calls and uuid draws made, and the escalation alerts printed.
    The model, \<open>uuid4\<close> and \<open>json\<close> are the environment \<open>tool_env\<close>:
    the model is any function of the call number and the request, so every
    theorem holds for every sequence of model answers.
  \<^item> \<open>Client\<close>: the Triage Client, the request and answer shapes every script
    shares (\<open>chat_request\<close>, \<open>completion\<close>, \<open>api_result\<close>: a call
    answers or raises), and the ticket id and numbered action lines both triage
    scripts build the same way.
  \<^item> \<open>Triage\<close>: \<open>exercise7.py\<close>, lines 44--306, the JSON-mode workflow and its
    escalation policy. \<open>severity_score\<close>, \<open>build_messages\<close> (the few-shot
    prompt), \<open>call_triage_llm\<close> (one JSON-mode call; the defaults of lines
    161--167 are \<open>normalize_triage\<close>), \<open>create_ticket_incident\<close>,
    \<open>save_to_db_placeholder\<close>, \<open>send_email_alert\<close> (with
    \<open>_send_real_email\<close> as \<open>send_real_email\<close>, which can raise),
    \<open>maybe_escalate_to_email\<close>, \<open>run_workflow\<close> and \<open>main\<close>
    (\<open>triage_main\<close>, as \<open>tools_main\<close> with this script's messages). The state
    (\<open>wf_state\<close>) is the number of uuids drawn and the list of
    \<open>[WORKFLOW]\<close>/\<open>[EMAIL]\<close> steps reported; the model, \<open>uuid4\<close>,
    \<open>json\<close>, \<open>USE_REAL_EMAIL\<close>, the receiver setting and the e-mail
    API's post are the environment \<open>triage_env\<close>.
  \<^item> \<open>ChatLoop\<close>: \<open>run_chat_loop\<close> of \<open>exercise4_enhanced.py\<close>
    (\<open>chat_turn\<close> is one exchange, lines 32--47; \<open>chat_loop\<close> the
    \<open>while True\<close> with its commands), the two-turn script of
    \<open>exercise4.py\<close> (\<open>two_turns\<close>) and the stateless loop of
    \<open>exercise3.py\<close> (\<open>basic_loop\<close>). The console is a finite list of
    lines and Ctrl-C (\<open>PyBase.console_in\<close>, read by \<open>py_input\<close>); its end
    is the \<open>EOFError\<close> of \<open>input()\<close>. The state
    is \<open>messages\<close>, the number of calls, the requests sent and the lines printed.
  \<^item> \<open>SinglePrompt\<close>: \<open>exercise1.py\<close>, \<open>exercise2.py\<close>,
    \<open>exercise6.py\<close> and \<open>exercise6_enhanced.py\<close>: the request each sends
    (\<open>support_request\<close>, \<open>json_support_request\<close>), the extraction prompt
    (\<open>extraction_prompt\<close>, equal to Python's f-string character for character),
    the JSON parsing of \<open>improved_it_support_json\<close> and the lines printed.
  \<^item> \<open>PyFloat\<close>: Python's \<open>float\<close> as the rational a binary64 value denotes;
    \<open>to_double\<close> rounds to 53 significant bits, ties to even; \<open>fmul\<close>,
    \<open>fadd\<close>, \<open>fsub\<close>, \<open>py_fsum\<close>, \<open>py_round2\<close> (\<open>round(x, 2)\<close>) and
    \<open>fmt2\<close> (\<open>:.2f\<close>) on top of it; \<open>to_double_exact\<close>: values
    \<open>m \<cdot> 2^k\<close> with \<open>|m| < 2^53\<close> are fixed points. \<open>py_float_repr\<close>
    is \<open>repr(x)\<close>: the shortest decimal that reads back as \<open>x\<close>, nearest
    first, positional or with an exponent as CPython prints it (checked against
    Python on 240000 random doubles with a transcription of the definition).
  \<^item> \<open>Coffee\<close>: \<open>src/setup/coffee_store_advanced.py\<close>: \<open>build_menu\<close>,
    \<open>display_menu\<close>, \<open>parse_choice\<close>, \<open>get_quantity\<close>,
    \<open>add_to_order\<close> (\<open>add_line\<close> is its loop), \<open>calculate_totals\<close>,
    \<open>print_receipt\<close>, and main's loop (\<open>order_loop\<close>, \<open>order_item\<close>)
    over a console of lines, as \<open>coffee_main\<close>. Its output on five sessions
    was checked equal to the script's real output.
  \<^item> \<open>CoffeeBasic\<close>: \<open>src/setup/test/coffee_store_basic.py\<close>, a top-level
    script: the menu dict (\<open>basic_menu\<close>, \<open>basic_show_menu\<close>), the
    choice (\<open>select_item\<close>), the ordering loop with its item and quantity
    prompts (\<open>basic_order_loop\<close>, \<open>basic_order_qty\<close>; lines 35--95, the
    order updated by \<open>Coffee.add_line\<close> and an unrounded running total), the
    receipt and the dump of the first order line (\<open>basic_receipt\<close>,
    \<open>basic_line_repr\<close>), and the whole script (\<open>coffee_basic\<close>), whose
    result is the lines printed and the exception it ended with. Its output on
    five sessions was checked equal to the script's.

  \<^emph>\<open>Termination.\<close> The script's outer loop has no bound, so \<open>tool_loop\<close> is a
  \<open>partial_function (option)\<close> and \<open>None\<close> is a run that never ends. No fuel
  is chosen: that the loop returns is proved from the environment
  (\<open>call_triage_llm_with_tools_returns\<close>: once the model stops requesting tools
  at call \<open>k\<close>, the run returns after at most \<open>k + 1\<close> calls), and that it
  may not return is proved as well (\<open>tool_loop_diverges\<close>).

  \<^emph>\<open>What is proved\<close> (claims C1--C14, in \<open>ToolCalling\<close> and below): the log
  sent to the model is always settled (C1); returns and the bound on round trips
  (C2); divergence without an iteration guard (C3); unknown tools never raise and
  the loop continues (C4); one tool message per call, in order (C5); one alert and
  one uuid per escalation (C6); malformed arguments raise (C7); the stored ticket
  id is the absent argument, not the generated one (C8); no retry of a failed
  first call (C9); a first answer without tool calls ends the run (C10); the
  report always prints \<open>(none)\<close> (C11); the tickets of the alerts are the
  uuid draws of the run, one per escalation, in order (C12); the message log only
  grows, and the model is called once more than the log holds assistant turns
  (C13); \<open>main\<close> hands the token ceiling typed at its prompt to the
  run unchanged, for every integer, zero and negatives included (C24, resting on
  the round trip \<open>py_int_int_str\<close>: \<open>int(str(n)) == n\<close>, in
  \<open>PyBase\<close>). The lemmas behind them: frame lemmas for each operation
  (\<open>process_tool_call_frame\<close>, \<open>record_result_frame\<close>,
  \<open>dispatch_calls_Inr\<close>), and a Hoare-style rule for the outer loop
  (\<open>tool_loop_rule\<close>) proved once by fixpoint induction; C12 and C13 apply
  it to the loop invariants \<open>alerts_drawn\<close> and the log-and-count invariant.

  For the JSON-mode workflow (claims C15--C21 and C23, in \<open>Triage\<close> and below): exactly
  one e-mail when the upper-cased severity is ALERT or CRISIS, none otherwise
  (C15); the triaged dict always has its three keys and a list of actions (C16),
  and is the model's object with defaults filled in (C17); the triage call fails
  only by \<open>sys.exit(1)\<close> or the \<open>TypeError\<close> of an empty reply (C18); after
  it, only the real e-mail of an escalation can raise (\<open>send_real_email\<close>:
  \<open>json.loads\<close> of the receiver, then the post, whose \<open>requests\<close>
  exceptions and \<open>response.json()\<close> are the environment's
  \<open>t_post_email\<close>), so with \<open>USE_REAL_EMAIL = False\<close> as shipped nothing
  after the triage call raises (C19); the order of the workflow's steps (C20);
  \<open>main\<close> falls back to the default of each unreadable setting with one
  warning each (C21) and raises only the console's exceptions, before its third
  line, or the workflow's (C23). They rest on \<open>map_of_normalize_triage\<close> (the dict
  after the defaults, key by key) and \<open>run_workflow_eq\<close> (the workflow in
  closed form).

  For the chat scripts (claims C25--C34, in \<open>ChatLoop\<close> and below): the log
  is always the system prompt followed by user/assistant pairs, and so is every
  request sent (C25); a failed call pops the user's line (C26); a reset forgets
  the conversation (C27); the loop returns exactly when the console holds an exit
  word or Ctrl-C (C28) and otherwise raises only \<open>EOFError\<close> (C29); one call per
  line sent (C30); \<open>exercise4.py\<close> keeps the conversation (C31) and
  \<open>exercise3.py\<close> does not (C32); \<open>show history\<close> prints the system
  prompt and then alternating user and assistant lines (C33, from
  \<open>chat_pairs_roles\<close>); \<open>exercise3.py\<close> stops at the first empty, blank
  or unpadded \<open>quit\<close> line, after one request per earlier line (C34). They rest
  on \<open>chat_turn_inv\<close> and \<open>chat_loop_Line_Inr\<close> (the states a line can
  lead to), with induction on the console.
  For the single-prompt scripts: \<open>improved_it_support_json\<close> returns exactly
  what the reply parses to (C35).

  For the coffee store: \<open>add_to_order\<close> refines adding to a map from item to
  quantity (C37); the printed menu numbers read back as their items (C38); the
  float totals of the order are exact products, so its arithmetic agrees with
  exact arithmetic (C39); on an ASCII console the store fails only by its
  console's \<open>EOFError\<close>, or \<open>KeyboardInterrupt\<close> at the name prompt,
  never by \<open>KeyError\<close> (C40, from \<open>parse_choice_key\<close>: every accepted
  choice is a menu key). They rest on \<open>order_qty_add_line_at\<close>,
  \<open>nat_str_digits\<close> (in \<open>PyBase\<close>) and \<open>line_total_exact\<close> (in
  \<open>PyFloat\<close>).

  For the beginner store (in \<open>CoffeeBasic\<close> and below): the receipt adds
  up, every line total being quantity times menu price and the printed total due
  the sum of the line totals, for fewer than \<open>2^48\<close> items (C14); the order
  has at most one line per menu item, whatever the menu (C22); on an ASCII
  console the script ends only normally, by \<open>SystemExit(0)\<close> on an empty
  order, or by the console's \<open>EOFError\<close>/\<open>KeyboardInterrupt\<close>, never by
  \<open>KeyError\<close> or \<open>ValueError\<close> (C36); a session printed exactly as Python prints it
  (\<open>scenario_basic_receipt\<close>). C14 rests on the
  invariant \<open>basic_inv\<close> (each line consistent, the running total exactly
  the sum of the lines), preserved by one addition (\<open>basic_inv_add\<close>) and,
  by mutual induction on the two prompts, by the loop
  (\<open>basic_order_inv_mutual\<close>); the bound \<open>2^48\<close> keeps every quarter
  multiple below \<open>2^53\<close>, where \<open>to_double\<close> is exact.

  \<^emph>\<open>Regression scenarios.\<close> The spec's scenarios, run on their concrete
  inputs (\<open>scenario_escalate\<close>, \<open>scenario_unknown_tool\<close>,
  \<open>scenario_json_crisis\<close>, \<open>scenario_chat_session\<close>,
  \<open>scenario_basic_quit_padded\<close>, \<open>scenario_coffee_receipt\<close>, ...), are
  regression checks of the model against the script's real output, not claims.

  \<^emph>\<open>Fixtures.\<close> The witnesses and scenarios below run the model on scripted
  environments: \<open>scripted_env tcs\<close> answers the first call with the tool calls
  \<open>tcs\<close> and every later call with a final answer; \<open>stub_codec\<close> is a
  \<open>json\<close> stand-in that parses the few strings the scenarios exchange;
  \<open>json_env reply\<close> answers every JSON-mode call with \<open>reply\<close>, with the
  simulated e-mail; \<open>mail_env\<close> turns the real e-mail on with an API that
  refuses the connection; \<open>chat_s1\<close> is a chat state after one exchange;
  \<open>echo_env\<close> and \<open>flaky_env\<close> are chat models, the second failing its
  second call.
  \<open>coffee_session\<close> is an order of three items in the store,
  \<open>basic_session\<close> one in the beginner store with every rejection path.

  \<^emph>\<open>Termination of the chat loops.\<close> \<open>chat_loop\<close> and \<open>basic_loop\<close>
  recurse on the console, which is finite, so they are total \<open>fun\<close>s; that the
  script itself returns rather than raises is the property C28.

  \<^emph>\<open>Not modelled.\<close> In the triage scripts, console output other than the
  banners and messages of \<open>main\<close>, the escalation alerts, the report and the
  workflow steps; the HTTP exchange of \<open>_send_real_email\<close> beyond its
  outcome (\<open>t_post_email\<close> returns the response's JSON or the exception of
  \<open>requests.post\<close> or \<open>response.json()\<close>); credential loading (\<open>common.bc_config\<close>, not in the repository); the
  HTTP transport and the real \<open>json\<close> library; floats other than as opaque
  configuration values (the temperature), except in the coffee store, where they
  are modelled exactly; subnormal floats and overflow, which no script reaches;
  the text of \<open>input()\<close> prompts (the console output modelled is what
  \<open>print\<close> writes); strings are byte lists, which agree with Python's
  \<open>str\<close> methods on ASCII text only: the claims about digit parsing (C36,
  C40) assume an ASCII console (\<open>PyBase.ascii_in\<close>), and what a Unicode
  digit does is a finding, not a theorem.

  \<^emph>\<open>Evaluation.\<close> Witnesses and scenarios evaluate with \<open>code_simp\<close>.
  \<open>Coffee.order_item_code\<close> is a proved, evaluation-friendly form of
  \<open>order_item\<close> declared as its code equation: it keeps the simplifier from
  unfolding the rest of the loop on a symbolic order; \<open>CoffeeBasic.coffee_basic_code\<close>
  does the same for the beginner script.
\<close>

section \<open>Scenario fixtures\<close>

definition cfg_default :: triage_config where
  "cfg_default = \<lparr>deployment = ''gpt-4o-mini'', temperature = 0.2, max_tokens = 500\<rparr>"

definition escalate_args :: string where
  \<open>escalate_args = ''{"summary": "DB outage", "severity": "CRISIS", "actions": ["page oncall"]}''\<close>

definition escalate_input :: jval where
  "escalate_input = JObj [(''summary'', JStr ''DB outage''), (''severity'', JStr ''CRISIS''),
                          (''actions'', JArr [JStr ''page oncall''])]"

definition stub_codec :: json_codec where
  "stub_codec =
     \<lparr>loads = (\<lambda>s. if s = ''{}'' then Some (JObj [])
                 else if s = escalate_args then Some escalate_input
                 else if s = py_repr (escalation_result ''TICKET-ABC123'' (JStr ''CRISIS''))
                 then Some (escalation_result ''TICKET-ABC123'' (JStr ''CRISIS''))
                 else None),
      dumps = py_repr\<rparr>"

definition escalate_call :: tool_call where
  "escalate_call = \<lparr>tc_id = ''call_1'', tc_name = ''escalate_crisis'', tc_args = escalate_args\<rparr>"

definition reboot_call :: tool_call where
  "reboot_call = \<lparr>tc_id = ''call_1'', tc_name = ''reboot_server'', tc_args = ''{}''\<rparr>"

definition malformed_call :: tool_call where
  "malformed_call = \<lparr>tc_id = ''call_1'', tc_name = ''escalate_crisis'', tc_args = ''{not json''\<rparr>"

definition answer :: "tool_call list \<Rightarrow> completion" where
  "answer tcs = \<lparr>cm_content = None, cm_tool_calls = tcs\<rparr>"

definition final_answer :: completion where
  \<open>final_answer = \<lparr>cm_content = Some ''{"summary": "DB outage", "severity": "CRISIS", "actions": []}'',
                   cm_tool_calls = []\<rparr>\<close>

definition scripted_env :: "tool_call list \<Rightarrow> tool_env" where
  "scripted_env tcs =
     \<lparr>llm = (\<lambda>k req. if k = 0 then ApiOk (answer tcs) else ApiOk final_answer),
      uuid_hex = (\<lambda>_. ''abc123ef4567''), codec = stub_codec\<rparr>"

definition looping_env :: tool_env where
  "looping_env =
     \<lparr>llm = (\<lambda>k req. ApiOk (answer [reboot_call])), uuid_hex = (\<lambda>_. ''abc123ef4567''), codec = stub_codec\<rparr>"

definition down_env :: tool_env where
  "down_env =
     \<lparr>llm = (\<lambda>k req. ApiError ''503 Service Unavailable''), uuid_hex = (\<lambda>_. ''abc123ef4567''), codec = stub_codec\<rparr>"

definition incident :: string where
  "incident = ''Production database is down''"

definition s_start :: loop_state where
  "s_start = initial_state (tools_initial_messages incident)"

text \<open>
  The JSON-mode workflow of \<open>exercise7.py\<close>: a model that answers the
  spec's CRISIS object at once, one that answers a lower-case ALERT with a single
  action as a string and no summary, and one whose reply has no content.
\<close>

definition alert_reply :: string where
  \<open>alert_reply = ''{"severity": "alert", "actions": "page oncall"}''\<close>

text \<open>
  The receiver setting of the real e-mail path, a JSON string, and an
  environment whose real e-mail API refuses the connection.
\<close>

definition receiver_json :: string where
  "receiver_json = [CHR 0x22] @ ''oncall@example.com'' @ [CHR 0x22]"

definition triage_codec :: json_codec where
  "triage_codec =
     \<lparr>loads = (\<lambda>s. if s = escalate_args then Some escalate_input
                 else if s = receiver_json then Some (JStr ''oncall@example.com'')
                 else if s = alert_reply
                 then Some (JObj [(''severity'', JStr ''alert''), (''actions'', JStr ''page oncall'')])
                 else None),
      dumps = py_repr\<rparr>"

definition json_env :: "string option \<Rightarrow> triage_env" where
  "json_env reply =
     \<lparr>t_llm = (\<lambda>req. ApiOk \<lparr>cm_content = reply, cm_tool_calls = []\<rparr>),
      t_uuid_hex = (\<lambda>_. ''abc123ef4567''), t_codec = triage_codec, use_real_email = False,
      t_email_receiver = [], t_post_email = (\<lambda>_. Inr JNull)\<rparr>"

definition mail_env :: triage_env where
  "mail_env = (json_env (Some escalate_args))
     \<lparr>use_real_email := True, t_email_receiver := receiver_json,
      t_post_email := (\<lambda>_. Inl (RequestException ''connection refused''))\<rparr>"

text \<open>
  The chat scripts: a model that always answers, and one whose second call
  fails; a console session with padding, a history request, a failing turn, a
  reset in capitals, a blank line and \<open>Quit\<close>.
\<close>

definition reply_text :: completion where
  "reply_text = \<lparr>cm_content = Some ''Try restarting.'', cm_tool_calls = []\<rparr>"

definition echo_env :: chat_env where
  "echo_env = \<lparr>chat_llm = (\<lambda>k rq. ApiOk reply_text), chat_deployment = ''gpt-4o-mini''\<rparr>"

definition flaky_env :: chat_env where
  "flaky_env =
     \<lparr>chat_llm = (\<lambda>k rq. if k = 1 then ApiError ''timeout'' else ApiOk reply_text),
      chat_deployment = ''gpt-4o-mini''\<rparr>"

definition chat_s1 :: chat_state where
  "chat_s1 =
     \<lparr>ch_messages = [plain_msg System default_system_prompt, plain_msg User ''Printer jams'',
                    assistant_reply_msg (Some ''Try restarting.'')],
      ch_calls = 1,
      ch_requests = [plain_request ''gpt-4o-mini'' [plain_msg System default_system_prompt, plain_msg User ''Printer jams'']],
      ch_out = [chat_banner]\<rparr>"

definition session :: "console_in list" where
  "session = [Line ''  My computer is slow '', Line ''show history'', Line ''It got worse'', Line ''RESET'',
              Line ''Printer jams'', Line [], Line ''Quit'']"

text \<open>
  The coffee store: the session of an order of three Americanos, two Lattes
  (typed \<open>latte\<close>) and one Cappuccino (typed \<open>cap\<close>), then \<open>quit\<close>.
\<close>

definition coffee_session :: "console_in list" where
  "coffee_session = [Line ''Ana'', Line ''2'', Line ''3'', Line ''latte'', Line ''2'', Line ''cap'', Line ''1'', Line ''quit'']"

text \<open>
  The beginner store: three Americanos by number, two Lattes by name and one
  more as \<open>LATTE\<close> (merged into the same line), then the item inputs
  \<open>9\<close> (no such number), \<open>cap\<close> and \<open>x\<close> (no such name) and \<open>0\<close>
  (no such number), then a Tea and \<open>quit\<close>.
\<close>

definition basic_session :: "console_in list" where
  "basic_session = [Line ''Ana'', Line ''2'', Line ''3'', Line ''latte'', Line ''2'', Line ''LATTE'', Line ''1'', Line ''9'', Line ''cap'', Line ''x'', Line ''0'', Line ''tea'', Line ''1'', Line ''quit'']"

lemmas fixture_defs = scripted_env_def looping_env_def down_env_def answer_def final_answer_def
  escalate_call_def reboot_call_def malformed_call_def

section \<open>Witnesses of the tool-calling properties\<close>

theorem tool_loop_settled_witness:
  "\<exists>s'. tool_loop (scripted_env [escalate_call]) cfg_default (answer [escalate_call]) s_start = Some (Inr s') \<and>
     ids_distinct_env (scripted_env [escalate_call]) \<and> distinct (map tc_id (cm_tool_calls (answer [escalate_call]))) \<and>
     log_settled (messages s_start) \<and> log_settled (messages s')"
proof -
  have "case tool_loop (scripted_env [escalate_call]) cfg_default (answer [escalate_call]) s_start of
          Some (Inr _) \<Rightarrow> True | _ \<Rightarrow> False"
    by code_simp
  then obtain s' where run: "tool_loop (scripted_env [escalate_call]) cfg_default (answer [escalate_call]) s_start = Some (Inr s')"
    by (auto split: option.splits sum.splits)
  have env: "ids_distinct_env (scripted_env [escalate_call])"
    by (simp add: ids_distinct_env_def fixture_defs)
  have ids: "distinct (map tc_id (cm_tool_calls (answer [escalate_call])))"
    by (simp add: answer_def)
  have st: "log_settled (messages s_start)"
    by code_simp
  from tool_loop_settled [OF run env ids st] run env ids st show ?thesis by blast
qed


theorem call_triage_llm_with_tools_returns_witness:
  "(\<forall>req. stops (llm (scripted_env [escalate_call]) 1 req)) \<and>
   (\<exists>res. call_triage_llm_with_tools (scripted_env [escalate_call]) cfg_default incident = Some res \<and>
          (\<forall>s'. res = Inr s' \<longrightarrow> n_calls s' \<le> 2))"
proof -
  have h: "\<forall>req. stops (llm (scripted_env [escalate_call]) 1 req)"
    by (simp add: stops_def fixture_defs)
  from call_triage_llm_with_tools_returns [OF h, where cfg = cfg_default and d = incident] h
  show ?thesis by (simp add: numeral_2_eq_2)
qed

theorem tool_loop_diverges_witness:
  "(\<forall>k req. \<exists>c. llm looping_env k req = ApiOk c \<and> unknown_calls looping_env (cm_tool_calls c)) \<and>
   unknown_calls looping_env (cm_tool_calls (answer [reboot_call])) \<and>
   tool_loop looping_env cfg_default (answer [reboot_call]) s_start = None"
proof -
  have u: "unknown_calls looping_env (cm_tool_calls (answer [reboot_call]))"
    by (simp add: unknown_calls_def fixture_defs stub_codec_def)
  then have h: "\<forall>k req. \<exists>c. llm looping_env k req = ApiOk c \<and> unknown_calls looping_env (cm_tool_calls c)"
    by (simp add: looping_env_def)
  from tool_loop_diverges [OF h u] h u show ?thesis by blast
qed

theorem tool_loop_unknown_continues_witness:
  "unknown_calls (scripted_env [reboot_call]) (cm_tool_calls (answer [reboot_call])) \<and>
   (\<exists>s2. dispatch_calls (scripted_env [reboot_call]) (cm_tool_calls (answer [reboot_call]))
                (append_assistant (answer [reboot_call]) s_start) = Inr s2 \<and>
         messages s2 = messages (append_assistant (answer [reboot_call]) s_start) @
                       map (unknown_tool_msg (scripted_env [reboot_call])) (cm_tool_calls (answer [reboot_call])))"
proof -
  have u: "unknown_calls (scripted_env [reboot_call]) (cm_tool_calls (answer [reboot_call]))"
    by (simp add: unknown_calls_def fixture_defs stub_codec_def)
  from tool_loop_unknown_continues [OF u, where cfg = cfg_default and s = s_start] u
  show ?thesis by blast
qed

theorem dispatch_calls_order_witness:
  "\<exists>s'. dispatch_calls (scripted_env [escalate_call]) [escalate_call] s_start = Inr s' \<and>
     (\<exists>rs. length rs = 1 \<and> messages s' = messages s_start @ map2 tool_result_msg [''call_1''] rs)"
proof -
  have "case dispatch_calls (scripted_env [escalate_call]) [escalate_call] s_start of Inr _ \<Rightarrow> True | _ \<Rightarrow> False"
    by code_simp
  then obtain s' where d: "dispatch_calls (scripted_env [escalate_call]) [escalate_call] s_start = Inr s'"
    by (auto split: sum.splits)
  from dispatch_calls_order [OF d] d show ?thesis by (simp add: escalate_call_def)
qed

theorem dispatch_calls_escalations_witness:
  "\<exists>s'. dispatch_calls (scripted_env [escalate_call]) [escalate_call] s_start = Inr s' \<and>
     length (effects s') = 1 \<and> n_uuids s' = 1"
proof -
  have "case dispatch_calls (scripted_env [escalate_call]) [escalate_call] s_start of Inr _ \<Rightarrow> True | _ \<Rightarrow> False"
    by code_simp
  then obtain s' where d: "dispatch_calls (scripted_env [escalate_call]) [escalate_call] s_start = Inr s'"
    by (auto split: sum.splits)
  have "effects s_start = [] \<and> n_uuids s_start = 0"
    by (simp add: s_start_def initial_state_def)
  with dispatch_calls_escalations [OF d] d show ?thesis by (simp add: escalate_call_def)
qed

theorem tool_loop_malformed_args_witness:
  "cm_tool_calls (answer [malformed_call]) = [malformed_call] \<and>
   loads (codec (scripted_env [malformed_call])) (tc_args malformed_call) = None \<and>
   tool_loop (scripted_env [malformed_call]) cfg_default (answer [malformed_call]) s_start = Some (Inl JSONDecodeError)"
proof -
  have c: "cm_tool_calls (answer [malformed_call]) = malformed_call # []"
    by (simp add: answer_def)
  have l: "loads (codec (scripted_env [malformed_call])) (tc_args malformed_call) = None"
    by code_simp
  from tool_loop_malformed_args [OF c l] c l show ?thesis by simp
qed

theorem call_tool_escalate_ticket_witness:
  "tc_name escalate_call = ''escalate_crisis'' \<and>
   loads (codec (scripted_env [escalate_call])) (tc_args escalate_call) =
     Some (JObj [(''summary'', JStr ''DB outage''), (''severity'', JStr ''CRISIS''), (''actions'', JArr [JStr ''page oncall''])]) \<and>
   (\<exists>s'. call_tool (scripted_env [escalate_call]) escalate_call s_start = Inr s' \<and>
     dict_get (result_data s') ''escalated'' JNull = escalation_result ''TICKET-ABC123'' (JStr ''CRISIS'') \<and>
     dict_get (result_data s') ''ticket_id'' JNull = JNull)"
proof -
  let ?d = "[(''summary'', JStr ''DB outage''), (''severity'', JStr ''CRISIS''), (''actions'', JArr [JStr ''page oncall''])]"
  have n: "tc_name escalate_call = ''escalate_crisis''" by (simp add: escalate_call_def)
  have l: "loads (codec (scripted_env [escalate_call])) (tc_args escalate_call) = Some (JObj ?d)"
    by (simp add: fixture_defs stub_codec_def escalate_input_def escalate_args_def)
  have t: "map_of ?d ''ticket_id'' = None" by simp
  have a: "py_iter (dict_get ?d ''actions'' (JArr [])) = Inr [JStr ''page oncall'']" by (simp add: dict_get_def)
  have tid: "ticket_id_of (uuid_hex (scripted_env [escalate_call]) (n_uuids s_start)) = ''TICKET-ABC123''"
    by code_simp
  have sev: "dict_get ?d ''severity'' (JStr []) = JStr ''CRISIS''" by (simp add: dict_get_def)
  have rt: "loads (codec (scripted_env [escalate_call])) (dumps (codec (scripted_env [escalate_call]))
              (escalation_result (ticket_id_of (uuid_hex (scripted_env [escalate_call]) (n_uuids s_start)))
                (dict_get ?d ''severity'' (JStr [])))) =
            Some (escalation_result (ticket_id_of (uuid_hex (scripted_env [escalate_call]) (n_uuids s_start)))
                (dict_get ?d ''severity'' (JStr [])))"
    unfolding tid sev by code_simp
  from call_tool_escalate_ticket [OF n l t a rt] n l show ?thesis unfolding tid sev by simp
qed

theorem call_triage_first_call_fails_witness:
  "llm down_env 0 (tools_request cfg_default (tools_initial_messages incident)) = ApiError ''503 Service Unavailable'' \<and>
   call_triage_llm_with_tools down_env cfg_default incident = Some (Inl (SystemExit 1))"
proof -
  have h: "llm down_env 0 (tools_request cfg_default (tools_initial_messages incident)) = ApiError ''503 Service Unavailable''"
    by (simp add: down_env_def)
  from call_triage_first_call_fails [OF h] h show ?thesis by simp
qed

theorem call_triage_no_tool_calls_witness:
  "llm (scripted_env []) 0 (tools_request cfg_default (tools_initial_messages incident)) = ApiOk (answer []) \<and>
   cm_tool_calls (answer []) = [] \<and>
   call_triage_llm_with_tools (scripted_env []) cfg_default incident = Some (Inr s_start)"
proof -
  have h1: "llm (scripted_env []) 0 (tools_request cfg_default (tools_initial_messages incident)) = ApiOk (answer [])"
    by (simp add: scripted_env_def)
  have h2: "cm_tool_calls (answer []) = []" by (simp add: answer_def)
  from call_triage_no_tool_calls [OF h1 h2] h1 h2 show ?thesis by (simp add: s_start_def)
qed

theorem run_workflow_reports_none_witness:
  "\<exists>s lines. call_triage_llm_with_tools (scripted_env [escalate_call]) cfg_default incident = Some (Inr s) \<and>
     run_workflow_with_function_calling (scripted_env [escalate_call]) cfg_default incident = Some (Inr lines) \<and>
     lines ! 1 = ''Summary : (none)''"
proof -
  have "case call_triage_llm_with_tools (scripted_env [escalate_call]) cfg_default incident of
          Some (Inr _) \<Rightarrow> True | _ \<Rightarrow> False"
    by code_simp
  then obtain s where run: "call_triage_llm_with_tools (scripted_env [escalate_call]) cfg_default incident = Some (Inr s)"
    by (auto split: option.splits sum.splits)
  from run_workflow_reports_none [OF run] run show ?thesis by blast
qed

theorem tool_loop_alert_tickets_witness:
  "\<exists>s. call_triage_llm_with_tools (scripted_env [escalate_call]) cfg_default incident = Some (Inr s) \<and>
     n_uuids s = 1 \<and>
     map effect_ticket (effects s) = map (ticket_id_of \<circ> uuid_hex (scripted_env [escalate_call])) [0..<n_uuids s]"
proof -
  have "case call_triage_llm_with_tools (scripted_env [escalate_call]) cfg_default incident of
          Some (Inr s) \<Rightarrow> n_uuids s = 1 | _ \<Rightarrow> False"
    by code_simp
  then obtain s where r: "call_triage_llm_with_tools (scripted_env [escalate_call]) cfg_default incident = Some (Inr s)"
    and n: "n_uuids s = 1"
    by (auto split: option.splits sum.splits)
  from ToolCalling.tool_loop_alert_tickets [OF r] r n show ?thesis by blast
qed

theorem tool_loop_log_calls_witness:
  "\<exists>s. call_triage_llm_with_tools (scripted_env [escalate_call]) cfg_default incident = Some (Inr s) \<and>
     n_calls s = 2 \<and> (\<exists>rest. messages s = tools_initial_messages incident @ rest) \<and>
     n_calls s = Suc (n_assistant (messages s))"
proof -
  have "case call_triage_llm_with_tools (scripted_env [escalate_call]) cfg_default incident of
          Some (Inr s) \<Rightarrow> n_calls s = 2 | _ \<Rightarrow> False"
    by code_simp
  then obtain s where r: "call_triage_llm_with_tools (scripted_env [escalate_call]) cfg_default incident = Some (Inr s)"
    and n: "n_calls s = 2"
    by (auto split: option.splits sum.splits)
  from ToolCalling.tool_loop_log_calls [OF r] r n show ?thesis by blast
qed

section \<open>Witnesses of the JSON-mode workflow properties\<close>

theorem run_workflow_raises_witness:
  "run_workflow mail_env cfg_default incident = Inl (RequestException ''connection refused'') \<and>
   (\<exists>data. call_triage_llm mail_env cfg_default incident = Inr data \<and>
      severity_label data \<in> set escalation_severities \<and> use_real_email mail_env \<and>
      send_real_email mail_env (fst (escalation_mail (ticket_id_of (t_uuid_hex mail_env 0)) data))
        (py_join [CHR 0x0A] (snd (escalation_mail (ticket_id_of (t_uuid_hex mail_env 0)) data))) =
        Inl (RequestException ''connection refused''))"
proof -
  have r: "run_workflow mail_env cfg_default incident = Inl (RequestException ''connection refused'')"
    by code_simp
  have "case call_triage_llm mail_env cfg_default incident of Inl _ \<Rightarrow> False | Inr _ \<Rightarrow> True"
    by code_simp
  then have c: "\<forall>e. call_triage_llm mail_env cfg_default incident \<noteq> Inl e"
    by (auto split: sum.splits)
  from Triage.run_workflow_raises [THEN iffD1, OF r] r c show ?thesis by auto
qed


theorem triage_main_raises_witness:
  "triage_main (json_env (Some escalate_args)) ''gpt-4o-mini'' (\<lambda>_. None) [Line incident, Line []] = Inl EOFError \<and>
   (((EOFError = EOFError \<or> EOFError = KeyboardInterrupt) \<and>
     \<not> (\<exists>d t k rest. [Line incident, Line []] = Line d # Line t # Line k # rest)) \<or>
    (\<exists>cfg d. deployment cfg = ''gpt-4o-mini'' \<and> hd [Line incident, Line []] = Line d \<and> py_strip d \<noteq> [] \<and>
       run_workflow (json_env (Some escalate_args)) cfg (py_strip d) = Inl EOFError))"
proof -
  have r: "triage_main (json_env (Some escalate_args)) ''gpt-4o-mini'' (\<lambda>_. None) [Line incident, Line []] = Inl EOFError"
    by code_simp
  from Triage.triage_main_raises [OF r] r show ?thesis by blast
qed

theorem run_workflow_email_once_witness:
  "\<exists>data tid score s. call_triage_llm (json_env (Some escalate_args)) cfg_default incident = Inr data \<and>
     run_workflow (json_env (Some escalate_args)) cfg_default incident = Inr (tid, score, s) \<and>
     length (filter is_email (wf_events s)) = 1"
proof -
  have "case (call_triage_llm (json_env (Some escalate_args)) cfg_default incident,
              run_workflow (json_env (Some escalate_args)) cfg_default incident) of
          (Inr data, Inr (tid, score, s)) \<Rightarrow> severity_label data \<in> set escalation_severities | _ \<Rightarrow> False"
    by code_simp
  then obtain data tid score s where
    c: "call_triage_llm (json_env (Some escalate_args)) cfg_default incident = Inr data" and
    r: "run_workflow (json_env (Some escalate_args)) cfg_default incident = Inr (tid, score, s)" and
    e: "severity_label data \<in> set escalation_severities"
    by (auto split: sum.splits prod.splits)
  from Triage.run_workflow_email_once [OF c r] c r e show ?thesis by auto
qed

theorem call_triage_llm_normalized_witness:
  "\<exists>data. call_triage_llm (json_env (Some alert_reply)) cfg_default incident = Inr data \<and>
     (\<exists>v. map_of data ''summary'' = Some v) \<and> (\<exists>acts. map_of data ''actions'' = Some (JArr acts))"
proof -
  have "case call_triage_llm (json_env (Some alert_reply)) cfg_default incident of Inr _ \<Rightarrow> True | _ \<Rightarrow> False"
    by code_simp
  then obtain data where c: "call_triage_llm (json_env (Some alert_reply)) cfg_default incident = Inr data"
    by (auto split: sum.splits)
  from Triage.call_triage_llm_normalized [OF c] c show ?thesis by blast
qed

theorem call_triage_llm_reply_witness:
  "\<exists>data. call_triage_llm (json_env (Some alert_reply)) cfg_default incident = Inr data \<and>
     map_of data ''actions'' = Some (JArr [JStr ''page oncall'']) \<and>
     map_of data ''summary'' = Some (JStr ''(no summary)'') \<and> map_of data ''severity'' = Some (JStr ''alert'')"
proof -
  let ?r = "\<lparr>cm_content = Some alert_reply, cm_tool_calls = []\<rparr>"
  let ?d = "[(''severity'', JStr ''alert''), (''actions'', JStr ''page oncall'')]"
  have h1: "t_llm (json_env (Some alert_reply))
              (json_request cfg_default (build_messages (t_codec (json_env (Some alert_reply))) incident)) = ApiOk ?r"
    by (simp add: json_env_def)
  have h2: "cm_content ?r = Some alert_reply" by simp
  have h3: "loads (t_codec (json_env (Some alert_reply))) alert_reply = Some (JObj ?d)"
    by code_simp
  from Triage.call_triage_llm_reply [OF h1 h2 h3] have
    "\<exists>data. call_triage_llm (json_env (Some alert_reply)) cfg_default incident = Inr data \<and>
       map_of data = [''summary'' \<mapsto> JStr ''(no summary)'', ''severity'' \<mapsto> JStr ''alert'',
                      ''actions'' \<mapsto> JArr [JStr ''page oncall'']]"
    by simp
  then obtain data where
    c: "call_triage_llm (json_env (Some alert_reply)) cfg_default incident = Inr data" and
    m: "map_of data = [''summary'' \<mapsto> JStr ''(no summary)'', ''severity'' \<mapsto> JStr ''alert'',
                       ''actions'' \<mapsto> JArr [JStr ''page oncall'']]"
    by blast
  from c m show ?thesis by simp
qed

theorem call_triage_llm_errors_witness:
  "call_triage_llm (json_env None) cfg_default incident = Inl TypeError \<and>
   (\<exists>r. t_llm (json_env None) (json_request cfg_default (build_messages (t_codec (json_env None)) incident)) = ApiOk r \<and>
        cm_content r = None)"
proof -
  have c: "call_triage_llm (json_env None) cfg_default incident = Inl TypeError"
    by (simp add: call_triage_llm_def json_env_def)
  from Triage.call_triage_llm_errors [OF c] c show ?thesis by simp
qed

theorem run_workflow_steps_witness:
  "\<exists>tid score s data. run_workflow (json_env (Some escalate_args)) cfg_default incident = Inr (tid, score, s) \<and>
     call_triage_llm (json_env (Some escalate_args)) cfg_default incident = Inr data \<and>
     tid = ''TICKET-ABC123'' \<and> score = 95 \<and> last (wf_events s) = DashboardUpdated"
proof -
  have "case run_workflow (json_env (Some escalate_args)) cfg_default incident of
          Inr (tid, score, s) \<Rightarrow> tid = ''TICKET-ABC123'' \<and> score = 95 | _ \<Rightarrow> False"
    by code_simp
  then obtain tid score s where
    r: "run_workflow (json_env (Some escalate_args)) cfg_default incident = Inr (tid, score, s)" and
    t: "tid = ''TICKET-ABC123''" and sc: "score = 95"
    by (auto split: sum.splits prod.splits)
  from Triage.run_workflow_steps [OF r] r t sc show ?thesis by auto
qed

section \<open>Witnesses of the chat-loop properties\<close>

theorem run_chat_loop_log_witness:
  "\<exists>s. run_chat_loop flaky_env None session = Inr s \<and> chat_inv flaky_env default_system_prompt s"
proof -
  have "case run_chat_loop flaky_env None session of Inr _ \<Rightarrow> True | _ \<Rightarrow> False"
    by code_simp
  then obtain s where r: "run_chat_loop flaky_env None session = Inr s"
    by (auto split: sum.splits)
  from ChatLoop.run_chat_loop_log [OF r] r show ?thesis by auto
qed

theorem chat_turn_error_pops_witness:
  "chat_llm flaky_env 1 (plain_request (chat_deployment flaky_env) ([plain_msg System default_system_prompt] @
      [plain_msg User ''It got worse''])) = ApiError ''timeout'' \<and>
   ch_messages (chat_turn flaky_env ''It got worse''
     \<lparr>ch_messages = [plain_msg System default_system_prompt], ch_calls = 1, ch_requests = [], ch_out = []\<rparr>) =
   [plain_msg System default_system_prompt]"
proof -
  let ?s = "\<lparr>ch_messages = [plain_msg System default_system_prompt], ch_calls = 1, ch_requests = [], ch_out = []\<rparr>"
  have h: "chat_llm flaky_env (ch_calls ?s) (plain_request (chat_deployment flaky_env) (ch_messages ?s @
      [plain_msg User ''It got worse''])) = ApiError ''timeout''"
    by (simp add: flaky_env_def)
  from ChatLoop.chat_turn_error_pops [OF h] h show ?thesis by simp
qed

theorem chat_reset_next_request_witness:
  "\<exists>s'. chat_loop echo_env ''Be brief.'' [Line ''RESET'', Line ''Printer jams'', Line ''q'']
          \<lparr>ch_messages = [plain_msg System ''Be brief.''], ch_calls = 0, ch_requests = [], ch_out = []\<rparr> = Inr s' \<and>
     ch_requests s' ! 0 = plain_request ''gpt-4o-mini'' [plain_msg System ''Be brief.'', plain_msg User ''Printer jams'']"
proof -
  let ?s = "\<lparr>ch_messages = [plain_msg System ''Be brief.''], ch_calls = 0, ch_requests = [], ch_out = []\<rparr>"
  have "case chat_loop echo_env ''Be brief.'' [Line ''RESET'', Line ''Printer jams'', Line ''q''] ?s of
          Inr _ \<Rightarrow> True | _ \<Rightarrow> False"
    by code_simp
  then obtain s' where r: "chat_loop echo_env ''Be brief.'' [Line ''RESET'', Line ''Printer jams'', Line ''q''] ?s = Inr s'"
    by (auto split: sum.splits)
  have h1: "py_lower (py_strip ''RESET'') = ''reset''" by code_simp
  have h2: "is_chat_line (py_strip ''Printer jams'')" by code_simp
  have h3: "py_strip ''Printer jams'' = ''Printer jams''" by code_simp
  from ChatLoop.chat_reset_next_request [OF h1 h2 r] r show ?thesis
    by (simp add: h3 echo_env_def)
qed

theorem run_chat_loop_calls_witness:
  "\<exists>s. run_chat_loop flaky_env None session = Inr s \<and> ch_calls s = 3"
proof -
  have "case run_chat_loop flaky_env None session of Inr _ \<Rightarrow> True | _ \<Rightarrow> False"
    by code_simp
  then obtain s where r: "run_chat_loop flaky_env None session = Inr s"
    by (auto split: sum.splits)
  have n: "length (filter sends (takeWhile (Not \<circ> chat_stop_input) session)) = 3"
    by code_simp
  from ChatLoop.run_chat_loop_calls [OF r] r n show ?thesis by auto
qed

theorem two_turns_memory_witness:
  "\<exists>ms rqs. two_turns echo_env = Inr (ms, rqs) \<and> log_settled ms \<and> length rqs = 2"
proof -
  have "case two_turns echo_env of Inr _ \<Rightarrow> True | _ \<Rightarrow> False"
    by code_simp
  then obtain ms rqs where r: "two_turns echo_env = Inr (ms, rqs)"
    by (auto split: sum.splits)
  from ChatLoop.two_turns_memory [OF r] r show ?thesis by auto
qed

theorem basic_loop_stateless_witness:
  "\<exists>rqs out. basic_loop echo_env 0 [Line ''My printer jams'', Line ''QUIT''] = Inr (rqs, out) \<and>
     (\<forall>rq \<in> set rqs. \<exists>l. rq = basic_request ''gpt-4o-mini'' l)"
proof -
  have "case basic_loop echo_env 0 [Line ''My printer jams'', Line ''QUIT''] of Inr _ \<Rightarrow> True | _ \<Rightarrow> False"
    by code_simp
  then obtain rqs out where r: "basic_loop echo_env 0 [Line ''My printer jams'', Line ''QUIT''] = Inr (rqs, out)"
    by (auto split: sum.splits)
  from ChatLoop.basic_loop_stateless [OF r] r show ?thesis by (auto simp: echo_env_def)
qed

theorem chat_history_lines_witness:
  "chat_inv echo_env default_system_prompt chat_s1 \<and> py_lower (py_strip '' Show History '') = ''show history'' \<and>
   (\<exists>hl. chat_loop echo_env default_system_prompt [Line '' Show History '', Line ''quit''] chat_s1 =
          chat_loop echo_env default_system_prompt [Line ''quit''] (chat_s1\<lparr>ch_out := ch_out chat_s1 @ hl\<rparr>) \<and>
        hd hl = ''system: '' @ default_system_prompt \<and> odd (length hl) \<and>
        (\<forall>i. 0 < i \<and> i < length hl \<longrightarrow> starts_with (if odd i then ''user: '' else ''assistant: '') (hl ! i)))"
proof -
  have i: "chat_inv echo_env default_system_prompt chat_s1" by code_simp
  have l: "py_lower (py_strip '' Show History '') = ''show history''" by code_simp
  from ChatLoop.chat_history_lines [OF i l, of "[Line ''quit'']"] i l show ?thesis by blast
qed

theorem basic_loop_stop_line_witness:
  "\<exists>rqs out. basic_loop echo_env 0 [Line ''Hi'', Line ''QUIT'', Line ''later''] = Inr (rqs, out) \<and>
     (\<exists>pre l rest. [Line ''Hi'', Line ''QUIT'', Line ''later''] = map Line pre @ Line l # rest \<and>
        (l = [] \<or> py_strip l = [] \<or> py_lower l = ''quit'') \<and>
        (\<forall>p \<in> set pre. p \<noteq> [] \<and> py_strip p \<noteq> [] \<and> py_lower p \<noteq> ''quit'') \<and>
        rqs = map (basic_request (chat_deployment echo_env)) pre \<and> last out = ''AI: bye.'')"
proof -
  have "case basic_loop echo_env 0 [Line ''Hi'', Line ''QUIT'', Line ''later''] of Inr _ \<Rightarrow> True | _ \<Rightarrow> False"
    by code_simp
  then obtain rqs out where r: "basic_loop echo_env 0 [Line ''Hi'', Line ''QUIT'', Line ''later''] = Inr (rqs, out)"
    by (auto split: sum.splits)
  from ChatLoop.basic_loop_stop_line [OF r] r show ?thesis by blast
qed

section \<open>Witnesses of the single-prompt properties\<close>

theorem improved_it_support_json_errors_witness:
  "improved_it_support_json echo_env stub_codec repair_problem = Inl JSONDecodeError"
proof -
  have r: "improved_it_support_json echo_env stub_codec repair_problem = Inl JSONDecodeError"
    by code_simp
  from SinglePrompt.improved_it_support_json_errors [OF r] r show ?thesis by simp
qed

section \<open>Witnesses of the coffee-store properties\<close>

theorem add_to_order_refines_witness:
  "\<exists>order'. add_to_order [] build_menu ''Latte'' 2 = Inr order' \<and> order_qty order' ''latte'' = 2"
proof -
  have "case add_to_order [] build_menu ''Latte'' 2 of Inr _ \<Rightarrow> True | _ \<Rightarrow> False"
    by code_simp
  then obtain order' where r: "add_to_order [] build_menu ''Latte'' 2 = Inr order'"
    by (auto split: sum.splits)
  have l: "py_lower ''Latte'' = ''latte''" by code_simp
  from Coffee.add_to_order_refines [OF r] r l show ?thesis
    by (auto simp: fun_eq_iff order_qty_def)
qed

theorem parse_choice_number_witness:
  "0 < (3::nat) \<and> 3 \<le> length build_menu \<and> parse_choice (nat_str 3) build_menu = Some ''Latte''"
proof -
  have h1: "0 < (3::nat)" by simp
  have h2: "3 \<le> length build_menu" by (simp add: build_menu_def)
  have f: "fst (build_menu ! (3 - 1)) = ''Latte''" by (simp add: build_menu_def)
  from Coffee.parse_choice_number [OF h1 h2] h1 h2 f show ?thesis by simp
qed

theorem add_to_order_exact_witness:
  "\<exists>order'. add_to_order [] build_menu ''Latte'' 2 = Inr order' \<and> exact_totals order'"
proof -
  have "case add_to_order [] build_menu ''Latte'' 2 of Inr o' \<Rightarrow> list_all (\<lambda>l. \<bar>ol_qty l\<bar> < 2 ^ 48) o' | _ \<Rightarrow> False"
    by code_simp
  then obtain order' where r: "add_to_order [] build_menu ''Latte'' 2 = Inr order'"
    and b: "list_all (\<lambda>l. \<bar>ol_qty l\<bar> < 2 ^ 48) order'"
    by (auto split: sum.splits)
  have e: "exact_totals []" by (simp add: exact_totals_def)
  from Coffee.add_to_order_exact [OF e r b] r show ?thesis by blast
qed


section \<open>The spec's scenarios on concrete inputs\<close>

text \<open>
  Regression checks: each scenario of the spec, run through the model on its
  concrete input and compared with what the script prints.
\<close>

text \<open>
  The spec's escalation scenario: the model requests \<open>escalate_crisis\<close> for
  "Production database is down" and then answers without tool calls. The run ends
  normally after two calls to the model, prints one alert for \<open>TICKET-ABC123\<close>,
  and returns a dict holding the handler's result and, under \<open>"ticket_id"\<close>,
  \<open>None\<close>.
\<close>

theorem scenario_escalate:
  "map_option (map_sum id (\<lambda>s. (result_data s, effects s, n_calls s)))
     (call_triage_llm_with_tools (scripted_env [escalate_call]) cfg_default incident) =
   Some (Inr ([(''escalated'', escalation_result ''TICKET-ABC123'' (JStr ''CRISIS'')), (''ticket_id'', JNull)],
              [Escalation ''TICKET-ABC123'' ''[CRISIS] TICKET-ABC123 - DB outage''
                 [''Incident ID: TICKET-ABC123'', ''Severity   : CRISIS'', [], ''Required Actions:'',
                  ''  1. page oncall'']],
              2))"
  by code_simp

text \<open>
  The spec's unknown-tool scenario: the model requests \<open>reboot_server\<close>,
  which is not declared. The run does not abort: the last message is the tool
  message \<open>{'error': 'Unknown tool: reboot_server'}\<close> for the call's id, nothing
  is escalated, and the run ends after the second call.
\<close>

theorem scenario_unknown_tool:
  "map_option (map_sum id (\<lambda>s. (last (messages s), result_data s, effects s, n_calls s)))
     (call_triage_llm_with_tools (scripted_env [reboot_call]) cfg_default incident) =
   Some (Inr (tool_result_msg ''call_1'' (py_repr (JObj [(''error'', JStr ''Unknown tool: reboot_server'')])),
              [], [], 2))"
  by code_simp

text \<open>
  The report printed after the escalation scenario: summary and severity are
  \<open>(none)\<close>, no actions are listed, and the escalation line names ticket
  \<open>None\<close> although \<open>TICKET-ABC123\<close> was generated.
\<close>

theorem scenario_report:
  "run_workflow_with_function_calling (scripted_env [escalate_call]) cfg_default incident =
   Some (Inr [[CHR 0x0A] @ ''=== Workflow Results ==='', ''Summary : (none)'', ''Severity: (none)'', ''Actions :'',
              [CHR 0x0A] @ check_mark @ '' Crisis escalated - Ticket: None'',
              [CHR 0x0A] @ ''=== Workflow Complete ===''])"
  by code_simp

text \<open>
  The spec's JSON-mode scenario on \<open>exercise7.py\<close>: for "Production
  database is down" the model answers the CRISIS object at once. The workflow
  creates \<open>TICKET-ABC123\<close>, saves it, sends one (simulated) e-mail with
  severity CRISIS and the action listed, updates the dashboards, and prints the
  score 95.
\<close>

theorem scenario_json_crisis:
  "run_workflow (json_env (Some escalate_args)) cfg_default incident =
   Inr (''TICKET-ABC123'', 95,
        \<lparr>wf_uuids = 1,
         wf_events = [TicketCreated ''TICKET-ABC123'' ''CRISIS'' (JStr ''DB outage''), DbSaved ''TICKET-ABC123'',
                      EmailSimulated ''[CRISIS] Incident TICKET-ABC123 - DB outage''
                        [''Incident ID: TICKET-ABC123'', ''Severity   : CRISIS'', [], ''Recommended actions:'',
                         ''  1. page oncall''],
                      DashboardUpdated]\<rparr>)"
  by code_simp

text \<open>
  A lower-case \<open>"alert"\<close> with no summary and a single action given as a
  string: the label is upper-cased before the decision, so the e-mail is sent;
  the summary is the default and the action becomes a one-item list.
\<close>

theorem scenario_json_alert_coerced:
  "run_workflow (json_env (Some alert_reply)) cfg_default incident =
   Inr (''TICKET-ABC123'', 65,
        \<lparr>wf_uuids = 1,
         wf_events = [TicketCreated ''TICKET-ABC123'' ''ALERT'' (JStr ''(no summary)''), DbSaved ''TICKET-ABC123'',
                      EmailSimulated ''[ALERT] Incident TICKET-ABC123 - (no summary)''
                        [''Incident ID: TICKET-ABC123'', ''Severity   : ALERT'', [], ''Recommended actions:'',
                         ''  1. page oncall''],
                      DashboardUpdated]\<rparr>)"
  by code_simp

text \<open>
  A console session of \<open>exercise4_enhanced.py\<close>: the padded first line
  is stripped and answered; the failing second turn is printed as an API error
  and dropped from the log; \<open>RESET\<close> clears the log; the blank line is
  skipped; \<open>Quit\<close> ends the run after three calls, with the log holding the
  system prompt and the last exchange only.
\<close>

theorem scenario_chat_session:
  "map_sum id (\<lambda>s. (ch_messages s, ch_calls s, last (ch_out s)))
     (run_chat_loop flaky_env None session) =
   Inr ([plain_msg System default_system_prompt, plain_msg User ''Printer jams'',
         assistant_reply_msg (Some ''Try restarting.'')], 3, ''Exiting.'')"
  by code_simp

text \<open>
  \<open>exercise3.py\<close> does not strip before comparing with \<open>quit\<close>: the
  line \<open>" quit"\<close> is sent to the model as a question, and only the blank line
  after it ends the loop.
\<close>

theorem scenario_basic_quit_padded:
  "map_sum id (\<lambda>(rqs, out). (map rq_messages rqs, out))
     (basic_loop echo_env 0 [Line '' quit'', Line '' '', Line ''never sent'']) =
   Inr ([[plain_msg User '' quit'']], [''AI: Try restarting.'', ''AI: bye.''])"
  by code_simp

text \<open>
  The coffee store's output on \<open>coffee_session\<close>, as the script prints it
  (checked against Python): the subtotal 19.75 is above 15, so 10\<percent> is taken off,
  1.975 as a float rounding to 1.98; the 13\<percent> tax on 17.77 is 2.31.
\<close>

theorem scenario_coffee_receipt:
  "map_sum id (py_join [CHR 0x0A]) (coffee_main coffee_session) =
   Inr (''Welcome to the Advanced Coffee Store (function-based)!'' @ [CHR 0x0A] @ [CHR 0x0A] @ ''Today'' @ [CHR 0x27] @ ''s menu:'' @ [CHR 0x0A] @ ''1. Espresso - $2.50 (Coffee)'' @ [CHR 0x0A] @ ''2. Americano - $3.00 (Coffee)'' @ [CHR 0x0A] @ ''3. Latte - $3.50 (Coffee)'' @ [CHR 0x0A] @ ''4. Cappuccino - $3.75 (Coffee)'' @ [CHR 0x0A] @ ''5. Tea - $2.00 (Hot Drink)'' @ [CHR 0x0A] @ ''Added 3 x Americano. Current subtotal: $9.00'' @ [CHR 0x0A] @ ''Added 2 x Latte. Current subtotal: $16.00'' @ [CHR 0x0A] @ ''Added 1 x Cappuccino. Current subtotal: $19.75'' @ [CHR 0x0A] @ [CHR 0x0A] @ ''--- Receipt ---'' @ [CHR 0x0A] @ ''Customer: Ana'' @ [CHR 0x0A] @ ''Americano x3 @ $3.00 = $9.00'' @ [CHR 0x0A] @ ''Latte x2 @ $3.50 = $7.00'' @ [CHR 0x0A] @ ''Cappuccino x1 @ $3.75 = $3.75'' @ [CHR 0x0A] @ ''Subtotal: $19.75'' @ [CHR 0x0A] @ ''Discount: -$1.98'' @ [CHR 0x0A] @ ''Tax: $2.31'' @ [CHR 0x0A] @ ''Total due: $20.08'' @ [CHR 0x0A] @ ''-----------------'' @ [CHR 0x0A] @ [CHR 0x0A] @ ''(Types demonstration) customer: <class '' @ [CHR 0x27] @ ''str'' @ [CHR 0x27] @ ''> , order: <class '' @ [CHR 0x27] @ ''list'' @ [CHR 0x27] @ ''> , totals: <class '' @ [CHR 0x27] @ ''dict'' @ [CHR 0x27] @ ''>'')"
  by code_simp

section \<open>The beginner coffee store\<close>

theorem basic_total_exact_witness:
  "\<exists>order t. snd (basic_order_loop basic_menu (tl basic_session) [] 0) = Inr (order, t) \<and>
     sum_list (map ol_qty order) < 2 ^ 48 \<and> py_round2 t = sum_list (map ol_total order)"
proof -
  have "case snd (basic_order_loop basic_menu (tl basic_session) [] 0) of
          Inr (order, t) \<Rightarrow> sum_list (map ol_qty order) < 2 ^ 48 | Inl _ \<Rightarrow> False"
    by code_simp
  then obtain order t where r: "snd (basic_order_loop basic_menu (tl basic_session) [] 0) = Inr (order, t)"
    and b: "sum_list (map ol_qty order) < 2 ^ 48"
    by (auto split: sum.splits)
  show ?thesis using CoffeeBasic.basic_total_exact [OF r b] r b by blast
qed

theorem basic_order_bounded_witness:
  "\<exists>order t. snd (basic_order_loop basic_menu (tl basic_session) [] 0) = Inr (order, t) \<and>
     length order \<le> length basic_menu \<and> order \<noteq> []"
proof -
  have "case snd (basic_order_loop basic_menu (tl basic_session) [] 0) of
          Inr (order, t) \<Rightarrow> order \<noteq> [] | Inl _ \<Rightarrow> False"
    by code_simp
  then obtain order t where r: "snd (basic_order_loop basic_menu (tl basic_session) [] 0) = Inr (order, t)"
    and "order \<noteq> []"
    by (auto split: sum.splits)
  then show ?thesis using CoffeeBasic.basic_order_bounded [OF r] by blast
qed


text \<open>
  The beginner store's output on \<open>basic_session\<close>, as the script prints it
  (checked against Python): each rejected input gets its message, the second
  Latte line is merged into the first, the running total is printed after each
  addition, and the first order line is printed as the dict the script built,
  its floats in Python's shortest round-trip form (\<open>3.0\<close>, \<open>9.0\<close>).
\<close>

theorem scenario_basic_receipt:
  "(\<lambda>(ls, e). (py_join [CHR 0x0A] ls, e)) (coffee_basic basic_session) =
   (''Welcome to the Simple Coffee Store!'' @ [CHR 0x0A] @ ''Hello, Ana'' @ [CHR 0x0A] @ [CHR 0x0A] @ ''Today'' @ [CHR 0x27] @ ''s menu:'' @ [CHR 0x0A] @ ''1. Espresso - $2.50'' @ [CHR 0x0A] @ ''2. Americano - $3.00'' @ [CHR 0x0A] @ ''3. Latte - $3.50'' @ [CHR 0x0A] @ ''4. Cappuccino - $3.75'' @ [CHR 0x0A] @ ''5. Tea - $2.00'' @ [CHR 0x0A] @ ''Added 3 x Americano. Current subtotal: $9.00'' @ [CHR 0x0A] @ ''Added 2 x Latte. Current subtotal: $16.00'' @ [CHR 0x0A] @ ''Added 1 x Latte. Current subtotal: $19.50'' @ [CHR 0x0A] @ ''That item number is not on the menu. Try again.'' @ [CHR 0x0A] @ ''Couldn'' @ [CHR 0x27] @ ''t find that item name. Try again.'' @ [CHR 0x0A] @ ''Couldn'' @ [CHR 0x27] @ ''t find that item name. Try again.'' @ [CHR 0x0A] @ ''That item number is not on the menu. Try again.'' @ [CHR 0x0A] @ ''Added 1 x Tea. Current subtotal: $21.50'' @ [CHR 0x0A] @ [CHR 0x0A] @ ''--- Receipt ---'' @ [CHR 0x0A] @ ''Customer: Ana'' @ [CHR 0x0A] @ ''Americano x3 @ $3.00 = $9.00'' @ [CHR 0x0A] @ ''Latte x3 @ $3.50 = $10.50'' @ [CHR 0x0A] @ ''Tea x1 @ $2.00 = $2.00'' @ [CHR 0x0A] @ ''Total due: $21.50'' @ [CHR 0x0A] @ ''-----------------'' @ [CHR 0x0A] @ [CHR 0x0A] @ ''(For learning) Data types and collections:'' @ [CHR 0x0A] @ ''Type of customer_name: <class '' @ [CHR 0x27] @ ''str'' @ [CHR 0x27] @ ''>'' @ [CHR 0x0A] @ ''Type of final_total: <class '' @ [CHR 0x27] @ ''float'' @ [CHR 0x27] @ ''>'' @ [CHR 0x0A] @ ''Menu keys (item names): ['' @ [CHR 0x27] @ ''Espresso'' @ [CHR 0x27] @ '', '' @ [CHR 0x27] @ ''Americano'' @ [CHR 0x27] @ '', '' @ [CHR 0x27] @ ''Latte'' @ [CHR 0x27] @ '', '' @ [CHR 0x27] @ ''Cappuccino'' @ [CHR 0x27] @ '', '' @ [CHR 0x27] @ ''Tea'' @ [CHR 0x27] @ '']'' @ [CHR 0x0A] @ ''Order is a list with 3 distinct items.'' @ [CHR 0x0A] @ ''First order line (example): {'' @ [CHR 0x27] @ ''name'' @ [CHR 0x27] @ '': '' @ [CHR 0x27] @ ''Americano'' @ [CHR 0x27] @ '', '' @ [CHR 0x27] @ ''price'' @ [CHR 0x27] @ '': 3.0, '' @ [CHR 0x27] @ ''qty'' @ [CHR 0x27] @ '': 3, '' @ [CHR 0x27] @ ''line_total'' @ [CHR 0x27] @ '': 9.0}'' @ [CHR 0x0A] @ [CHR 0x0A] @ ''Thank you! Goodbye!'', None)"
  by code_simp

section \<open>The entry point of the function-calling script\<close>


end
